theory Spec2Isabelle
  imports Complex_Main
begin

section \<open>Data model\<close>

text \<open>
  A queryset is modelled as the list of rows it yields, in the order the store returns
  them. The queryset operations used by \<^verbatim>\<open>data_log/reports/generate.py\<close> become list
  operations: \<^verbatim>\<open>qs.filter(p)\<close> is \<open>filter p qs\<close>, \<^verbatim>\<open>qs.count()\<close> is \<open>length qs\<close>,
  \<^verbatim>\<open>qs[:n]\<close> is \<open>take n qs\<close> and \<^verbatim>\<open>qs[i]\<close> is \<open>qs ! i\<close>. Timestamps and time spans are
  integers (seconds); \<^verbatim>\<open>timezone.now()\<close> is the parameter \<open>now\<close>.
\<close>

record log_record =
  log_pk :: nat
  level :: nat
  grade :: int
  success :: bool
  wizard_id :: int
  timestamp :: int

section \<open>Sampling window selection\<close>

text \<open>
  \<^verbatim>\<open>_records_to_report(qs, report_timespan, minimum_count)\<close>. The index
  \<^verbatim>\<open>results.count() - 1\<close> is only read under the guard \<^verbatim>\<open>results.count() > 0\<close>, so it is
  always in range.
\<close>

definition records_to_report :: "int \<Rightarrow> log_record list \<Rightarrow> int \<Rightarrow> nat \<Rightarrow> log_record list" where
  "records_to_report now qs report_timespan minimum_count =
     (if length (filter (\<lambda>r. timestamp r \<ge> now - report_timespan) qs) < minimum_count then
        (let results = take minimum_count qs in
         if length results > 0 then
           (let earliest_record = results ! (length results - 1) in
            filter (\<lambda>r. timestamp r \<ge> timestamp earliest_record) qs)
         else qs)
      else filter (\<lambda>r. timestamp r \<ge> now - report_timespan) qs)"

text \<open>The default ordering of a log queryset: most recent first.\<close>

definition most_recent_first :: "log_record list \<Rightarrow> bool" where
  "most_recent_first qs = sorted_wrt (\<lambda>a b. timestamp a \<ge> timestamp b) qs"

section \<open>Python values, errors and the helpers of the store\<close>

text \<open>
  The reports are nested Python dictionaries and lists; they are embedded as \<open>jval\<close>. A
  dictionary keeps its insertion order, so it is an association list.
\<close>

datatype jval =
    JNone
  | JBool bool
  | JInt int
  | JReal real
  | JStr string
  | JList "jval list"
  | JDict "(jval \<times> jval) list"

text \<open>
  The exceptions that can leave the report code: the \<^verbatim>\<open>NotImplementedError\<close> it raises
  itself, the store's error for a division by zero inside a query (\<open>DataError\<close>), the
  store's error for a queryset that lacks the fields a query names (\<open>FieldError\<close>), and
  Python's \<^verbatim>\<open>KeyError\<close> for a dictionary read under a missing key.
\<close>

datatype error = NotImplementedError string | DataError | FieldError | KeyError string

definition rbind :: "error + 'a \<Rightarrow> ('a \<Rightarrow> error + 'b) \<Rightarrow> error + 'b" where
  "rbind m f = (case m of Inl e \<Rightarrow> Inl e | Inr x \<Rightarrow> f x)"

fun rmap :: "('a \<Rightarrow> error + 'b) \<Rightarrow> 'a list \<Rightarrow> error + 'b list" where
  "rmap f [] = Inr []"
| "rmap f (x # xs) = rbind (f x) (\<lambda>y. rbind (rmap f xs) (\<lambda>ys. Inr (y # ys)))"

definition jdict :: "(string \<times> jval) list \<Rightarrow> jval" where
  "jdict kvs = JDict (map (\<lambda>(k, v). (JStr k, v)) kvs)"

fun jget :: "string \<Rightarrow> jval \<Rightarrow> jval option" where
  "jget k (JDict kvs) = map_of kvs (JStr k)"
| "jget k _ = None"

fun dict_set :: "'k \<Rightarrow> 'v \<Rightarrow> ('k \<times> 'v) list \<Rightarrow> ('k \<times> 'v) list" where
  "dict_set k v [] = [(k, v)]"
| "dict_set k v ((k', v') # kvs) =
     (if k = k' then (k, v) # kvs else (k', v') # dict_set k v kvs)"

text \<open>Python truthiness, as \<^verbatim>\<open>if table_data:\<close> reads it.\<close>

fun truthy :: "jval \<Rightarrow> bool" where
  "truthy JNone = False"
| "truthy (JBool b) = b"
| "truthy (JInt i) = (i \<noteq> 0)"
| "truthy (JReal x) = (x \<noteq> 0)"
| "truthy (JStr s) = (s \<noteq> [])"
| "truthy (JList xs) = (xs \<noteq> [])"
| "truthy (JDict kvs) = (kvs \<noteq> [])"

text \<open>
  \<^verbatim>\<open>values(...).annotate(...)\<close> groups the rows by the named values. The store fixes no
  order for the groups; the model lists them by their key's last occurrence.
  \<^verbatim>\<open>order_by\<close> is a stable sort of that list.
\<close>

definition group_by :: "('a \<Rightarrow> 'k) \<Rightarrow> 'a list \<Rightarrow> ('k \<times> 'a list) list" where
  "group_by key xs = map (\<lambda>k. (k, filter (\<lambda>x. key x = k) xs)) (remdups (map key xs))"

text \<open>
  The aggregates \<^verbatim>\<open>Min\<close>, \<^verbatim>\<open>Max\<close>, \<^verbatim>\<open>Avg\<close> and \<^verbatim>\<open>Sum\<close> are \<^verbatim>\<open>NULL\<close> (Python's
  \<^verbatim>\<open>None\<close>) over no rows; \<^verbatim>\<open>Count\<close> is the number of rows. Floating-point columns are
  modelled by exact reals.
\<close>

definition agg_min :: "int list \<Rightarrow> jval" where
  "agg_min xs = (case xs of [] \<Rightarrow> JNone | x # r \<Rightarrow> JInt (fold min r x))"

definition agg_max :: "int list \<Rightarrow> jval" where
  "agg_max xs = (case xs of [] \<Rightarrow> JNone | x # r \<Rightarrow> JInt (fold max r x))"

definition agg_avg :: "int list \<Rightarrow> jval" where
  "agg_avg xs =
     (if xs = [] then JNone else JReal (real_of_int (sum_list xs) / real (length xs)))"

definition agg_sum :: "int list \<Rightarrow> int option" where
  "agg_sum xs = (if xs = [] then None else Some (sum_list xs))"

text \<open>
  A division evaluated by the store: \<^verbatim>\<open>Cast(..., FloatField()) / total_log_count\<close>. The
  store raises on a zero divisor; a \<^verbatim>\<open>NULL\<close> numerator gives \<^verbatim>\<open>NULL\<close>.
\<close>

definition db_div :: "real \<Rightarrow> nat \<Rightarrow> error + real" where
  "db_div x n = (if n = 0 then Inl DataError else Inr (x / real n))"

text \<open>\<^verbatim>\<open>Cast(Count('pk'), FloatField()) / total_log_count * 100\<close>\<close>

definition drop_chance_of :: "nat \<Rightarrow> nat \<Rightarrow> error + jval" where
  "drop_chance_of cnt total_log_count =
     rbind (db_div (real cnt) total_log_count) (\<lambda>q. Inr (JReal (q * 100)))"

text \<open>\<^verbatim>\<open>Cast(Sum('quantity'), FloatField()) / total_log_count\<close>\<close>

definition avg_per_run_of :: "int list \<Rightarrow> nat \<Rightarrow> error + jval" where
  "avg_per_run_of quantities total_log_count =
     (case agg_sum quantities of
        None \<Rightarrow> Inr JNone
      | Some s \<Rightarrow> rbind (db_div (real_of_int s) total_log_count) (\<lambda>q. Inr (JReal q)))"

subsection \<open>Helpers of \<^verbatim>\<open>data_log.util\<close>\<close>

text \<open>
  Modelled from the spec: \<^verbatim>\<open>replace_value_with_choice\<close> of \<^verbatim>\<open>data_log.util\<close> is not among
  the sources. The spec describes it as the substitution of a coded value by its label
  from the field's choices, a pure mapping step after aggregation: in every row, the value
  under each named key is replaced by its label when the choices list it.
\<close>

fun replace_in_row :: "(string \<times> (jval \<times> jval) list) \<Rightarrow> jval \<Rightarrow> jval" where
  "replace_in_row (key, choices) (JDict kvs) =
     JDict (map (\<lambda>(k, v). if k = JStr key
                          then (k, (case map_of choices v of Some label \<Rightarrow> label | None \<Rightarrow> v))
                          else (k, v)) kvs)"
| "replace_in_row _ row = row"

definition replace_value_with_choice ::
  "jval list \<Rightarrow> (string \<times> (jval \<times> jval) list) list \<Rightarrow> jval list" where
  "replace_value_with_choice data replacements =
     map (\<lambda>row. fold replace_in_row replacements row) data"

text \<open>
  Modelled from the spec: \<^verbatim>\<open>transform_to_dict\<close> of \<^verbatim>\<open>data_log.util\<close> is not among the
  sources. The spec lists the rune breakdowns as occurrences by value, so a list of rows
  \<^verbatim>\<open>{<name>: v, 'count': n}\<close> becomes the dictionary from each \<open>v\<close> to its \<open>n\<close>.
\<close>

fun row_to_entry :: "jval \<Rightarrow> (jval \<times> jval) list" where
  "row_to_entry (JDict kvs) =
     (case (filter (\<lambda>(k, v). k \<noteq> JStr ''count'') kvs, map_of kvs (JStr ''count'')) of
        ((k, v) # _, Some n) \<Rightarrow> [(v, n)]
      | _ \<Rightarrow> [])"
| "row_to_entry _ = []"

definition transform_to_dict :: "jval list \<Rightarrow> jval" where
  "transform_to_dict rows =
     JDict (fold (\<lambda>row d. fold (\<lambda>(k, v). dict_set k v) (row_to_entry row) d) rows [])"

text \<open>
  Modelled from the spec: \<^verbatim>\<open>floor_to_nearest\<close> and \<^verbatim>\<open>ceil_to_nearest\<close> of
  \<^verbatim>\<open>data_log.util\<close> are not among the sources. The spec: the range is rounded down and up
  to the nearest thousand, \<^verbatim>\<open>floor(min/1000)*1000\<close> and \<^verbatim>\<open>ceil(max/1000)*1000\<close>.
\<close>

definition floor_to_nearest :: "int \<Rightarrow> int \<Rightarrow> int" where
  "floor_to_nearest num multiple_of = (num div multiple_of) * multiple_of"

definition ceil_to_nearest :: "int \<Rightarrow> int \<Rightarrow> int" where
  "ceil_to_nearest num multiple_of = - ((- num) div multiple_of) * multiple_of"

text \<open>Python's \<^verbatim>\<open>range(start, stop, step)\<close> for a positive step.\<close>

definition py_range :: "int \<Rightarrow> int \<Rightarrow> int \<Rightarrow> int list" where
  "py_range start stop step =
     map (\<lambda>k. start + int k * step) [0 ..< nat ((stop - start + step - 1) div step)]"

section \<open>Catalog rows, drop rows and model constants\<close>

text \<open>
  A foreign key is followed by embedding the row it refers to: \<^verbatim>\<open>item__name\<close> of an item
  drop is \<open>item_name (idrop_item d)\<close>. \<open>*_log\<close> is the primary key of the log record a drop
  belongs to.
\<close>

record game_item =
  item_pk :: nat
  item_name :: string
  item_icon :: string
  item_category :: int

record monster =
  monster_pk :: nat
  monster_name :: string
  bestiary_slug :: string
  image_filename :: string
  element :: jval
  can_awaken :: bool
  is_awakened :: bool
  base_stars :: int
  family_id :: int
  com2us_id :: int

record item_drop =
  idrop_log :: nat
  idrop_item :: game_item
  idrop_quantity :: int

record monster_drop =
  mdrop_log :: nat
  mdrop_monster :: monster
  mdrop_grade :: int

record monster_piece_drop =
  pdrop_log :: nat
  pdrop_monster :: monster
  pdrop_quantity :: int

record rune_drop =
  rune_log :: nat
  rune_stars :: int
  rune_type :: int
  rune_quality :: int
  rune_slot :: int
  rune_main_stat :: int
  rune_innate_stat :: int
  rune_substats :: "int list"
  rune_max_efficiency :: real
  rune_value :: int

record rune_craft_drop =
  craft_log :: nat
  craft_type :: int
  craft_rune :: int
  craft_quality :: int

record secret_dungeon_drop =
  sdrop_log :: nat
  sdrop_monster :: monster

text \<open>A drop queryset of some category, as the dynamically typed code passes it around.\<close>

datatype drop_qs =
    ItemQS "item_drop list"
  | MonsterQS "monster_drop list"
  | MonsterPieceQS "monster_piece_drop list"
  | RuneQS "rune_drop list"
  | RuneCraftQS "rune_craft_drop list"
  | SecretDungeonQS "secret_dungeon_drop list"

fun qs_count :: "drop_qs \<Rightarrow> nat" where
  "qs_count (ItemQS rows) = length rows"
| "qs_count (MonsterQS rows) = length rows"
| "qs_count (MonsterPieceQS rows) = length rows"
| "qs_count (RuneQS rows) = length rows"
| "qs_count (RuneCraftQS rows) = length rows"
| "qs_count (SecretDungeonQS rows) = length rows"

text \<open>
  The constants of \<^verbatim>\<open>bestiary.models\<close> and \<^verbatim>\<open>data_log.models\<close> that the report code reads
  are not among the sources; they are parameters of the model.
\<close>

record model_constants =
  CATEGORY_CURRENCY :: int
  ELEMENT_CHOICES :: "(jval \<times> jval) list"
  TYPE_CHOICES :: "(jval \<times> jval) list"
  QUALITY_CHOICES :: "(jval \<times> jval) list"
  STAT_CHOICES :: "(jval \<times> jval) list"
  GRADE_CHOICES :: "(int \<times> string) list"

text \<open>
  Modelled from the spec: the \<^verbatim>\<open>RELATED_NAME\<close> constants of the six drop models are not
  among the sources. \<^verbatim>\<open>grade_summary_report\<close> reads the item and monster drops under the
  keys \<^verbatim>\<open>'items'\<close> and \<^verbatim>\<open>'monsters'\<close>; the other four keys are named after the spec's
  categories monster piece, rune, rune craft and secret dungeon.
\<close>

definition ItemDrop_RELATED_NAME :: string where
  "ItemDrop_RELATED_NAME = ''items''"

definition MonsterDrop_RELATED_NAME :: string where
  "MonsterDrop_RELATED_NAME = ''monsters''"

definition MonsterPieceDrop_RELATED_NAME :: string where
  "MonsterPieceDrop_RELATED_NAME = ''monster_pieces''"

definition RuneDrop_RELATED_NAME :: string where
  "RuneDrop_RELATED_NAME = ''runes''"

definition RuneCraftDrop_RELATED_NAME :: string where
  "RuneCraftDrop_RELATED_NAME = ''rune_crafts''"

definition DungeonSecretDungeonDrop_RELATED_NAME :: string where
  "DungeonSecretDungeonDrop_RELATED_NAME = ''secret_dungeons''"

section \<open>Summary composer\<close>

subsection \<open>The chart name of a category key\<close>

text \<open>
  \<^verbatim>\<open>' '.join([s.capitalize() for s in drop_type.split('_')]).rstrip('s')\<close>, for keys of
  ASCII characters.
\<close>

fun split_on :: "char \<Rightarrow> string \<Rightarrow> string list" where
  "split_on c [] = [[]]"
| "split_on c (x # xs) =
     (if x = c then [] # split_on c xs
      else (case split_on c xs of [] \<Rightarrow> [[x]] | w # ws \<Rightarrow> (x # w) # ws))"

definition upper_char :: "char \<Rightarrow> char" where
  "upper_char c =
     (if 97 \<le> (of_char c :: nat) \<and> (of_char c :: nat) \<le> 122
      then char_of ((of_char c :: nat) - 32) else c)"

definition lower_char :: "char \<Rightarrow> char" where
  "lower_char c =
     (if 65 \<le> (of_char c :: nat) \<and> (of_char c :: nat) \<le> 90
      then char_of ((of_char c :: nat) + 32) else c)"

definition capitalize :: "string \<Rightarrow> string" where
  "capitalize s = (case s of [] \<Rightarrow> [] | c # cs \<Rightarrow> upper_char c # map lower_char cs)"

fun join_with :: "string \<Rightarrow> string list \<Rightarrow> string" where
  "join_with sep [] = []"
| "join_with sep [w] = w"
| "join_with sep (w # ws) = w @ sep @ join_with sep ws"

definition rstrip :: "char \<Rightarrow> string \<Rightarrow> string" where
  "rstrip c s = rev (dropWhile (\<lambda>x. x = c) (rev s))"

definition chart_item_name :: "string \<Rightarrow> string" where
  "chart_item_name drop_type =
     rstrip (CHR ''s'') (join_with '' '' (map capitalize (split_on (CHR ''_'') drop_type)))"

subsection \<open>Chart and table of the item drops\<close>

definition item_chart_data :: "model_constants \<Rightarrow> item_drop list \<Rightarrow> jval list" where
  "item_chart_data mc qs =
     map (\<lambda>(name, grp). jdict [(''name'', JStr name), (''count'', JInt (int (length grp)))])
       (sort_key (\<lambda>(name, grp). - int (length grp))
         (filter (\<lambda>(name, grp). length grp > 0)
           (group_by (\<lambda>d. item_name (idrop_item d))
             (filter (\<lambda>d. item_category (idrop_item d) \<noteq> CATEGORY_CURRENCY mc) qs))))"

text \<open>
  The statistics both item tables annotate a group with. \<open>cnt\<close> is \<^verbatim>\<open>Count('pk')\<close>.
\<close>

definition item_stats :: "nat \<Rightarrow> item_drop list \<Rightarrow> error + (string \<times> jval) list" where
  "item_stats total_log_count grp =
     rbind (drop_chance_of (length grp) total_log_count) (\<lambda>drop_chance.
     rbind (avg_per_run_of (map idrop_quantity grp) total_log_count) (\<lambda>avg_per_run.
       Inr [(''count'', JInt (int (length grp))),
            (''min'', agg_min (map idrop_quantity grp)),
            (''max'', agg_max (map idrop_quantity grp)),
            (''avg'', agg_avg (map idrop_quantity grp)),
            (''drop_chance'', drop_chance),
            (''avg_per_run'', avg_per_run)]))"

text \<open>
  The table orders by \<^verbatim>\<open>item__category\<close> and then by descending count; an ordering column
  that is no annotation joins the grouping columns.
\<close>

definition item_table_data :: "nat \<Rightarrow> item_drop list \<Rightarrow> error + jval list" where
  "item_table_data total_log_count qs =
     rmap (\<lambda>((name, icon, category), grp).
             rbind (item_stats total_log_count grp) (\<lambda>stats.
               Inr (jdict ([(''name'', JStr name), (''icon'', JStr icon)] @ stats))))
       (sort_key (\<lambda>((name, icon, category), grp). category)
         (sort_key (\<lambda>(k, grp). - int (length grp))
           (filter (\<lambda>(k, grp). length grp > 0)
             (group_by (\<lambda>d. (item_name (idrop_item d), item_icon (idrop_item d),
                              item_category (idrop_item d))) qs))))"

subsection \<open>Chart and table of the monster drops\<close>

text \<open>
  \<^verbatim>\<open>Cast(n, CharField())\<close>: the decimal digits of an integer. The star of the source's
  labels is the three bytes of its UTF-8 encoding.
\<close>

fun digits_of :: "nat \<Rightarrow> string" where
  "digits_of n =
     (if n < 10 then [char_of (48 + n)] else digits_of (n div 10) @ [char_of (48 + n mod 10)])"

definition str_of_int :: "int \<Rightarrow> string" where
  "str_of_int i = (if i < 0 then CHR ''-'' # digits_of (nat (- i)) else digits_of (nat i))"

definition star :: string where
  "star = [CHR 0xE2, CHR 0xAD, CHR 0x90]"

text \<open>The chart counts the monster drops by stars.\<close>

definition monster_chart_data :: "monster_drop list \<Rightarrow> jval list" where
  "monster_chart_data qs =
     map (\<lambda>(g, grp). jdict [(''name'', JStr (str_of_int g @ star @ '' Monster'')),
                             (''count'', JInt (int (length grp)))])
       (sort_key (\<lambda>(g, grp). - int (length grp))
         (filter (\<lambda>(g, grp). length grp > 0) (group_by mdrop_grade qs)))"

definition monster_table_key ::
  "monster_drop \<Rightarrow> string \<times> string \<times> string \<times> jval \<times> bool \<times> bool \<times> int" where
  "monster_table_key d =
     (monster_name (mdrop_monster d), bestiary_slug (mdrop_monster d),
      image_filename (mdrop_monster d), element (mdrop_monster d),
      can_awaken (mdrop_monster d), is_awakened (mdrop_monster d),
      base_stars (mdrop_monster d))"

definition monster_table_rows :: "nat \<Rightarrow> monster_drop list \<Rightarrow> error + jval list" where
  "monster_table_rows total_log_count qs =
     rmap (\<lambda>((name, slug, icon, elt, can_awk, is_awk, stars), grp).
             rbind (drop_chance_of (length grp) total_log_count) (\<lambda>drop_chance.
               Inr (jdict [(''name'', JStr name), (''slug'', JStr slug), (''icon'', JStr icon),
                           (''element'', elt), (''can_awaken'', JBool can_awk),
                           (''is_awakened'', JBool is_awk), (''stars'', JInt stars),
                           (''count'', JInt (int (length grp))),
                           (''drop_chance'', drop_chance)])))
       (group_by monster_table_key qs)"

definition monster_table_data :: "model_constants \<Rightarrow> nat \<Rightarrow> monster_drop list \<Rightarrow> error + jval list" where
  "monster_table_data mc total_log_count qs =
     rbind (monster_table_rows total_log_count qs) (\<lambda>rows.
       Inr (replace_value_with_choice rows [(''element'', ELEMENT_CHOICES mc)]))"

subsection \<open>Tables of the other categories\<close>

text \<open>
  The monster piece table passes its aggregates to \<^verbatim>\<open>values()\<close> itself. They are then
  annotated before any value column is chosen, which groups by the drop row: the table has
  one row for each drop.
\<close>

definition monster_piece_table_data :: "model_constants \<Rightarrow> monster_piece_drop list \<Rightarrow> jval list" where
  "monster_piece_table_data mc qs =
     replace_value_with_choice
       (map (\<lambda>d. jdict [(''name'', JStr (monster_name (pdrop_monster d))),
                         (''icon'', JStr (image_filename (pdrop_monster d))),
                         (''element'', element (pdrop_monster d)),
                         (''count'', JInt 1),
                         (''min'', agg_min [pdrop_quantity d]),
                         (''max'', agg_max [pdrop_quantity d]),
                         (''avg'', agg_avg [pdrop_quantity d])]) qs)
       [(''element'', ELEMENT_CHOICES mc)]"

text \<open>\<^verbatim>\<open>qs.values(field).annotate(count=Count('pk')).order_by(field)\<close>\<close>

definition counts_by :: "string \<Rightarrow> ('a \<Rightarrow> int) \<Rightarrow> 'a list \<Rightarrow> jval list" where
  "counts_by field f qs =
     map (\<lambda>(v, grp). jdict [(field, JInt v), (''count'', JInt (int (length grp)))])
       (sort_key fst (group_by f qs))"

definition rune_table_data :: "model_constants \<Rightarrow> rune_drop list \<Rightarrow> jval" where
  "rune_table_data mc qs =
     jdict [(''sets'', JList (replace_value_with_choice (counts_by ''type'' rune_type qs)
                                [(''type'', TYPE_CHOICES mc)])),
            (''slots'', JList (counts_by ''slot'' rune_slot qs)),
            (''quality'', JList (replace_value_with_choice
                                  (counts_by ''quality'' rune_quality qs)
                                  [(''quality'', QUALITY_CHOICES mc)]))]"

definition rune_craft_table_data :: "model_constants \<Rightarrow> rune_craft_drop list \<Rightarrow> jval list" where
  "rune_craft_table_data mc qs =
     replace_value_with_choice
       (map (\<lambda>((t, r, q), grp). jdict [(''type'', JInt t), (''rune'', JInt r),
                                       (''quality'', JInt q),
                                       (''count'', JInt (int (length grp)))])
          (sort_key (\<lambda>((t, r, q), grp). t)
            (sort_key (\<lambda>((t, r, q), grp). r)
              (sort_key (\<lambda>((t, r, q), grp). q)
                (group_by (\<lambda>d. (craft_type d, craft_rune d, craft_quality d)) qs)))))
       [(''type'', TYPE_CHOICES mc), (''quality'', QUALITY_CHOICES mc)]"

definition secret_dungeon_table_data ::
  "model_constants \<Rightarrow> secret_dungeon_drop list \<Rightarrow> jval list" where
  "secret_dungeon_table_data mc qs =
     replace_value_with_choice
       (map (\<lambda>((name, elt, icon), grp). jdict [(''name'', JStr name), (''element'', elt),
                                                (''icon'', JStr icon),
                                                (''count'', JInt (int (length grp)))])
          (group_by (\<lambda>d. (monster_name (sdrop_monster d), element (sdrop_monster d),
                           image_filename (sdrop_monster d))) qs))
       [(''element'', ELEMENT_CHOICES mc)]"

subsection \<open>\<^verbatim>\<open>get_report_summary\<close>\<close>

text \<open>
  One pass of the loop body for a category key and its queryset: the chart entries and the
  table of that category. A queryset of another category than the key names lacks the
  fields the queries name, which the store refuses with \<open>FieldError\<close>.
\<close>

definition summary_data ::
  "model_constants \<Rightarrow> nat \<Rightarrow> string \<Rightarrow> drop_qs \<Rightarrow> error + (jval list \<times> jval)" where
  "summary_data mc total_log_count drop_type qs =
     (if drop_type = ItemDrop_RELATED_NAME then
        (case qs of
           ItemQS rows \<Rightarrow>
             rbind (item_table_data total_log_count rows) (\<lambda>table_data.
               Inr (item_chart_data mc rows, JList table_data))
         | _ \<Rightarrow> Inl FieldError)
      else if drop_type = MonsterDrop_RELATED_NAME then
        (case qs of
           MonsterQS rows \<Rightarrow>
             rbind (monster_table_data mc total_log_count rows) (\<lambda>table_data.
               Inr (monster_chart_data rows, JList table_data))
         | _ \<Rightarrow> Inl FieldError)
      else
        (let item_name = chart_item_name drop_type;
             count = qs_count qs;
             chart_data = (if count > 0
                           then [jdict [(''name'', JStr item_name), (''count'', JInt (int count))]]
                           else [])
         in
           if drop_type = MonsterPieceDrop_RELATED_NAME then
             (case qs of
                MonsterPieceQS rows \<Rightarrow> Inr (chart_data, JList (monster_piece_table_data mc rows))
              | _ \<Rightarrow> Inl FieldError)
           else if drop_type = RuneDrop_RELATED_NAME then
             (case qs of
                RuneQS rows \<Rightarrow> Inr (chart_data, rune_table_data mc rows)
              | _ \<Rightarrow> Inl FieldError)
           else if drop_type = RuneCraftDrop_RELATED_NAME then
             (case qs of
                RuneCraftQS rows \<Rightarrow> Inr (chart_data, JList (rune_craft_table_data mc rows))
              | _ \<Rightarrow> Inl FieldError)
           else if drop_type = DungeonSecretDungeonDrop_RELATED_NAME then
             (case qs of
                SecretDungeonQS rows \<Rightarrow> Inr (chart_data, JList (secret_dungeon_table_data mc rows))
              | _ \<Rightarrow> Inl FieldError)
           else
             Inl (NotImplementedError (''No summary table generation for '' @ drop_type))))"

text \<open>
  The loop over \<^verbatim>\<open>drops.items()\<close>, threading \<^verbatim>\<open>summary['table']\<close> and
  \<^verbatim>\<open>summary['chart']\<close>.
\<close>

fun summary_loop ::
  "model_constants \<Rightarrow> nat \<Rightarrow> (string \<times> drop_qs) list \<Rightarrow> (string \<times> jval) list \<Rightarrow> jval list \<Rightarrow>
     error + ((string \<times> jval) list \<times> jval list)" where
  "summary_loop mc total_log_count [] table chart = Inr (table, chart)"
| "summary_loop mc total_log_count ((drop_type, qs) # drops) table chart =
     rbind (summary_data mc total_log_count drop_type qs) (\<lambda>(chart_data, table_data).
       summary_loop mc total_log_count drops
         (if truthy table_data then dict_set drop_type table_data table else table)
         (chart @ chart_data))"

definition get_report_summary ::
  "model_constants \<Rightarrow> (string \<times> drop_qs) list \<Rightarrow> nat \<Rightarrow> error + jval" where
  "get_report_summary mc drops total_log_count =
     rbind (summary_loop mc total_log_count drops [] []) (\<lambda>(table, chart).
       Inr (jdict [(''table'', jdict table), (''chart'', JList chart)]))"

section \<open>Category aggregators\<close>

definition get_item_report :: "model_constants \<Rightarrow> drop_qs \<Rightarrow> nat \<Rightarrow> error + jval" where
  "get_item_report mc qs total_log_count =
     (if qs_count qs = 0 then Inr JNone
      else case qs of
        ItemQS rows \<Rightarrow>
          rbind
            (rmap (\<lambda>((pk, name, icon), grp).
                     rbind (item_stats total_log_count grp) (\<lambda>stats.
                       Inr (jdict ([(''item'', JInt (int pk)), (''name'', JStr name),
                                    (''icon'', JStr icon)] @ stats))))
               (sort_key (\<lambda>(k, grp). - int (length grp))
                 (group_by (\<lambda>d. (item_pk (idrop_item d), item_name (idrop_item d),
                                  item_icon (idrop_item d))) rows)))
            (\<lambda>results. Inr (JList results))
      | _ \<Rightarrow> Inl FieldError)"

definition occurrences :: "nat \<Rightarrow> jval \<Rightarrow> jval" where
  "occurrences n data =
     jdict [(''type'', JStr ''occurrences''), (''total'', JInt (int n)), (''data'', data)]"

definition mons_by_nat_stars :: "nat \<Rightarrow> monster_drop list \<Rightarrow> error + jval list" where
  "mons_by_nat_stars total_log_count qs =
     rmap (\<lambda>(stars, grp).
             rbind (drop_chance_of (length grp) total_log_count) (\<lambda>drop_chance.
               Inr (jdict [(''nat_stars'', JInt stars), (''count'', JInt (int (length grp))),
                           (''drop_chance'', drop_chance)])))
       (group_by (\<lambda>d. base_stars (mdrop_monster d)) qs)"

definition get_monster_report :: "model_constants \<Rightarrow> drop_qs \<Rightarrow> nat \<Rightarrow> error + jval" where
  "get_monster_report mc qs total_log_count =
     (if qs_count qs = 0 then Inr JNone
      else case qs of
        MonsterQS rows \<Rightarrow>
          rbind (mons_by_nat_stars total_log_count rows) (\<lambda>nat_stars.
            Inr (jdict
              [(''monsters'', occurrences (length rows) (JList
                  (map (\<lambda>((pk, name, elt, c2u, icon), grp).
                          jdict [(''monster'', JInt (int pk)), (''name'', JStr name),
                                 (''element'', elt), (''com2us_id'', JInt c2u),
                                 (''icon'', JStr icon), (''count'', JInt (int (length grp)))])
                     (group_by (\<lambda>d. (monster_pk (mdrop_monster d), monster_name (mdrop_monster d),
                                      element (mdrop_monster d), com2us_id (mdrop_monster d),
                                      image_filename (mdrop_monster d))) rows)))),
               (''family'', occurrences (length rows) (JList
                  (map (\<lambda>((fam, name), grp).
                          jdict [(''family_id'', JInt fam), (''name'', JStr name),
                                 (''count'', JInt (int (length grp)))])
                     (group_by (\<lambda>d. (family_id (mdrop_monster d), monster_name (mdrop_monster d)))
                        rows)))),
               (''nat_stars'', occurrences (length rows) (JList nat_stars)),
               (''element'', occurrences (length rows) (JList
                  (replace_value_with_choice
                     (map (\<lambda>(elt, grp). jdict [(''element'', elt),
                                                (''count'', JInt (int (length grp)))])
                        (group_by (\<lambda>d. element (mdrop_monster d)) rows))
                     [(''element'', ELEMENT_CHOICES mc)]))),
               (''awakened'', occurrences (length rows) (JList
                  (map (\<lambda>(awk, grp). jdict [(''awakened'', JBool awk),
                                             (''count'', JInt (int (length grp)))])
                     (group_by (\<lambda>d. is_awakened (mdrop_monster d)) rows))))]))
      | _ \<Rightarrow> Inl FieldError)"

definition get_monster_piece_report :: "model_constants \<Rightarrow> drop_qs \<Rightarrow> nat \<Rightarrow> error + jval" where
  "get_monster_piece_report mc qs total_log_count = Inr (JStr ''monster piece report'')"

subsection \<open>Rune report\<close>

text \<open>
  Modelled from the spec: \<^verbatim>\<open>histogram\<close> of the \<^verbatim>\<open>django_pivot\<close> package is not among the
  sources. The spec: buckets given by their boundaries, each bucket's count split by a
  secondary dimension, and a bucket with no member in a slice still shown as zero. The bins
  are the left endpoints: a row belongs to the bucket of the last endpoint not above its
  value; every endpoint gets a row with one count for each choice of the slicing field.
\<close>

definition bucket_of :: "int list \<Rightarrow> real \<Rightarrow> int option" where
  "bucket_of bins v =
     (case filter (\<lambda>b. real_of_int b \<le> v) bins of [] \<Rightarrow> None | b # bs \<Rightarrow> Some (last (b # bs)))"

definition histogram ::
  "'a list \<Rightarrow> ('a \<Rightarrow> real) \<Rightarrow> int list \<Rightarrow> ('a \<Rightarrow> jval) \<Rightarrow> (jval \<times> jval) list \<Rightarrow> jval list" where
  "histogram qs column bins slice_on choices =
     map (\<lambda>b. JDict ((JStr ''bin'', JStr (str_of_int b)) #
                 map (\<lambda>(code, label).
                        (label, JInt (int (length
                           (filter (\<lambda>r. bucket_of bins (column r) = Some b \<and> slice_on r = code)
                              qs)))))
                   choices))
       bins"

text \<open>\<^verbatim>\<open>qs.values(field).annotate(count=Count('pk')).order_by('-count')\<close>\<close>

definition counts_by_desc :: "string \<Rightarrow> ('k \<Rightarrow> jval) \<Rightarrow> ('a \<Rightarrow> 'k) \<Rightarrow> 'a list \<Rightarrow> jval list" where
  "counts_by_desc field shown f qs =
     map (\<lambda>(v, grp). jdict [(field, shown v), (''count'', JInt (int (length grp)))])
       (sort_key (\<lambda>(v, grp). - int (length grp)) (group_by f qs))"

text \<open>
  \<^verbatim>\<open>unnest\<close> turns each rune into one row for each of its substats; a rune without
  substats gives no row.
\<close>

definition all_substats :: "rune_drop list \<Rightarrow> int list" where
  "all_substats qs = concat (map rune_substats qs)"

text \<open>
  \<^verbatim>\<open>qs.aggregate(Min('value'), Max('value'))\<close>, read only for a queryset with rows.
\<close>

definition min_value_of :: "rune_drop list \<Rightarrow> int" where
  "min_value_of qs = (case map rune_value qs of [] \<Rightarrow> 0 | v # vs \<Rightarrow> fold min vs v)"

definition max_value_of :: "rune_drop list \<Rightarrow> int" where
  "max_value_of qs = (case map rune_value qs of [] \<Rightarrow> 0 | v # vs \<Rightarrow> fold max vs v)"

text \<open>The bins of the sell value histogram: \<^verbatim>\<open>range(min_value, max_value, 500)\<close>.\<close>

definition value_bins :: "rune_drop list \<Rightarrow> int list" where
  "value_bins qs =
     (let min_value = floor_to_nearest (min_value_of qs) 1000;
          max_value = ceil_to_nearest (max_value_of qs) 1000
      in py_range min_value max_value 500)"

definition get_rune_report :: "model_constants \<Rightarrow> drop_qs \<Rightarrow> nat \<Rightarrow> error + jval" where
  "get_rune_report mc qs total_log_count =
     (if qs_count qs = 0 then Inr JNone
      else case qs of
        RuneQS rows \<Rightarrow>
          Inr (jdict
            [(''stars'', occurrences (length rows) (transform_to_dict
                (counts_by_desc ''grade'' (\<lambda>g. JStr (str_of_int g @ star)) rune_stars rows))),
             (''type'', occurrences (length rows) (transform_to_dict
                (replace_value_with_choice
                   (counts_by_desc ''type'' JInt rune_type rows)
                   [(''type'', TYPE_CHOICES mc)]))),
             (''quality'', occurrences (length rows) (transform_to_dict
                (replace_value_with_choice
                   (counts_by_desc ''quality'' JInt rune_quality rows)
                   [(''quality'', QUALITY_CHOICES mc)]))),
             (''slot'', occurrences (length rows) (transform_to_dict
                (counts_by_desc ''slot'' JInt rune_slot rows))),
             (''main_stat'', occurrences (length rows) (transform_to_dict
                (replace_value_with_choice (counts_by ''main_stat'' rune_main_stat rows)
                   [(''main_stat'', STAT_CHOICES mc)]))),
             (''innate_stat'', occurrences (length rows) (transform_to_dict
                (replace_value_with_choice (counts_by ''innate_stat'' rune_innate_stat rows)
                   [(''innate_stat'', STAT_CHOICES mc)]))),
             (''substats'', occurrences (length (all_substats rows)) (transform_to_dict
                (replace_value_with_choice
                   (map (\<lambda>(k, grp). jdict [(''substat'', JInt k),
                                            (''count'', JInt (int (length grp)))])
                      (sort_key fst (group_by (\<lambda>x. x) (all_substats rows))))
                   [(''substat'', STAT_CHOICES mc)]))),
             (''max_efficiency'', jdict
                [(''type'', JStr ''histogram''), (''width'', JInt 5),
                 (''data'', JList (histogram rows rune_max_efficiency (py_range 0 100 5)
                                     (\<lambda>r. JInt (rune_quality r)) (QUALITY_CHOICES mc)))]),
             (''value'', jdict
                [(''type'', JStr ''histogram''), (''width'', JInt 500),
                 (''data'', JList (histogram rows (\<lambda>r. real_of_int (rune_value r))
                                     (value_bins rows)
                                     (\<lambda>r. JInt (rune_quality r)) (QUALITY_CHOICES mc)))])])
      | _ \<Rightarrow> Inl FieldError)"

definition get_rune_craft_report :: "model_constants \<Rightarrow> drop_qs \<Rightarrow> nat \<Rightarrow> error + jval" where
  "get_rune_craft_report mc qs total_log_count = Inr (JStr ''rune craft report'')"

definition get_secret_dungeon_report :: "model_constants \<Rightarrow> drop_qs \<Rightarrow> nat \<Rightarrow> error + jval" where
  "get_secret_dungeon_report mc qs total_log_count = Inr (JStr ''secret dungeon report'')"

definition DROP_TYPES ::
  "(string \<times> (model_constants \<Rightarrow> drop_qs \<Rightarrow> nat \<Rightarrow> error + jval)) list" where
  "DROP_TYPES =
     [(ItemDrop_RELATED_NAME, get_item_report),
      (MonsterDrop_RELATED_NAME, get_monster_report),
      (MonsterPieceDrop_RELATED_NAME, get_monster_piece_report),
      (RuneDrop_RELATED_NAME, get_rune_report),
      (RuneCraftDrop_RELATED_NAME, get_rune_craft_report),
      (DungeonSecretDungeonDrop_RELATED_NAME, get_secret_dungeon_report)]"

section \<open>Drop category resolver and the reports of one window\<close>

text \<open>
  A log model class is the association of its related names to the rows of the related
  drop models: \<^verbatim>\<open>hasattr(qs.model, drop_type)\<close> asks whether the name is bound, and
  \<^verbatim>\<open>drop_model.objects.filter(log__in=qs)\<close> keeps the drops whose log is a row of \<open>qs\<close>.
\<close>

type_synonym log_model = "(string \<times> drop_qs) list"

fun filter_log_in :: "nat list \<Rightarrow> drop_qs \<Rightarrow> drop_qs" where
  "filter_log_in pks (ItemQS rows) = ItemQS (filter (\<lambda>d. idrop_log d \<in> set pks) rows)"
| "filter_log_in pks (MonsterQS rows) = MonsterQS (filter (\<lambda>d. mdrop_log d \<in> set pks) rows)"
| "filter_log_in pks (MonsterPieceQS rows) =
     MonsterPieceQS (filter (\<lambda>d. pdrop_log d \<in> set pks) rows)"
| "filter_log_in pks (RuneQS rows) = RuneQS (filter (\<lambda>d. rune_log d \<in> set pks) rows)"
| "filter_log_in pks (RuneCraftQS rows) =
     RuneCraftQS (filter (\<lambda>d. craft_log d \<in> set pks) rows)"
| "filter_log_in pks (SecretDungeonQS rows) =
     SecretDungeonQS (filter (\<lambda>d. sdrop_log d \<in> set pks) rows)"

definition get_drop_querysets :: "log_model \<Rightarrow> log_record list \<Rightarrow> (string \<times> drop_qs) list" where
  "get_drop_querysets model qs =
     concat (map (\<lambda>drop_type.
                    case map_of model drop_type of
                      None \<Rightarrow> []
                    | Some drop_model \<Rightarrow> [(drop_type, filter_log_in (map log_pk qs) drop_model)])
              (map fst DROP_TYPES))"

text \<open>
  \<^verbatim>\<open>level_drop_report\<close>. Its second loop binds the name \<^verbatim>\<open>qs\<close> again, to the drop
  queryset of the category: the count handed to each aggregator is that queryset's own
  count. The keys of \<^verbatim>\<open>DROP_TYPES\<close> are distinct and none is \<^verbatim>\<open>'summary'\<close>, so each
  assignment to \<^verbatim>\<open>report_data\<close> adds an entry.
\<close>

definition level_drop_report :: "model_constants \<Rightarrow> log_model \<Rightarrow> log_record list \<Rightarrow> error + jval" where
  "level_drop_report mc model qs =
     (let drops = get_drop_querysets model qs in
      rbind (get_report_summary mc drops (length qs)) (\<lambda>summary.
      rbind (rmap (\<lambda>(key, dqs).
                     case map_of DROP_TYPES key of
                       None \<Rightarrow> Inl (KeyError key)
                     | Some aggregator \<Rightarrow>
                         rbind (aggregator mc dqs (qs_count dqs)) (\<lambda>r. Inr (key, r)))
               drops) (\<lambda>entries.
        Inr (jdict ((''summary'', summary) # entries)))))"

subsection \<open>\<^verbatim>\<open>grade_summary_report\<close>\<close>

definition all_items_of :: "game_item list \<Rightarrow> (string \<times> drop_qs) list \<Rightarrow> error + game_item list" where
  "all_items_of GameItem_objects drops =
     (case map_of drops ''items'' of
        None \<Rightarrow> Inr []
      | Some (ItemQS rows) \<Rightarrow>
          Inr (filter (\<lambda>i. item_pk i \<in> set (map (\<lambda>d. item_pk (idrop_item d)) rows))
                 GameItem_objects)
      | Some _ \<Rightarrow> Inl FieldError)"

definition all_monsters_of :: "monster list \<Rightarrow> (string \<times> drop_qs) list \<Rightarrow> error + monster list" where
  "all_monsters_of Monster_objects drops =
     (case map_of drops ''monsters'' of
        None \<Rightarrow> Inr []
      | Some (MonsterQS rows) \<Rightarrow>
          Inr (filter (\<lambda>m. monster_pk m \<in> set (map (\<lambda>d. monster_pk (mdrop_monster d)) rows))
                 Monster_objects)
      | Some _ \<Rightarrow> Inl FieldError)"

text \<open>
  \<^verbatim>\<open>drops['items'].filter(log__in=grade_qs, item=item)\<close> and its monster twin. They are
  only reached for a member of \<^verbatim>\<open>all_items\<close> (\<^verbatim>\<open>all_monsters\<close>), which is empty unless the
  key is bound.
\<close>

definition grade_item_drops ::
  "(string \<times> drop_qs) list \<Rightarrow> log_record list \<Rightarrow> game_item \<Rightarrow> error + item_drop list" where
  "grade_item_drops drops grade_qs i =
     (case map_of drops ''items'' of
        None \<Rightarrow> Inl (KeyError ''items'')
      | Some (ItemQS rows) \<Rightarrow>
          Inr (filter (\<lambda>d. idrop_log d \<in> set (map log_pk grade_qs) \<and>
                            item_pk (idrop_item d) = item_pk i) rows)
      | Some _ \<Rightarrow> Inl FieldError)"

definition grade_monster_drops ::
  "(string \<times> drop_qs) list \<Rightarrow> log_record list \<Rightarrow> monster \<Rightarrow> error + monster_drop list" where
  "grade_monster_drops drops grade_qs m =
     (case map_of drops ''monsters'' of
        None \<Rightarrow> Inl (KeyError ''monsters'')
      | Some (MonsterQS rows) \<Rightarrow>
          Inr (filter (\<lambda>d. mdrop_log d \<in> set (map log_pk grade_qs) \<and>
                            monster_pk (mdrop_monster d) = monster_pk m) rows)
      | Some _ \<Rightarrow> Inl FieldError)"

text \<open>The entry of one item in one grade; the divisor is \<^verbatim>\<open>qs.count()\<close> of all grades.\<close>

definition grade_item_entry ::
  "(string \<times> drop_qs) list \<Rightarrow> log_record list \<Rightarrow> log_record list \<Rightarrow> game_item \<Rightarrow> error + jval" where
  "grade_item_entry drops qs grade_qs i =
     rbind (grade_item_drops drops grade_qs i) (\<lambda>matching.
     rbind (item_stats (length qs) matching) (\<lambda>result.
       Inr (jdict ([(''type'', JStr ''item''), (''name'', JStr (item_name i)),
                    (''icon'', JStr (item_icon i))] @ result))))"

definition grade_monster_entry ::
  "(string \<times> drop_qs) list \<Rightarrow> log_record list \<Rightarrow> log_record list \<Rightarrow> monster \<Rightarrow> error + jval" where
  "grade_monster_entry drops qs grade_qs m =
     rbind (grade_monster_drops drops grade_qs m) (\<lambda>matching.
     rbind (drop_chance_of (length matching) (length qs)) (\<lambda>drop_chance.
       Inr (jdict [(''type'', JStr ''monster''), (''name'', JStr (monster_name m)),
                   (''icon'', JStr (image_filename m)), (''stars'', JInt (base_stars m)),
                   (''count'', JInt (int (length matching))),
                   (''drop_chance'', drop_chance)])))"

definition grade_report_of ::
  "(string \<times> drop_qs) list \<Rightarrow> log_record list \<Rightarrow> game_item list \<Rightarrow> monster list \<Rightarrow>
     (int \<times> string) \<Rightarrow> error + jval" where
  "grade_report_of drops qs all_items all_monsters choice =
     (case choice of (grade_id, grade_name) \<Rightarrow>
        (let grade_qs = filter (\<lambda>r. grade r = grade_id) qs in
         rbind (rmap (grade_item_entry drops qs grade_qs) all_items) (\<lambda>item_entries.
         rbind (rmap (grade_monster_entry drops qs grade_qs) all_monsters) (\<lambda>monster_entries.
           Inr (jdict [(''grade'', JStr grade_name),
                       (''drops'', JList (item_entries @ monster_entries))])))))"

definition grade_summary_report ::
  "log_model \<Rightarrow> game_item list \<Rightarrow> monster list \<Rightarrow> log_record list \<Rightarrow> (int \<times> string) list \<Rightarrow>
     error + jval list" where
  "grade_summary_report model GameItem_objects Monster_objects qs grade_choices =
     (let drops = get_drop_querysets model qs in
      rbind (all_items_of GameItem_objects drops) (\<lambda>all_items.
      rbind (all_monsters_of Monster_objects drops) (\<lambda>all_monsters.
        rmap (grade_report_of drops qs all_items all_monsters) grade_choices)))"

section \<open>Report orchestrator\<close>

record level_report =
  report_level :: nat
  content_type :: string
  start_timestamp :: int
  end_timestamp :: int
  log_count :: nat
  unique_contributors :: nat
  report :: jval

record database =
  Level_objects :: "nat list"
  DungeonLog_objects :: "log_record list"
  DungeonLog_model :: log_model
  RiftDungeonLog_objects :: "log_record list"
  RiftDungeonLog_model :: log_model
  GameItem_objects :: "game_item list"
  Monster_objects :: "monster list"
  LevelReport_objects :: "level_report list"

text \<open>The defaults of \<^verbatim>\<open>_records_to_report\<close>: two weeks, 2500 records.\<close>

definition default_timespan :: int where
  "default_timespan = 14 * 24 * 60 * 60"

definition default_minimum_count :: nat where
  "default_minimum_count = 2500"

text \<open>
  \<^verbatim>\<open>LevelReport.objects.create(...)\<close> for a window with rows. \<^verbatim>\<open>records[0]\<close> and
  \<^verbatim>\<open>records[records.count() - 1]\<close> are read under the guard \<^verbatim>\<open>records.count() > 0\<close>.
\<close>

definition new_report :: "nat \<Rightarrow> string \<Rightarrow> log_record list \<Rightarrow> jval \<Rightarrow> level_report" where
  "new_report lvl ctype records report_data =
     \<lparr>report_level = lvl, content_type = ctype,
      start_timestamp = timestamp (records ! (length records - 1)),
      end_timestamp = timestamp (records ! 0),
      log_count = length records,
      unique_contributors = length (remdups (map wizard_id records)),
      report = report_data\<rparr>"

text \<open>
  The loops over the levels: the body gives the report it creates, if any, or the exception
  it raises; an exception ends the run and keeps the reports created before it.
\<close>

fun run_levels ::
  "(nat \<Rightarrow> error + level_report option) \<Rightarrow> nat list \<Rightarrow> level_report list \<Rightarrow>
     level_report list \<times> error option" where
  "run_levels body [] reports = (reports, None)"
| "run_levels body (lvl # lvls) reports =
     (case body lvl of
        Inl e \<Rightarrow> (reports, Some e)
      | Inr None \<Rightarrow> run_levels body lvls reports
      | Inr (Some r) \<Rightarrow> run_levels body lvls (reports @ [r]))"

subsection \<open>\<^verbatim>\<open>generate_dungeon_log_reports\<close>\<close>

definition dungeon_records :: "int \<Rightarrow> database \<Rightarrow> nat \<Rightarrow> log_record list" where
  "dungeon_records now db lvl =
     records_to_report now (filter (\<lambda>r. level r = lvl \<and> success r) (DungeonLog_objects db))
       default_timespan default_minimum_count"

definition dungeon_level_body ::
  "int \<Rightarrow> model_constants \<Rightarrow> database \<Rightarrow> nat \<Rightarrow> error + level_report option" where
  "dungeon_level_body now mc db lvl =
     (let records = dungeon_records now db lvl in
      if length records > 0 then
        rbind (level_drop_report mc (DungeonLog_model db) records) (\<lambda>report_data.
          Inr (Some (new_report lvl ''dungeonlog'' records report_data)))
      else Inr None)"

definition generate_dungeon_log_reports ::
  "int \<Rightarrow> model_constants \<Rightarrow> database \<Rightarrow> database \<times> error option" where
  "generate_dungeon_log_reports now mc db =
     (let levels = map level (DungeonLog_objects db) in
      case run_levels (dungeon_level_body now mc db)
             (filter (\<lambda>lvl. lvl \<in> set levels) (Level_objects db)) (LevelReport_objects db) of
        (reports, err) \<Rightarrow> (db\<lparr>LevelReport_objects := reports\<rparr>, err))"

subsection \<open>\<^verbatim>\<open>generate_rift_dungeon_reports\<close>\<close>

text \<open>
  \<^verbatim>\<open>a | b\<close> on two querysets of one model: the rows of the model that are in \<open>a\<close> or in
  \<open>b\<close>, in the model's order. \<^verbatim>\<open>objects.none()\<close> is the empty list.
\<close>

definition qs_or :: "log_record list \<Rightarrow> log_record list \<Rightarrow> log_record list \<Rightarrow> log_record list" where
  "qs_or objects a b = filter (\<lambda>r. r \<in> set a \<or> r \<in> set b) objects"

definition rift_records :: "int \<Rightarrow> database \<Rightarrow> nat \<Rightarrow> int \<Rightarrow> log_record list" where
  "rift_records now db lvl g =
     records_to_report now (filter (\<lambda>r. level r = lvl \<and> grade r = g) (RiftDungeonLog_objects db))
       default_timespan default_minimum_count"

text \<open>The loop over \<^verbatim>\<open>GRADE_CHOICES\<close>, threading \<^verbatim>\<open>all_records\<close> and \<^verbatim>\<open>report_data\<close>.\<close>

fun rift_grades ::
  "int \<Rightarrow> model_constants \<Rightarrow> database \<Rightarrow> nat \<Rightarrow> (int \<times> string) list \<Rightarrow> log_record list \<Rightarrow>
     jval list \<Rightarrow> error + (log_record list \<times> jval list)" where
  "rift_grades now mc db lvl [] all_records report_data = Inr (all_records, report_data)"
| "rift_grades now mc db lvl ((g, grade_desc) # choices) all_records report_data =
     (let records = rift_records now db lvl g in
      rbind (if length records > 0
             then level_drop_report mc (RiftDungeonLog_model db) records
             else Inr JNone) (\<lambda>grade_report.
        rift_grades now mc db lvl choices
          (qs_or (RiftDungeonLog_objects db) all_records records)
          (report_data @ [jdict [(''grade'', JStr grade_desc), (''report'', grade_report)]])))"

definition rift_level_body ::
  "int \<Rightarrow> model_constants \<Rightarrow> database \<Rightarrow> nat \<Rightarrow> error + level_report option" where
  "rift_level_body now mc db lvl =
     rbind (rift_grades now mc db lvl (GRADE_CHOICES mc) [] []) (\<lambda>(all_records, report_data).
       if length all_records > 0 then
         rbind (grade_summary_report (RiftDungeonLog_model db) (GameItem_objects db)
                  (Monster_objects db) all_records (GRADE_CHOICES mc)) (\<lambda>summary.
           Inr (Some (new_report lvl ''riftdungeonlog'' all_records
                  (JList (report_data @
                     [jdict [(''grade'', JStr ''summary''), (''report'', JList summary)]])))))
       else Inr None)"

definition generate_rift_dungeon_reports ::
  "int \<Rightarrow> model_constants \<Rightarrow> database \<Rightarrow> database \<times> error option" where
  "generate_rift_dungeon_reports now mc db =
     (let levels = map level (RiftDungeonLog_objects db) in
      case run_levels (rift_level_body now mc db)
             (filter (\<lambda>lvl. lvl \<in> set levels) (Level_objects db)) (LevelReport_objects db) of
        (reports, err) \<Rightarrow> (db\<lparr>LevelReport_objects := reports\<rparr>, err))"

section \<open>Notions used to state the properties\<close>

text \<open>The rate \<^verbatim>\<open>matching / total_log_count * 100\<close>.\<close>

definition drop_chance_value :: "nat \<Rightarrow> nat \<Rightarrow> real" where
  "drop_chance_value matching total_log_count = real matching / real total_log_count * 100"

text \<open>
  A row of statistics whose \<^verbatim>\<open>count\<close> is the number of matching drop records and whose
  \<^verbatim>\<open>drop_chance\<close> is that number as a percentage of \<open>total_log_count\<close>.
\<close>

definition rate_row :: "nat \<Rightarrow> nat \<Rightarrow> jval \<Rightarrow> bool" where
  "rate_row total_log_count matching row \<longleftrightarrow>
     jget ''count'' row = Some (JInt (int matching)) \<and>
     jget ''drop_chance'' row = Some (JReal (drop_chance_value matching total_log_count))"

text \<open>The entries \<^verbatim>\<open>item_stats\<close> computes when the store does not fail.\<close>

definition item_stats_of :: "nat \<Rightarrow> item_drop list \<Rightarrow> (string \<times> jval) list" where
  "item_stats_of n grp =
     [(''count'', JInt (int (length grp))),
      (''min'', agg_min (map idrop_quantity grp)),
      (''max'', agg_max (map idrop_quantity grp)),
      (''avg'', agg_avg (map idrop_quantity grp)),
      (''drop_chance'', JReal (drop_chance_value (length grp) n)),
      (''avg_per_run'', (case agg_sum (map idrop_quantity grp) of
                           None \<Rightarrow> JNone | Some s \<Rightarrow> JReal (real_of_int s / real n)))]"

text \<open>The key under which the resolver files a drop queryset of each category.\<close>

fun category_key :: "drop_qs \<Rightarrow> string" where
  "category_key (ItemQS rows) = ItemDrop_RELATED_NAME"
| "category_key (MonsterQS rows) = MonsterDrop_RELATED_NAME"
| "category_key (MonsterPieceQS rows) = MonsterPieceDrop_RELATED_NAME"
| "category_key (RuneQS rows) = RuneDrop_RELATED_NAME"
| "category_key (RuneCraftQS rows) = RuneCraftDrop_RELATED_NAME"
| "category_key (SecretDungeonQS rows) = DungeonSecretDungeonDrop_RELATED_NAME"

text \<open>The six keys the summary composer has a table for.\<close>

definition recognized_keys :: "string list" where
  "recognized_keys =
     [ItemDrop_RELATED_NAME, MonsterDrop_RELATED_NAME, MonsterPieceDrop_RELATED_NAME,
      RuneDrop_RELATED_NAME, RuneCraftDrop_RELATED_NAME, DungeonSecretDungeonDrop_RELATED_NAME]"

text \<open>
  A log model is well formed when each related name is bound to drop rows of the
  category that name stands for.
\<close>

definition wf_model :: "log_model \<Rightarrow> bool" where
  "wf_model model \<longleftrightarrow> list_all (\<lambda>(k, q). category_key q = k) model"

text \<open>
  The item drops and the monster drops among resolved querysets, as
  \<^verbatim>\<open>grade_summary_report\<close> reads them under \<^verbatim>\<open>'items'\<close> and \<^verbatim>\<open>'monsters'\<close>.
\<close>

definition item_drops_of :: "(string \<times> drop_qs) list \<Rightarrow> item_drop list" where
  "item_drops_of drops = (case map_of drops ''items'' of Some (ItemQS rows) \<Rightarrow> rows | _ \<Rightarrow> [])"

definition monster_drops_of :: "(string \<times> drop_qs) list \<Rightarrow> monster_drop list" where
  "monster_drops_of drops =
     (case map_of drops ''monsters'' of Some (MonsterQS rows) \<Rightarrow> rows | _ \<Rightarrow> [])"

text \<open>The drops of one item (one monster) that belong to the log records \<open>grade_qs\<close>.\<close>

definition grade_item_matching ::
  "(string \<times> drop_qs) list \<Rightarrow> log_record list \<Rightarrow> game_item \<Rightarrow> item_drop list" where
  "grade_item_matching drops grade_qs i =
     filter (\<lambda>d. idrop_log d \<in> set (map log_pk grade_qs) \<and> item_pk (idrop_item d) = item_pk i)
       (item_drops_of drops)"

definition grade_monster_matching ::
  "(string \<times> drop_qs) list \<Rightarrow> log_record list \<Rightarrow> monster \<Rightarrow> monster_drop list" where
  "grade_monster_matching drops grade_qs m =
     filter (\<lambda>d. mdrop_log d \<in> set (map log_pk grade_qs) \<and>
                  monster_pk (mdrop_monster d) = monster_pk m)
       (monster_drops_of drops)"

text \<open>\<^verbatim>\<open>qs.filter(grade=grade_id)\<close>\<close>

definition in_grade :: "int \<Rightarrow> log_record list \<Rightarrow> log_record list" where
  "in_grade g qs = filter (\<lambda>r. grade r = g) qs"

text \<open>
  The entries of the cross-grade summary when the store does not fail: one row for each
  item and monster in each grade, and one report for each grade.
\<close>

definition grade_item_row ::
  "(string \<times> drop_qs) list \<Rightarrow> log_record list \<Rightarrow> int \<Rightarrow> game_item \<Rightarrow> jval" where
  "grade_item_row drops qs g i =
     jdict ([(''type'', JStr ''item''), (''name'', JStr (item_name i)),
             (''icon'', JStr (item_icon i))] @
            item_stats_of (length qs) (grade_item_matching drops (in_grade g qs) i))"

definition grade_monster_row ::
  "(string \<times> drop_qs) list \<Rightarrow> log_record list \<Rightarrow> int \<Rightarrow> monster \<Rightarrow> jval" where
  "grade_monster_row drops qs g m =
     jdict [(''type'', JStr ''monster''), (''name'', JStr (monster_name m)),
            (''icon'', JStr (image_filename m)), (''stars'', JInt (base_stars m)),
            (''count'', JInt (int (length (grade_monster_matching drops (in_grade g qs) m)))),
            (''drop_chance'',
             JReal (drop_chance_value
                      (length (grade_monster_matching drops (in_grade g qs) m)) (length qs)))]"

text \<open>The catalog rows of the items and monsters that some drop of the querysets refers to.\<close>

definition seen_items :: "game_item list \<Rightarrow> (string \<times> drop_qs) list \<Rightarrow> game_item list" where
  "seen_items items drops =
     filter (\<lambda>i. item_pk i \<in> set (map (\<lambda>d. item_pk (idrop_item d)) (item_drops_of drops))) items"

definition seen_monsters :: "monster list \<Rightarrow> (string \<times> drop_qs) list \<Rightarrow> monster list" where
  "seen_monsters monsters drops =
     filter (\<lambda>m. monster_pk m \<in> set (map (\<lambda>d. monster_pk (mdrop_monster d))
                                         (monster_drops_of drops))) monsters"

definition grade_report_row ::
  "(string \<times> drop_qs) list \<Rightarrow> log_record list \<Rightarrow> game_item list \<Rightarrow> monster list \<Rightarrow>
     (int \<times> string) \<Rightarrow> jval" where
  "grade_report_row drops qs all_items all_monsters choice =
     jdict [(''grade'', JStr (snd choice)),
            (''drops'', JList (map (grade_item_row drops qs (fst choice)) all_items @
                               map (grade_monster_row drops qs (fst choice)) all_monsters))]"

text \<open>
  The rift records of a level that lie in the window of some grade: what \<^verbatim>\<open>all_records\<close>
  holds after the loop over the grade choices.
\<close>

definition rift_all_records :: "int \<Rightarrow> database \<Rightarrow> nat \<Rightarrow> (int \<times> string) list \<Rightarrow> log_record list" where
  "rift_all_records now db lvl choices =
     filter (\<lambda>r. \<exists>(g, grade_desc)\<in>set choices. r \<in> set (rift_records now db lvl g))
       (RiftDungeonLog_objects db)"

text \<open>
  A report covers a window when its time range runs from the oldest to the newest
  timestamp of the window and its \<^verbatim>\<open>log_count\<close> is the number of records in the window.
\<close>

definition report_covers :: "level_report \<Rightarrow> log_record list \<Rightarrow> bool" where
  "report_covers r window \<longleftrightarrow>
     start_timestamp r \<le> end_timestamp r \<and>
     log_count r = length window \<and>
     start_timestamp r \<in> timestamp ` set window \<and>
     end_timestamp r \<in> timestamp ` set window \<and>
     (\<forall>x\<in>set window. start_timestamp r \<le> timestamp x \<and> timestamp x \<le> end_timestamp r)"

section \<open>Sample data\<close>

text \<open>Concrete rows on which the theorems below are instantiated.\<close>

definition sample_log :: "nat \<Rightarrow> nat \<Rightarrow> int \<Rightarrow> int \<Rightarrow> log_record" where
  "sample_log k lvl g t =
     \<lparr>log_pk = k, level = lvl, grade = g, success = True, wizard_id = 7, timestamp = t\<rparr>"

text \<open>Three records, the two older ones logged at the same instant.\<close>

definition tied_logs :: "log_record list" where
  "tied_logs = [sample_log 1 1 0 5, sample_log 2 1 0 3, sample_log 3 1 0 3]"

definition sample_constants :: model_constants where
  "sample_constants =
     \<lparr>CATEGORY_CURRENCY = 6,
      ELEMENT_CHOICES = [(JStr ''fire'', JStr ''Fire''), (JStr ''water'', JStr ''Water'')],
      TYPE_CHOICES = [(JInt 1, JStr ''Energy''), (JInt 2, JStr ''Fatal'')],
      QUALITY_CHOICES = [(JInt 1, JStr ''Normal''), (JInt 2, JStr ''Magic'')],
      STAT_CHOICES = [(JInt 1, JStr ''HP''), (JInt 4, JStr ''ATK''), (JInt 8, JStr ''SPD'')],
      GRADE_CHOICES = [(1, ''A''), (2, ''B''), (3, ''C'')]\<rparr>"

text \<open>A rune drop of log 1 with the given sell value and substats.\<close>

definition sample_rune :: "int \<Rightarrow> int list \<Rightarrow> rune_drop" where
  "sample_rune v subs =
     \<lparr>rune_log = 1, rune_stars = 6, rune_type = 1, rune_quality = 1, rune_slot = 2,
      rune_main_stat = 4, rune_innate_stat = 0, rune_substats = subs,
      rune_max_efficiency = 80, rune_value = v\<rparr>"

text \<open>An item of the catalog and a drop of it on the log with the given key.\<close>

definition sample_item :: game_item where
  "sample_item =
     \<lparr>item_pk = 1, item_name = ''Mana Stone'', item_icon = ''mana.png'', item_category = 1\<rparr>"

definition sample_item_drop :: "nat \<Rightarrow> int \<Rightarrow> item_drop" where
  "sample_item_drop log_id q =
     \<lparr>idrop_log = log_id, idrop_item = sample_item, idrop_quantity = q\<rparr>"

text \<open>
  A log model with item drops only, and four rift records of level 1: the oldest of grade
  1, the others of grade 2. The one item drop belongs to the record of grade 1.
\<close>

definition sample_model :: log_model where
  "sample_model = [(ItemDrop_RELATED_NAME, ItemQS [sample_item_drop 1 1])]"

definition sample_rift_logs :: "log_record list" where
  "sample_rift_logs =
     [sample_log 4 1 2 40, sample_log 3 1 2 30, sample_log 2 1 2 20, sample_log 1 1 1 10]"

text \<open>The sample constants with the two grades A and B only.\<close>

definition two_grade_constants :: model_constants where
  "two_grade_constants = sample_constants\<lparr>GRADE_CHOICES := [(1, ''A''), (2, ''B'')]\<rparr>"

text \<open>A store whose rift records are the four sample records of level 1.\<close>

definition sample_rift_db :: database where
  "sample_rift_db =
     \<lparr>Level_objects = [1], DungeonLog_objects = [], DungeonLog_model = sample_model,
      RiftDungeonLog_objects = sample_rift_logs, RiftDungeonLog_model = sample_model,
      GameItem_objects = [sample_item], Monster_objects = [], LevelReport_objects = []\<rparr>"

text \<open>
  A store with two dungeon records: a successful run of level 2 at time 50 and a failed run
  of level 1 at time 40.
\<close>

definition sample_dungeon_db :: database where
  "sample_dungeon_db =
     \<lparr>Level_objects = [1, 2],
      DungeonLog_objects = [sample_log 2 2 0 50, (sample_log 1 1 0 40)\<lparr>success := False\<rparr>],
      DungeonLog_model = sample_model,
      RiftDungeonLog_objects = [], RiftDungeonLog_model = sample_model,
      GameItem_objects = [sample_item], Monster_objects = [], LevelReport_objects = []\<rparr>"

section \<open>Properties of the window selection\<close>

lemma filter_ge_takeWhile:
  "most_recent_first qs \<Longrightarrow>
     filter (\<lambda>r. timestamp r \<ge> c) qs = takeWhile (\<lambda>r. timestamp r \<ge> c) qs"
proof (induction qs)
  case Nil
  then show ?case by simp
next
  case (Cons a qs)
  show ?case
  proof (cases "timestamp a \<ge> c")
    case True
    with Cons show ?thesis by (simp add: most_recent_first_def)
  next
    case False
    with Cons.prems have "\<forall>r\<in>set qs. \<not> timestamp r \<ge> c"
      by (auto simp: most_recent_first_def)
    then have "filter (\<lambda>r. timestamp r \<ge> c) qs = []"
      by (simp add: filter_empty_conv)
    with False show ?thesis by simp
  qed
qed

lemma window_cutoff_split:
  assumes srt: "most_recent_first qs" and k: "0 < k" "k \<le> length qs"
  shows "filter (\<lambda>r. timestamp r \<ge> timestamp (qs ! (k - 1))) qs =
           take k qs @ takeWhile (\<lambda>r. timestamp r = timestamp (qs ! (k - 1))) (drop k qs)"
proof -
  let ?c = "timestamp (qs ! (k - 1))"
  have idx: "\<And>i j. i \<le> j \<Longrightarrow> j < length qs \<Longrightarrow> timestamp (qs ! i) \<ge> timestamp (qs ! j)"
  proof -
    fix i j assume "i \<le> j" "j < length qs"
    then show "timestamp (qs ! i) \<ge> timestamp (qs ! j)"
      using srt unfolding most_recent_first_def
      by (cases "i = j") (auto simp: sorted_wrt_iff_nth_less)
  qed
  have front: "\<forall>r\<in>set (take k qs). timestamp r \<ge> ?c"
  proof
    fix r assume "r \<in> set (take k qs)"
    then obtain i where i: "i < k" "i < length qs" "r = qs ! i"
      by (auto simp: in_set_conv_nth)
    with k idx [of i "k - 1"] show "timestamp r \<ge> ?c" by simp
  qed
  have rest: "\<forall>r\<in>set (drop k qs). timestamp r \<le> ?c"
  proof
    fix r assume "r \<in> set (drop k qs)"
    then obtain i where i: "i < length qs - k" "r = qs ! (k + i)"
      by (auto simp: in_set_conv_nth)
    with k idx [of "k - 1" "k + i"] show "timestamp r \<le> ?c" by simp
  qed
  have "takeWhile (\<lambda>r. timestamp r \<ge> ?c) (take k qs @ drop k qs) =
          take k qs @ takeWhile (\<lambda>r. timestamp r \<ge> ?c) (drop k qs)"
    using front by (intro takeWhile_append2) auto
  then have "filter (\<lambda>r. timestamp r \<ge> ?c) qs =
          take k qs @ takeWhile (\<lambda>r. timestamp r \<ge> ?c) (drop k qs)"
    using filter_ge_takeWhile [OF srt] by simp
  also have "takeWhile (\<lambda>r. timestamp r \<ge> ?c) (drop k qs) =
               takeWhile (\<lambda>r. timestamp r = ?c) (drop k qs)"
    using rest by (intro takeWhile_cong) auto
  finally show ?thesis .
qed

text \<open>
  C1 (as the code has it). For a stream ordered most recent first: when at least
  \<open>minimum_count\<close> records lie within the time span (equality included), the window is
  exactly the records within the span. Otherwise the window holds every record whose
  timestamp is not older than that of the \<open>min minimum_count total\<close>-th most recent record:
  these are the \<open>min minimum_count total\<close> most recent records followed by the records after
  them that share the cut-off timestamp, so the window is exactly the
  \<open>min minimum_count total\<close> most recent records when no later record ties with the cut-off.
  With no records at all the window is empty.
\<close>

theorem records_to_report_window:
  assumes "most_recent_first qs"
  shows "(length (filter (\<lambda>r. timestamp r \<ge> now - T) qs) \<ge> M \<longrightarrow>
           records_to_report now qs T M = filter (\<lambda>r. timestamp r \<ge> now - T) qs) \<and>
         (length (filter (\<lambda>r. timestamp r \<ge> now - T) qs) < M \<longrightarrow>
           records_to_report now qs T M =
             take (min M (length qs)) qs @
             takeWhile (\<lambda>r. timestamp r = timestamp (qs ! (min M (length qs) - 1)))
               (drop (min M (length qs)) qs)) \<and>
         (length (filter (\<lambda>r. timestamp r \<ge> now - T) qs) < M \<longrightarrow>
          (\<forall>r\<in>set (drop (min M (length qs)) qs).
             timestamp r \<noteq> timestamp (qs ! (min M (length qs) - 1))) \<longrightarrow>
           records_to_report now qs T M = take (min M (length qs)) qs) \<and>
         (qs = [] \<longrightarrow> records_to_report now qs T M = [])"
proof -
  let ?k = "min M (length qs)"
  let ?c = "timestamp (qs ! (?k - 1))"
  have branch: "records_to_report now qs T M =
      take ?k qs @ takeWhile (\<lambda>r. timestamp r = ?c) (drop ?k qs)"
    if lt: "length (filter (\<lambda>r. timestamp r \<ge> now - T) qs) < M"
  proof (cases "qs = []")
    case True
    then show ?thesis by (simp add: records_to_report_def)
  next
    case False
    with lt have k: "0 < ?k" "?k \<le> length qs" by auto
    have "length (take M qs) = ?k" by (simp add: min.commute)
    moreover have "take M qs ! (?k - 1) = qs ! (?k - 1)"
      using k by (intro nth_take) auto
    ultimately have "(take M qs) ! (length (take M qs) - 1) = qs ! (?k - 1)"
      by simp
    with lt k have "records_to_report now qs T M = filter (\<lambda>r. timestamp r \<ge> ?c) qs"
      by (simp add: records_to_report_def Let_def min.commute)
    with window_cutoff_split [OF assms k] show ?thesis by simp
  qed
  have time_bounded: "length (filter (\<lambda>r. timestamp r \<ge> now - T) qs) \<ge> M \<longrightarrow>
           records_to_report now qs T M = filter (\<lambda>r. timestamp r \<ge> now - T) qs"
    by (simp add: records_to_report_def)
  have exact: "records_to_report now qs T M = take ?k qs"
    if lt: "length (filter (\<lambda>r. timestamp r \<ge> now - T) qs) < M"
      and ne: "\<forall>r\<in>set (drop ?k qs). timestamp r \<noteq> ?c"
  proof -
    from ne have "takeWhile (\<lambda>r. timestamp r = ?c) (drop ?k qs) = []"
      by (cases "drop ?k qs") auto
    with branch [OF lt] show ?thesis by simp
  qed
  have none: "qs = [] \<longrightarrow> records_to_report now qs T M = []"
    by (simp add: records_to_report_def)
  from time_bounded branch exact none show ?thesis by blast
qed

theorem records_to_report_window_witness:
  "most_recent_first tied_logs \<and>
   records_to_report 100 tied_logs 95 1 = [sample_log 1 1 0 5] \<and>
   records_to_report 100 tied_logs 10 2 = tied_logs \<and>
   records_to_report 100 tied_logs 10 1 = [sample_log 1 1 0 5] \<and>
   records_to_report 100 [] 10 1 = []"
proof -
  have srt: "most_recent_first tied_logs"
    by (simp add: most_recent_first_def tied_logs_def sample_log_def)
  have nil: "most_recent_first []"
    by (simp add: most_recent_first_def)
  show ?thesis
    using srt records_to_report_window [OF srt, of 1 100 95]
      records_to_report_window [OF srt, of 2 100 10]
      records_to_report_window [OF srt, of 1 100 10]
      records_to_report_window [OF nil, of 1 100 10]
    by (simp add: tied_logs_def sample_log_def)
qed

text \<open>
  C1 as stated fails where timestamps tie: with a minimum of two records and none of the
  three within the time span, the window is not the two most recent records but all three,
  since the third shares the timestamp of the second.
\<close>

theorem records_to_report_tie_counterexample:
  "most_recent_first tied_logs \<and>
   length (filter (\<lambda>r. timestamp r \<ge> 100 - 10) tied_logs) < 2 \<and>
   records_to_report 100 tied_logs 10 2 \<noteq> take (min 2 (length tied_logs)) tied_logs \<and>
   length (records_to_report 100 tied_logs 10 2) = 3"
  by (simp add: most_recent_first_def records_to_report_def tied_logs_def sample_log_def)

section \<open>Properties of the category aggregators\<close>

lemma rbind_Inr [simp]: "rbind (Inr x) f = f x"
  by (simp add: rbind_def)

lemma rbind_Inl [simp]: "rbind (Inl e) f = Inl e"
  by (simp add: rbind_def)

lemma jget_jdict [simp]: "jget k (jdict kvs) = map_of kvs k"
  by (induction kvs) (auto simp: jdict_def)

lemma jget_occurrences_total [simp]: "jget ''total'' (occurrences n data) = Some (JInt (int n))"
  by (simp add: occurrences_def)

text \<open>
  C2 fails on the code for three of the six categories: the monster piece, rune craft and
  secret dungeon aggregators return a fixed string for every handle, the empty one
  included, where the item, monster and rune aggregators return \<^verbatim>\<open>None\<close> for an empty
  handle and statistics otherwise.
\<close>

theorem stub_aggregators_ignore_handle:
  "get_monster_piece_report mc qs n = Inr (JStr ''monster piece report'') \<and>
   get_rune_craft_report mc qs n = Inr (JStr ''rune craft report'') \<and>
   get_secret_dungeon_report mc qs n = Inr (JStr ''secret dungeon report'') \<and>
   get_monster_piece_report mc (MonsterPieceQS []) 0 \<noteq> Inr JNone \<and>
   get_item_report mc (ItemQS []) 0 = Inr JNone \<and>
   get_monster_report mc (MonsterQS []) 0 = Inr JNone \<and>
   get_rune_report mc (RuneQS []) 0 = Inr JNone"
  by (simp add: get_monster_piece_report_def get_rune_craft_report_def
      get_secret_dungeon_report_def get_item_report_def get_monster_report_def
      get_rune_report_def)

text \<open>
  C5 fails on the code when all runes share one sell value that is a multiple of 1000:
  rounding down and rounding up give the same bound, \<^verbatim>\<open>range(min_value, max_value, 500)\<close>
  is empty, and the histogram has no bucket for the runes to fall in.
\<close>

theorem rune_value_histogram_no_bucket:
  "value_bins [sample_rune 1000 []] = [] \<and>
   (\<exists>r. get_rune_report sample_constants (RuneQS [sample_rune 1000 []]) 1 = Inr r \<and>
        jget ''value'' r =
          Some (jdict [(''type'', JStr ''histogram''), (''width'', JInt 500),
                       (''data'', JList [])]))"
proof -
  have bins: "value_bins [sample_rune 1000 []] = []"
    by (simp add: value_bins_def min_value_of_def max_value_of_def sample_rune_def
        floor_to_nearest_def ceil_to_nearest_def py_range_def)
  then show ?thesis
    by (simp add: get_rune_report_def histogram_def)
qed

lemma length_all_substats:
  "length (all_substats rows) = sum_list (map (\<lambda>r. length (rune_substats r)) rows)"
  by (simp add: all_substats_def length_concat comp_def)

text \<open>
  C6. For a rune drop set with rows, \<^verbatim>\<open>get_rune_report\<close> returns a report whose
  \<^verbatim>\<open>substats\<close> entry has as \<^verbatim>\<open>total\<close> the sum of the lengths of the runes' substat
  lists.
\<close>

theorem rune_report_substats_total:
  assumes "rows \<noteq> []"
  shows "\<exists>r s. get_rune_report mc (RuneQS rows) total_log_count = Inr r \<and>
               jget ''substats'' r = Some s \<and>
               jget ''total'' s =
                 Some (JInt (int (sum_list (map (\<lambda>r. length (rune_substats r)) rows))))"
  using assms by (simp add: get_rune_report_def length_all_substats)

theorem rune_report_substats_total_witness:
  "\<exists>r s. get_rune_report sample_constants
            (RuneQS [sample_rune 1200 [1, 4], sample_rune 2000 [], sample_rune 1700 [8, 8, 1]]) 3
            = Inr r \<and>
         jget ''substats'' r = Some s \<and> jget ''total'' s = Some (JInt 5)"
  using rune_report_substats_total
    [of "[sample_rune 1200 [1, 4], sample_rune 2000 [], sample_rune 1700 [8, 8, 1]]"
      sample_constants 3]
  by (simp add: sample_rune_def)

section \<open>Properties of the rates and of the summary composer\<close>

lemma group_byD:
  "(k, grp) \<in> set (group_by key xs) \<Longrightarrow> k \<in> key ` set xs \<and> grp = filter (\<lambda>x. key x = k) xs"
  by (auto simp: group_by_def)

lemma group_by_nonempty: "(k, grp) \<in> set (group_by key xs) \<Longrightarrow> grp \<noteq> []"
  by (auto simp: group_by_def filter_empty_conv)

lemma group_by_Nil_iff [simp]: "group_by key xs = [] \<longleftrightarrow> xs = []"
  by (cases xs) (auto simp: group_by_def)

lemma filter_groups_nonempty [simp]:
  "filter (\<lambda>(k, grp). length grp > 0) (group_by key xs) = group_by key xs"
  by (rule filter_True) (auto dest: group_by_nonempty)

lemma rmap_Inr: "(\<And>x. x \<in> set xs \<Longrightarrow> f x = Inr (g x)) \<Longrightarrow> rmap f xs = Inr (map g xs)"
  by (induction xs) simp_all

lemma drop_chance_of_pos:
  "0 < n \<Longrightarrow> drop_chance_of c n = Inr (JReal (drop_chance_value c n))"
  by (simp add: drop_chance_of_def db_div_def drop_chance_value_def)

lemma avg_per_run_of_pos:
  "0 < n \<Longrightarrow> avg_per_run_of qs n =
     Inr (case agg_sum qs of None \<Rightarrow> JNone | Some s \<Rightarrow> JReal (real_of_int s / real n))"
  by (simp add: avg_per_run_of_def db_div_def split: option.splits)

lemma item_stats_pos: "0 < n \<Longrightarrow> item_stats n grp = Inr (item_stats_of n grp)"
  by (simp add: item_stats_def item_stats_of_def drop_chance_of_pos avg_per_run_of_pos)

lemma rate_row_item_stats:
  "rate_row n (length grp) (jdict (pre @ item_stats_of n grp))"
  if "''count'' \<notin> fst ` set pre" "''drop_chance'' \<notin> fst ` set pre"
proof -
  have "map_of pre ''count'' = None" "map_of pre ''drop_chance'' = None"
    using that by (simp_all add: map_of_eq_None_iff)
  then show ?thesis
    by (simp add: rate_row_def item_stats_of_def map_add_def)
qed

lemma get_item_report_pos:
  assumes "0 < n" "rows \<noteq> []"
  shows "get_item_report mc (ItemQS rows) n =
     Inr (JList (map (\<lambda>((pk, name, icon), grp).
                   jdict ([(''item'', JInt (int pk)), (''name'', JStr name),
                           (''icon'', JStr icon)] @ item_stats_of n grp))
        (sort_key (\<lambda>(k, grp). - int (length grp))
           (group_by (\<lambda>d. (item_pk (idrop_item d), item_name (idrop_item d),
                            item_icon (idrop_item d))) rows))))"
  using assms
  apply (simp add: get_item_report_def)
  apply (subst rmap_Inr [where g = "\<lambda>((pk, name, icon), grp).
                   jdict ([(''item'', JInt (int pk)), (''name'', JStr name),
                           (''icon'', JStr icon)] @ item_stats_of n grp)"])
   apply (auto simp: item_stats_pos)
  done

lemma item_report_rows_rate:
  assumes "0 < n" "rows \<noteq> []"
  shows "\<exists>results. get_item_report mc (ItemQS rows) n = Inr (JList results) \<and>
     (\<forall>row\<in>set results. \<exists>d\<in>set rows.
        jget ''item'' row = Some (JInt (int (item_pk (idrop_item d)))) \<and>
        jget ''name'' row = Some (JStr (item_name (idrop_item d))) \<and>
        rate_row n (length (filter (\<lambda>x. (item_pk (idrop_item x), item_name (idrop_item x),
                            item_icon (idrop_item x)) = (item_pk (idrop_item d), item_name (idrop_item d),
                            item_icon (idrop_item d))) rows)) row)"
  apply (subst get_item_report_pos [OF assms])
  apply (rule exI, rule conjI, rule refl)
  apply (clarsimp)
  apply (drule group_byD)
  apply clarsimp
  subgoal for d
    apply (rule bexI [where x = d])
     apply (simp)
    using rate_row_item_stats [where pre = "[(''item'', JInt (int (item_pk (idrop_item d)))), (''name'', JStr (item_name (idrop_item d))),
                           (''icon'', JStr (item_icon (idrop_item d)))]"]
     apply simp
    apply simp
    done
  done

lemma sort_key_Nil_iff [simp]: "sort_key f xs = [] \<longleftrightarrow> xs = []"
  by (metis length_sort length_0_conv)

lemma group_row_cases:
  assumes "row \<in> mk ` set (group_by key xs)"
  obtains d where "d \<in> set xs" "row = mk (key d, filter (\<lambda>x. key x = key d) xs)"
  using assms by (auto simp: group_by_def)

lemma mons_by_nat_stars_pos:
  assumes "0 < n"
  shows "mons_by_nat_stars n rows =
     Inr (map (\<lambda>(stars, grp). jdict [(''nat_stars'', JInt stars), (''count'', JInt (int (length grp))),
                           (''drop_chance'', JReal (drop_chance_value (length grp) n))])
         (group_by (\<lambda>d. base_stars (mdrop_monster d)) rows))"
  unfolding mons_by_nat_stars_def
  by (rule rmap_Inr) (auto simp: drop_chance_of_pos assms)

lemma jget_occurrences_data [simp]: "jget ''data'' (occurrences n data) = Some data"
  by (simp add: occurrences_def)

lemma monster_report_rows_rate:
  assumes "0 < n" "rows \<noteq> []"
  shows "\<exists>r occ data. get_monster_report mc (MonsterQS rows) n = Inr r \<and>
     jget ''nat_stars'' r = Some occ \<and> jget ''data'' occ = Some (JList data) \<and>
     (\<forall>row\<in>set data. \<exists>d\<in>set rows.
        jget ''nat_stars'' row = Some (JInt (base_stars (mdrop_monster d))) \<and>
        rate_row n (length (filter (\<lambda>x. base_stars (mdrop_monster x) = base_stars (mdrop_monster d)) rows)) row)"
proof -
  let ?mk = "\<lambda>(stars, grp). jdict [(''nat_stars'', JInt stars), (''count'', JInt (int (length grp))),
                           (''drop_chance'', JReal (drop_chance_value (length grp) n))]"
  let ?data = "map ?mk (group_by (\<lambda>d. base_stars (mdrop_monster d)) rows)"
  have "\<exists>r occ. get_monster_report mc (MonsterQS rows) n = Inr r \<and>
     jget ''nat_stars'' r = Some occ \<and> jget ''data'' occ = Some (JList ?data)"
    using assms by (simp add: get_monster_report_def mons_by_nat_stars_pos)
  moreover have "\<exists>d\<in>set rows.
        jget ''nat_stars'' row = Some (JInt (base_stars (mdrop_monster d))) \<and>
        rate_row n (length (filter (\<lambda>x. base_stars (mdrop_monster x) = base_stars (mdrop_monster d)) rows)) row"
    if "row \<in> set ?data" for row
  proof -
    from that have "row \<in> ?mk ` set (group_by (\<lambda>d. base_stars (mdrop_monster d)) rows)" by simp
    then obtain d where "d \<in> set rows"
      "row = ?mk (base_stars (mdrop_monster d), filter (\<lambda>x. base_stars (mdrop_monster x) = base_stars (mdrop_monster d)) rows)"
      by (rule group_row_cases)
    then show ?thesis by (auto simp: rate_row_def)
  qed
  ultimately show ?thesis by blast
qed

lemma item_table_data_pos:
  assumes "0 < n"
  shows "item_table_data n rows =
     Inr (map (\<lambda>((name, icon, category), grp).
                 jdict ([(''name'', JStr name), (''icon'', JStr icon)] @ item_stats_of n grp))
       (sort_key (\<lambda>((name, icon, category), grp). category)
         (sort_key (\<lambda>(k, grp). - int (length grp))
             (group_by (\<lambda>d. (item_name (idrop_item d), item_icon (idrop_item d),
                              item_category (idrop_item d))) rows))))"
  unfolding item_table_data_def filter_groups_nonempty
  by (rule rmap_Inr) (auto simp: item_stats_pos assms)

lemma item_table_rows_rate:
  assumes "0 < n"
  shows "\<exists>data. item_table_data n rows = Inr data \<and> (data = [] \<longleftrightarrow> rows = []) \<and>
     (\<forall>row\<in>set data. \<exists>d\<in>set rows.
        jget ''name'' row = Some (JStr (item_name (idrop_item d))) \<and>
        rate_row n (length (filter (\<lambda>x. (item_name (idrop_item x), item_icon (idrop_item x),
                              item_category (idrop_item x)) = (item_name (idrop_item d), item_icon (idrop_item d),
                              item_category (idrop_item d))) rows)) row)"
proof -
  let ?key = "\<lambda>d. (item_name (idrop_item d), item_icon (idrop_item d), item_category (idrop_item d))"
  let ?mk = "\<lambda>((name, icon, category), grp).
                 jdict ([(''name'', JStr name), (''icon'', JStr icon)] @ item_stats_of n grp)"
  let ?data = "map ?mk (sort_key (\<lambda>((name, icon, category), grp). category)
         (sort_key (\<lambda>(k, grp). - int (length grp)) (group_by ?key rows)))"
  have eq: "item_table_data n rows = Inr ?data"
    by (rule item_table_data_pos [OF assms])
  have nil: "?data = [] \<longleftrightarrow> rows = []" by simp
  have "\<exists>d\<in>set rows.
        jget ''name'' row = Some (JStr (item_name (idrop_item d))) \<and>
        rate_row n (length (filter (\<lambda>x. ?key x = ?key d) rows)) row"
    if "row \<in> set ?data" for row
  proof -
    from that have "row \<in> ?mk ` set (group_by ?key rows)" by simp
    then obtain d where d: "d \<in> set rows" "row = ?mk (?key d, filter (\<lambda>x. ?key x = ?key d) rows)"
      by (rule group_row_cases)
    have "rate_row n (length (filter (\<lambda>x. ?key x = ?key d) rows))
            (jdict ([(''name'', JStr (item_name (idrop_item d))),
                     (''icon'', JStr (item_icon (idrop_item d)))] @
                    item_stats_of n (filter (\<lambda>x. ?key x = ?key d) rows)))"
      by (rule rate_row_item_stats) simp_all
    with d show ?thesis by (intro bexI [where x = d]) simp_all
  qed
  with eq nil show ?thesis by blast
qed

lemma jget_replace_in_row:
  "k \<noteq> key \<Longrightarrow> jget k (replace_in_row (key, choices) row) = jget k row"
proof (cases row)
  case (JDict kvs)
  assume "k \<noteq> key"
  then have "map_of (map (\<lambda>(k', v). if k' = JStr key
                          then (k', (case map_of choices v of Some label \<Rightarrow> label | None \<Rightarrow> v))
                          else (k', v)) kvs) (JStr k) = map_of kvs (JStr k)"
    by (induction kvs) auto
  with JDict show ?thesis by simp
qed simp_all

lemma rate_row_replace_in_row:
  "key \<noteq> ''count'' \<Longrightarrow> key \<noteq> ''drop_chance'' \<Longrightarrow>
   rate_row n c (replace_in_row (key, choices) row) = rate_row n c row"
  by (simp add: rate_row_def jget_replace_in_row)

lemma monster_table_rows_pos:
  assumes "0 < n"
  shows "monster_table_rows n rows =
     Inr (map (\<lambda>((name, slug, icon, elt, can_awk, is_awk, stars), grp).
               jdict [(''name'', JStr name), (''slug'', JStr slug), (''icon'', JStr icon),
                           (''element'', elt), (''can_awaken'', JBool can_awk),
                           (''is_awakened'', JBool is_awk), (''stars'', JInt stars),
                           (''count'', JInt (int (length grp))),
                           (''drop_chance'', JReal (drop_chance_value (length grp) n))])
       (group_by monster_table_key rows))"
  unfolding monster_table_rows_def
  by (rule rmap_Inr) (auto simp: drop_chance_of_pos assms)

lemma monster_table_rows_rate:
  assumes "0 < n"
  shows "\<exists>data. monster_table_data mc n rows = Inr data \<and> (data = [] \<longleftrightarrow> rows = []) \<and>
     (\<forall>row\<in>set data. \<exists>d\<in>set rows.
        jget ''name'' row = Some (JStr (monster_name (mdrop_monster d))) \<and>
        rate_row n (length (filter (\<lambda>x. monster_table_key x = monster_table_key d) rows)) row)"
proof -
  let ?mk = "\<lambda>((name, slug, icon, elt, can_awk, is_awk, stars), grp).
               jdict [(''name'', JStr name), (''slug'', JStr slug), (''icon'', JStr icon),
                           (''element'', elt), (''can_awaken'', JBool can_awk),
                           (''is_awakened'', JBool is_awk), (''stars'', JInt stars),
                           (''count'', JInt (int (length grp))),
                           (''drop_chance'', JReal (drop_chance_value (length grp) n))]"
  let ?rep = "replace_in_row (''element'', ELEMENT_CHOICES mc)"
  let ?data = "map ?rep (map ?mk (group_by monster_table_key rows))"
  have eq: "monster_table_data mc n rows = Inr ?data"
    by (simp add: monster_table_data_def monster_table_rows_pos [OF assms]
        replace_value_with_choice_def)
  have nil: "?data = [] \<longleftrightarrow> rows = []" by simp
  have "\<exists>d\<in>set rows.
        jget ''name'' row = Some (JStr (monster_name (mdrop_monster d))) \<and>
        rate_row n (length (filter (\<lambda>x. monster_table_key x = monster_table_key d) rows)) row"
    if "row \<in> set ?data" for row
  proof -
    from that have "row \<in> ?rep ` (?mk ` set (group_by monster_table_key rows))"
      by (simp only: set_map)
    then obtain row' where row': "row = ?rep row'"
      "row' \<in> ?mk ` set (group_by monster_table_key rows)" by blast
    from row'(2) obtain d where d: "d \<in> set rows"
      "row' = ?mk (monster_table_key d, filter (\<lambda>x. monster_table_key x = monster_table_key d) rows)"
      by (rule group_row_cases)
    from d(2) have "jget ''name'' row' = Some (JStr (monster_name (mdrop_monster d)))"
      and "rate_row n (length (filter (\<lambda>x. monster_table_key x = monster_table_key d) rows)) row'"
      by (simp_all add: monster_table_key_def rate_row_def)
    with row'(1) d(1) show ?thesis
      by (intro bexI [where x = d]) (simp_all add: jget_replace_in_row rate_row_replace_in_row)
  qed
  with eq nil show ?thesis by blast
qed

lemmas related_names =
  ItemDrop_RELATED_NAME_def MonsterDrop_RELATED_NAME_def MonsterPieceDrop_RELATED_NAME_def
  RuneDrop_RELATED_NAME_def RuneCraftDrop_RELATED_NAME_def
  DungeonSecretDungeonDrop_RELATED_NAME_def

lemma recognized_keys_DROP_TYPES: "map fst DROP_TYPES = recognized_keys"
  by (simp add: DROP_TYPES_def recognized_keys_def)

lemma category_key_recognized: "category_key q \<in> set recognized_keys"
  by (cases q) (simp_all add: recognized_keys_def)

lemma rbind_eq_Inl:
  "rbind m f = Inl e \<longleftrightarrow> m = Inl e \<or> (\<exists>x. m = Inr x \<and> f x = Inl e)"
  by (cases m) simp_all

lemma rbind_eq_Inr:
  "rbind m f = Inr y \<longleftrightarrow> (\<exists>x. m = Inr x \<and> f x = Inr y)"
  by (cases m) simp_all

lemma rmap_eq_Inl: "rmap f xs = Inl e \<Longrightarrow> \<exists>x\<in>set xs. f x = Inl e"
  by (induction xs) (auto simp: rbind_eq_Inl)

lemma drop_chance_of_error: "drop_chance_of c n = Inl e \<Longrightarrow> e = DataError"
  by (auto simp: drop_chance_of_def db_div_def rbind_eq_Inl split: if_splits)

lemma avg_per_run_of_error: "avg_per_run_of qs n = Inl e \<Longrightarrow> e = DataError"
  by (auto simp: avg_per_run_of_def db_div_def rbind_eq_Inl split: if_splits option.splits)

lemma item_stats_error: "item_stats n grp = Inl e \<Longrightarrow> e = DataError"
  by (auto simp: item_stats_def rbind_eq_Inl dest: drop_chance_of_error avg_per_run_of_error)

lemma item_table_data_error: "item_table_data n rows = Inl e \<Longrightarrow> e = DataError"
  unfolding item_table_data_def
  by (drule rmap_eq_Inl) (auto simp: rbind_eq_Inl dest: item_stats_error)

lemma monster_table_data_error: "monster_table_data mc n rows = Inl e \<Longrightarrow> e = DataError"
  unfolding monster_table_data_def monster_table_rows_def rbind_eq_Inl
  by (auto dest!: rmap_eq_Inl simp: rbind_eq_Inl dest: drop_chance_of_error)

lemma summary_data_unrecognized:
  assumes "drop_type \<notin> set recognized_keys"
  shows "summary_data mc n drop_type qs =
           Inl (NotImplementedError (''No summary table generation for '' @ drop_type))"
  using assms by (simp add: summary_data_def recognized_keys_def Let_def)

lemma summary_data_recognized:
  assumes "drop_type \<in> set recognized_keys"
  shows "summary_data mc n drop_type qs \<noteq> Inl (NotImplementedError msg)"
  using assms
  by (cases qs)
    (auto simp: summary_data_def recognized_keys_def Let_def rbind_eq_Inl
      dest: item_table_data_error monster_table_data_error)

lemma summary_data_matching:
  assumes "0 < n"
  shows "\<exists>chart_data table_data. summary_data mc n (category_key qs) qs = Inr (chart_data, table_data)"
proof (cases qs)
  case (ItemQS rows)
  then show ?thesis
    by (simp add: summary_data_def item_table_data_pos [OF assms])
next
  case (MonsterQS rows)
  then show ?thesis
    by (simp add: summary_data_def monster_table_data_def monster_table_rows_pos [OF assms]
        related_names)
qed (simp_all add: summary_data_def related_names Let_def)

lemma map_of_dict_set: "map_of (dict_set k v kvs) = (map_of kvs)(k \<mapsto> v)"
  by (induction kvs) (auto simp: fun_eq_iff)

lemma summary_loop_keeps:
  "summary_loop mc n drops tb ch = Inr (tb', ch') \<Longrightarrow> k \<notin> fst ` set drops \<Longrightarrow>
     map_of tb' k = map_of tb k"
proof (induction drops arbitrary: tb ch)
  case Nil
  then show ?case by simp
next
  case (Cons a drops)
  obtain k' q where a: "a = (k', q)" by (cases a)
  from Cons.prems a obtain c t where
    sd: "summary_data mc n k' q = Inr (c, t)" and
    rest: "summary_loop mc n drops (if truthy t then dict_set k' t tb else tb) (ch @ c) = Inr (tb', ch')"
    by (auto simp: rbind_eq_Inr)
  from Cons.prems a have "k \<noteq> k'" "k \<notin> fst ` set drops" by auto
  with Cons.IH [OF rest] show ?case by (simp add: map_of_dict_set)
qed

lemma summary_loop_table:
  "summary_loop mc n drops tb ch = Inr (tb', ch') \<Longrightarrow> distinct (map fst drops) \<Longrightarrow>
   (k, q) \<in> set drops \<Longrightarrow>
     \<exists>c t. summary_data mc n k q = Inr (c, t) \<and> (truthy t \<longrightarrow> map_of tb' k = Some t)"
proof (induction drops arbitrary: tb ch)
  case Nil
  then show ?case by simp
next
  case (Cons a drops)
  obtain k' q' where a: "a = (k', q')" by (cases a)
  from Cons.prems a obtain c t where
    sd: "summary_data mc n k' q' = Inr (c, t)" and
    rest: "summary_loop mc n drops (if truthy t then dict_set k' t tb else tb) (ch @ c) = Inr (tb', ch')"
    by (auto simp: rbind_eq_Inr)
  show ?case
  proof (cases "(k, q) = (k', q')")
    case True
    with Cons.prems a have "k \<notin> fst ` set drops" by auto
    from summary_loop_keeps [OF rest this] True sd show ?thesis
      by (auto simp: map_of_dict_set)
  next
    case False
    with Cons.prems a have "(k, q) \<in> set drops" "distinct (map fst drops)" by auto
    with Cons.IH [OF rest] show ?thesis by blast
  qed
qed

lemma summary_loop_ok:
  "(\<And>k q. (k, q) \<in> set drops \<Longrightarrow> \<exists>c t. summary_data mc n k q = Inr (c, t)) \<Longrightarrow>
     \<exists>tb' ch'. summary_loop mc n drops tb ch = Inr (tb', ch')"
proof (induction drops arbitrary: tb ch)
  case Nil
  then show ?case by simp
next
  case (Cons a drops)
  obtain k q where a: "a = (k, q)" by (cases a)
  with Cons.prems obtain c t where sd: "summary_data mc n k q = Inr (c, t)" by fastforce
  have "\<exists>tb' ch'. summary_loop mc n drops (if truthy t then dict_set k t tb else tb) (ch @ c)
          = Inr (tb', ch')"
    by (rule Cons.IH) (use Cons.prems in auto)
  with a sd show ?case by simp
qed

lemma summary_loop_error:
  "summary_loop mc n drops tb ch = Inl e \<Longrightarrow> \<exists>(k, q)\<in>set drops. summary_data mc n k q = Inl e"
proof (induction drops arbitrary: tb ch)
  case Nil
  then show ?case by simp
next
  case (Cons a drops)
  obtain k q where a: "a = (k, q)" by (cases a)
  show ?case
  proof (cases "summary_data mc n k q")
    case (Inl e')
    with Cons.prems a show ?thesis by simp
  next
    case (Inr ct)
    with Cons.prems a Cons.IH show ?thesis by (cases ct) fastforce
  qed
qed

lemma summary_loop_first_error:
  "(\<And>k q. (k, q) \<in> set pre \<Longrightarrow> \<exists>c t. summary_data mc n k q = Inr (c, t)) \<Longrightarrow>
   summary_data mc n k q = Inl e \<Longrightarrow>
     summary_loop mc n (pre @ (k, q) # post) tb ch = Inl e"
proof (induction pre arbitrary: tb ch)
  case Nil
  then show ?case by simp
next
  case (Cons a pre)
  obtain k' q' where a: "a = (k', q')" by (cases a)
  with Cons.prems obtain c t where sd: "summary_data mc n k' q' = Inr (c, t)" by fastforce
  have "summary_loop mc n (pre @ (k, q) # post) (if truthy t then dict_set k' t tb else tb) (ch @ c)
          = Inl e"
    by (rule Cons.IH) (use Cons.prems in auto)
  with a sd show ?case by simp
qed

lemmas sample_defs = sample_item_def sample_item_drop_def sample_constants_def

lemma get_report_summary_table:
  assumes ok: "get_report_summary mc drops n = Inr s"
    and dist: "distinct (map fst drops)"
    and mem: "(k, q) \<in> set drops"
  shows "\<exists>tbl c t. jget ''table'' s = Some tbl \<and> summary_data mc n k q = Inr (c, t) \<and>
           (truthy t \<longrightarrow> jget k tbl = Some t)"
proof -
  from ok obtain tb ch where loop: "summary_loop mc n drops [] [] = Inr (tb, ch)"
    and s: "s = jdict [(''table'', jdict tb), (''chart'', JList ch)]"
    by (auto simp: get_report_summary_def rbind_eq_Inr)
  from summary_loop_table [OF loop dist mem] s show ?thesis by auto
qed

lemma drop_chance_value_range:
  "0 < n \<Longrightarrow> 0 \<le> drop_chance_value c n \<and> (drop_chance_value c n \<le> 100 \<longleftrightarrow> c \<le> n)"
  by (simp add: drop_chance_value_def field_simps)

text \<open>
  C4 (as the code has it). For a positive \<open>total_log_count\<close>, every row of the item
  aggregator, of the monster aggregator's breakdown by native stars, and of the summary
  composer's item and monster tables carries as \<^verbatim>\<open>count\<close> the number of drop records of
  its group and as \<^verbatim>\<open>drop_chance\<close> exactly \<open>count / total_log_count * 100\<close>. That value
  is never negative, and it is at most 100 exactly when the count does not exceed
  \<open>total_log_count\<close>.
\<close>

theorem drop_chance_rate:
  assumes "0 < n"
  shows "(rows \<noteq> [] \<longrightarrow>
          (\<exists>results. get_item_report mc (ItemQS rows) n = Inr (JList results) \<and>
             (\<forall>row\<in>set results. \<exists>d\<in>set rows.
                jget ''item'' row = Some (JInt (int (item_pk (idrop_item d)))) \<and>
                jget ''name'' row = Some (JStr (item_name (idrop_item d))) \<and>
                rate_row n
                  (length (filter (\<lambda>x. (item_pk (idrop_item x), item_name (idrop_item x),
                                         item_icon (idrop_item x)) =
                                        (item_pk (idrop_item d), item_name (idrop_item d),
                                         item_icon (idrop_item d))) rows)) row))) \<and>
         (mrows \<noteq> [] \<longrightarrow>
          (\<exists>r occ data. get_monster_report mc (MonsterQS mrows) n = Inr r \<and>
             jget ''nat_stars'' r = Some occ \<and> jget ''data'' occ = Some (JList data) \<and>
             (\<forall>row\<in>set data. \<exists>d\<in>set mrows.
                jget ''nat_stars'' row = Some (JInt (base_stars (mdrop_monster d))) \<and>
                rate_row n
                  (length (filter (\<lambda>x. base_stars (mdrop_monster x) =
                                        base_stars (mdrop_monster d)) mrows)) row))) \<and>
         (get_report_summary mc drops n = Inr s \<and> distinct (map fst drops) \<and>
          (ItemDrop_RELATED_NAME, ItemQS rows) \<in> set drops \<and> rows \<noteq> [] \<longrightarrow>
          (\<exists>tbl data. jget ''table'' s = Some tbl \<and>
             jget ItemDrop_RELATED_NAME tbl = Some (JList data) \<and>
             (\<forall>row\<in>set data. \<exists>d\<in>set rows.
                jget ''name'' row = Some (JStr (item_name (idrop_item d))) \<and>
                rate_row n
                  (length (filter (\<lambda>x. (item_name (idrop_item x), item_icon (idrop_item x),
                                         item_category (idrop_item x)) =
                                        (item_name (idrop_item d), item_icon (idrop_item d),
                                         item_category (idrop_item d))) rows)) row))) \<and>
         (get_report_summary mc drops n = Inr s \<and> distinct (map fst drops) \<and>
          (MonsterDrop_RELATED_NAME, MonsterQS mrows) \<in> set drops \<and> mrows \<noteq> [] \<longrightarrow>
          (\<exists>tbl data. jget ''table'' s = Some tbl \<and>
             jget MonsterDrop_RELATED_NAME tbl = Some (JList data) \<and>
             (\<forall>row\<in>set data. \<exists>d\<in>set mrows.
                jget ''name'' row = Some (JStr (monster_name (mdrop_monster d))) \<and>
                rate_row n
                  (length (filter (\<lambda>x. monster_table_key x = monster_table_key d) mrows))
                  row))) \<and>
         0 \<le> drop_chance_value c n \<and> (drop_chance_value c n \<le> 100 \<longleftrightarrow> c \<le> n)"
proof -
  have items: "\<exists>tbl data. jget ''table'' s = Some tbl \<and>
             jget ItemDrop_RELATED_NAME tbl = Some (JList data) \<and>
             (\<forall>row\<in>set data. \<exists>d\<in>set rows.
                jget ''name'' row = Some (JStr (item_name (idrop_item d))) \<and>
                rate_row n
                  (length (filter (\<lambda>x. (item_name (idrop_item x), item_icon (idrop_item x),
                                         item_category (idrop_item x)) =
                                        (item_name (idrop_item d), item_icon (idrop_item d),
                                         item_category (idrop_item d))) rows)) row)"
    if ok: "get_report_summary mc drops n = Inr s" and dist: "distinct (map fst drops)"
      and mem: "(ItemDrop_RELATED_NAME, ItemQS rows) \<in> set drops" and ne: "rows \<noteq> []"
  proof -
    from item_table_rows_rate [OF assms, of rows] obtain data where
      data: "item_table_data n rows = Inr data" "data = [] \<longleftrightarrow> rows = []"
      "\<forall>row\<in>set data. \<exists>d\<in>set rows.
                jget ''name'' row = Some (JStr (item_name (idrop_item d))) \<and>
                rate_row n
                  (length (filter (\<lambda>x. (item_name (idrop_item x), item_icon (idrop_item x),
                                         item_category (idrop_item x)) =
                                        (item_name (idrop_item d), item_icon (idrop_item d),
                                         item_category (idrop_item d))) rows)) row"
      by blast
    from data(1) have sd: "summary_data mc n ItemDrop_RELATED_NAME (ItemQS rows) =
        Inr (item_chart_data mc rows, JList data)"
      by (simp add: summary_data_def)
    from get_report_summary_table [OF ok dist mem] sd data(2) ne
    have "\<exists>tbl. jget ''table'' s = Some tbl \<and> jget ItemDrop_RELATED_NAME tbl = Some (JList data)"
      by auto
    with data(3) show ?thesis by blast
  qed
  have monsters: "\<exists>tbl data. jget ''table'' s = Some tbl \<and>
             jget MonsterDrop_RELATED_NAME tbl = Some (JList data) \<and>
             (\<forall>row\<in>set data. \<exists>d\<in>set mrows.
                jget ''name'' row = Some (JStr (monster_name (mdrop_monster d))) \<and>
                rate_row n
                  (length (filter (\<lambda>x. monster_table_key x = monster_table_key d) mrows))
                  row)"
    if ok: "get_report_summary mc drops n = Inr s" and dist: "distinct (map fst drops)"
      and mem: "(MonsterDrop_RELATED_NAME, MonsterQS mrows) \<in> set drops" and ne: "mrows \<noteq> []"
  proof -
    from monster_table_rows_rate [OF assms, of mc mrows] obtain data where
      data: "monster_table_data mc n mrows = Inr data" "data = [] \<longleftrightarrow> mrows = []"
      "\<forall>row\<in>set data. \<exists>d\<in>set mrows.
                jget ''name'' row = Some (JStr (monster_name (mdrop_monster d))) \<and>
                rate_row n
                  (length (filter (\<lambda>x. monster_table_key x = monster_table_key d) mrows))
                  row"
      by blast
    from data(1) have sd: "summary_data mc n MonsterDrop_RELATED_NAME (MonsterQS mrows) =
        Inr (monster_chart_data mrows, JList data)"
      by (simp add: summary_data_def related_names)
    from get_report_summary_table [OF ok dist mem] sd data(2) ne
    have "\<exists>tbl. jget ''table'' s = Some tbl \<and> jget MonsterDrop_RELATED_NAME tbl = Some (JList data)"
      by auto
    with data(3) show ?thesis by blast
  qed
  from item_report_rows_rate [OF assms, of rows mc] monster_report_rows_rate [OF assms, of mrows mc]
    items monsters drop_chance_value_range [OF assms, of c]
  show ?thesis by blast
qed

theorem drop_chance_rate_witness:
  "\<exists>s tbl row row'.
     get_item_report sample_constants (ItemQS [sample_item_drop 1 1, sample_item_drop 2 3]) 4
       = Inr (JList [row]) \<and>
     rate_row 4 2 row \<and>
     get_report_summary sample_constants
       [(ItemDrop_RELATED_NAME, ItemQS [sample_item_drop 1 1, sample_item_drop 2 3])] 4 = Inr s \<and>
     jget ''table'' s = Some tbl \<and> jget ItemDrop_RELATED_NAME tbl = Some (JList [row']) \<and>
     rate_row 4 2 row' \<and> drop_chance_value 2 4 = 50 \<and> drop_chance_value 2 4 \<le> 100"
  using drop_chance_rate [of 4 "[sample_item_drop 1 1, sample_item_drop 2 3]" sample_constants "[]"
      "[(ItemDrop_RELATED_NAME, ItemQS [sample_item_drop 1 1, sample_item_drop 2 3])]" _ 2]
  by (simp add: get_item_report_def get_report_summary_def summary_data_def related_names
      item_table_data_def item_chart_data_def group_by_def item_stats_def drop_chance_of_def
      db_div_def avg_per_run_of_def agg_sum_def sample_defs rate_row_def drop_chance_value_def)

text \<open>
  C4 as stated fails in its range: the count is over drop records, and a log record may
  hold several drop records of one item. One log record with two drops of the same item
  gives that item a \<^verbatim>\<open>drop_chance\<close> of 200 in the summary table.
\<close>

theorem drop_chance_above_100_counterexample:
  "\<exists>s tbl row.
     get_report_summary sample_constants
       [(ItemDrop_RELATED_NAME, ItemQS [sample_item_drop 1 1, sample_item_drop 1 3])] 1 = Inr s \<and>
     jget ''table'' s = Some tbl \<and> jget ItemDrop_RELATED_NAME tbl = Some (JList [row]) \<and>
     jget ''count'' row = Some (JInt 2) \<and> jget ''drop_chance'' row = Some (JReal 200) \<and>
     \<not> (200 :: real) \<le> 100"
  by (simp add: get_report_summary_def summary_data_def related_names item_table_data_def
      item_chart_data_def group_by_def item_stats_def drop_chance_of_def db_div_def
      avg_per_run_of_def agg_sum_def sample_defs)

lemma summary_loop_each_ok:
  "summary_loop mc n drops tb ch = Inr (tb', ch') \<Longrightarrow> (k, q) \<in> set drops \<Longrightarrow>
     \<exists>c t. summary_data mc n k q = Inr (c, t)"
proof (induction drops arbitrary: tb ch)
  case Nil
  then show ?case by simp
next
  case (Cons a drops)
  obtain k' q' where a: "a = (k', q')" by (cases a)
  from Cons.prems a obtain c t where
    sd: "summary_data mc n k' q' = Inr (c, t)" and
    rest: "summary_loop mc n drops (if truthy t then dict_set k' t tb else tb) (ch @ c) = Inr (tb', ch')"
    by (auto simp: rbind_eq_Inr)
  show ?case
  proof (cases "(k, q) = (k', q')")
    case True
    with sd show ?thesis by auto
  next
    case False
    with Cons.prems a have "(k, q) \<in> set drops" by auto
    with Cons.IH [OF rest] show ?thesis by blast
  qed
qed

lemma get_report_summary_error:
  "get_report_summary mc drops n = Inl e \<Longrightarrow> \<exists>(k, q)\<in>set drops. summary_data mc n k q = Inl e"
  by (auto simp: get_report_summary_def rbind_eq_Inl dest: summary_loop_error)

lemma get_report_summary_ok:
  assumes "\<And>k q. (k, q) \<in> set drops \<Longrightarrow> category_key q = k" "0 < n"
  shows "\<exists>s. get_report_summary mc drops n = Inr s"
proof -
  have "\<exists>tb' ch'. summary_loop mc n drops [] [] = Inr (tb', ch')"
  proof (rule summary_loop_ok)
    fix k q assume "(k, q) \<in> set drops"
    with assms(1) have "category_key q = k" by blast
    with summary_data_matching [OF assms(2), of mc q]
    show "\<exists>c t. summary_data mc n k q = Inr (c, t)" by simp
  qed
  then show ?thesis by (auto simp: get_report_summary_def)
qed

text \<open>
  C8. The table of a key that is none of the six recognized keys is never built: the loop
  body raises \<^verbatim>\<open>NotImplementedError\<close> for it whatever the queryset, so
  \<^verbatim>\<open>get_report_summary\<close> raises whenever such a key is among the drops, and raises that
  very error when the entries before it are well formed. A recognized key never raises
  it, and a summary over recognized keys, each with a queryset of its own category, and a
  positive log count is returned without any error.
\<close>

theorem summary_unrecognized_key_raises:
  "(k \<notin> set recognized_keys \<longrightarrow>
      summary_data mc n k qs =
        Inl (NotImplementedError (''No summary table generation for '' @ k))) \<and>
   (k \<in> set recognized_keys \<longrightarrow>
      (\<forall>msg. summary_data mc n k qs \<noteq> Inl (NotImplementedError msg))) \<and>
   (k \<in> fst ` set drops \<and> k \<notin> set recognized_keys \<longrightarrow>
      (\<exists>e. get_report_summary mc drops n = Inl e)) \<and>
   ((\<forall>(k', q')\<in>set pre. category_key q' = k') \<and> 0 < n \<and> k \<notin> set recognized_keys \<longrightarrow>
      get_report_summary mc (pre @ (k, qs) # post) n =
        Inl (NotImplementedError (''No summary table generation for '' @ k))) \<and>
   ((\<forall>k'\<in>fst ` set drops. k' \<in> set recognized_keys) \<longrightarrow>
      (\<forall>msg. get_report_summary mc drops n \<noteq> Inl (NotImplementedError msg))) \<and>
   ((\<forall>(k', q')\<in>set drops. category_key q' = k') \<and> 0 < n \<longrightarrow>
      (\<exists>s. get_report_summary mc drops n = Inr s))"
proof -
  have some_error: "\<exists>e. get_report_summary mc drops n = Inl e"
    if "k \<in> fst ` set drops" "k \<notin> set recognized_keys"
  proof (cases "get_report_summary mc drops n")
    case (Inl e)
    then show ?thesis by blast
  next
    case (Inr s)
    then obtain tb ch where loop: "summary_loop mc n drops [] [] = Inr (tb, ch)"
      by (auto simp: get_report_summary_def rbind_eq_Inr)
    from that(1) obtain q where q: "(k, q) \<in> set drops" by auto
    from summary_loop_each_ok [OF loop q] summary_data_unrecognized [OF that(2), of mc n q]
    show ?thesis by simp
  qed
  have first: "get_report_summary mc (pre @ (k, qs) # post) n =
        Inl (NotImplementedError (''No summary table generation for '' @ k))"
    if pre: "\<forall>(k', q')\<in>set pre. category_key q' = k'" and n: "0 < n"
      and k: "k \<notin> set recognized_keys"
  proof -
    have "summary_loop mc n (pre @ (k, qs) # post) [] [] =
        Inl (NotImplementedError (''No summary table generation for '' @ k))"
    proof (rule summary_loop_first_error)
      fix k' q' assume "(k', q') \<in> set pre"
      with pre have "category_key q' = k'" by blast
      with summary_data_matching [OF n, of mc q']
      show "\<exists>c t. summary_data mc n k' q' = Inr (c, t)" by simp
    qed (rule summary_data_unrecognized [OF k])
    then show ?thesis by (simp add: get_report_summary_def)
  qed
  have never: "get_report_summary mc drops n \<noteq> Inl (NotImplementedError msg)"
    if "\<forall>k'\<in>fst ` set drops. k' \<in> set recognized_keys" for msg
  proof
    assume "get_report_summary mc drops n = Inl (NotImplementedError msg)"
    then obtain k' q' where "(k', q') \<in> set drops"
      "summary_data mc n k' q' = Inl (NotImplementedError msg)"
      by (auto dest: get_report_summary_error)
    moreover from this(1) that have "k' \<in> set recognized_keys" by force
    ultimately show False using summary_data_recognized by blast
  qed
  have ok: "\<exists>s. get_report_summary mc drops n = Inr s"
    if "\<forall>(k', q')\<in>set drops. category_key q' = k'" "0 < n"
    using that by (intro get_report_summary_ok) auto
  from summary_data_unrecognized [of k mc n qs] summary_data_recognized [of k mc n qs]
    some_error first never ok
  show ?thesis by blast
qed

theorem summary_unrecognized_key_raises_witness:
  "''artifacts'' \<notin> set recognized_keys \<and>
   get_report_summary sample_constants
     [(ItemDrop_RELATED_NAME, ItemQS [sample_item_drop 1 1]), (''artifacts'', RuneQS [])] 1 =
     Inl (NotImplementedError ''No summary table generation for artifacts'') \<and>
   (\<exists>s. get_report_summary sample_constants
           [(ItemDrop_RELATED_NAME, ItemQS [sample_item_drop 1 1]),
            (RuneDrop_RELATED_NAME, RuneQS [])] 1 = Inr s)"
  using summary_unrecognized_key_raises
    [of "''artifacts''" sample_constants 1 "RuneQS []" "[]"
      "[(ItemDrop_RELATED_NAME, ItemQS [sample_item_drop 1 1])]" "[]"]
    summary_unrecognized_key_raises
    [of "''artifacts''" sample_constants 1 "RuneQS []"
      "[(ItemDrop_RELATED_NAME, ItemQS [sample_item_drop 1 1]),
        (RuneDrop_RELATED_NAME, RuneQS [])]" "[]" "[]"]
  by (simp add: recognized_keys_def related_names)

section \<open>Properties of the resolver and of the cross-grade summary\<close>

lemma category_key_filter_log_in [simp]:
  "category_key (filter_log_in pks q) = category_key q"
  by (cases q) simp_all

lemma map_of_resolved:
  "distinct ks \<Longrightarrow>
   map_of (concat (map (\<lambda>k. case m k of None \<Rightarrow> [] | Some v \<Rightarrow> [(k, f v)]) ks)) k =
     (if k \<in> set ks then map_option f (m k) else None)"
  by (induction ks) (auto split: option.splits)

lemma distinct_recognized_keys: "distinct recognized_keys"
  by (simp add: recognized_keys_def related_names)

lemma map_of_get_drop_querysets:
  "map_of (get_drop_querysets model qs) k =
     (if k \<in> set recognized_keys
      then map_option (filter_log_in (map log_pk qs)) (map_of model k) else None)"
  unfolding get_drop_querysets_def recognized_keys_DROP_TYPES
  by (rule map_of_resolved [OF distinct_recognized_keys])

lemma get_drop_querysets_mem:
  assumes "(k, q) \<in> set (get_drop_querysets model qs)"
  shows "\<exists>tbl. map_of model k = Some tbl \<and> q = filter_log_in (map log_pk qs) tbl"
proof -
  from assms obtain k' where
    "(k, q) \<in> set (case map_of model k' of None \<Rightarrow> []
                     | Some drop_model \<Rightarrow> [(k', filter_log_in (map log_pk qs) drop_model)])"
    by (auto simp: get_drop_querysets_def)
  then show ?thesis by (cases "map_of model k'") auto
qed

lemma wf_model_map_of:
  "wf_model model \<Longrightarrow> map_of model k = Some tbl \<Longrightarrow> category_key tbl = k"
  by (auto simp: wf_model_def list_all_iff dest!: map_of_SomeD)

lemma get_drop_querysets_typed:
  "wf_model model \<Longrightarrow> (k, q) \<in> set (get_drop_querysets model qs) \<Longrightarrow> category_key q = k"
  by (auto dest!: get_drop_querysets_mem dest: wf_model_map_of)

lemma get_monster_report_ok:
  "0 < n \<or> rows = [] \<Longrightarrow> \<exists>r. get_monster_report mc (MonsterQS rows) n = Inr r"
  by (cases "rows = []") (auto simp: get_monster_report_def mons_by_nat_stars_pos)

lemma get_item_report_ok:
  "0 < n \<or> rows = [] \<Longrightarrow> \<exists>r. get_item_report mc (ItemQS rows) n = Inr r"
  by (cases "rows = []") (auto simp: get_item_report_pos, simp add: get_item_report_def)

lemma aggregator_ok:
  "\<exists>agg r. map_of DROP_TYPES (category_key q) = Some agg \<and> agg mc q (qs_count q) = Inr r"
proof (cases q)
  case (ItemQS rows)
  with get_item_report_ok [of "length rows" rows mc] show ?thesis
    by (auto simp: DROP_TYPES_def)
next
  case (MonsterQS rows)
  with get_monster_report_ok [of "length rows" rows mc] show ?thesis
    by (auto simp: DROP_TYPES_def related_names)
next
  case (RuneQS rows)
  then show ?thesis
    by (simp add: DROP_TYPES_def related_names get_rune_report_def)
qed (simp_all add: DROP_TYPES_def related_names get_monster_piece_report_def
    get_rune_craft_report_def get_secret_dungeon_report_def)

lemma rmap_ok: "(\<And>x. x \<in> set xs \<Longrightarrow> \<exists>y. f x = Inr y) \<Longrightarrow> \<exists>ys. rmap f xs = Inr ys"
proof (induction xs)
  case Nil
  then show ?case by simp
next
  case (Cons x xs)
  then obtain y where "f x = Inr y" by fastforce
  moreover from Cons obtain ys where "rmap f xs = Inr ys" by fastforce
  ultimately show ?case by simp
qed

lemma level_drop_report_ok:
  assumes wf: "wf_model model" and ne: "qs \<noteq> []"
  shows "\<exists>r. level_drop_report mc model qs = Inr r \<and> r \<noteq> JNone"
proof -
  let ?drops = "get_drop_querysets model qs"
  have typed: "\<And>k q. (k, q) \<in> set ?drops \<Longrightarrow> category_key q = k"
    using wf by (rule get_drop_querysets_typed)
  from ne have "0 < length qs" by simp
  with typed obtain s where s: "get_report_summary mc ?drops (length qs) = Inr s"
    using get_report_summary_ok by blast
  have "\<exists>entries. rmap (\<lambda>(key, dqs).
                     case map_of DROP_TYPES key of
                       None \<Rightarrow> Inl (KeyError key)
                     | Some aggregator \<Rightarrow>
                         rbind (aggregator mc dqs (qs_count dqs)) (\<lambda>r. Inr (key, r)))
               ?drops = Inr entries"
  proof (rule rmap_ok)
    fix x assume x: "x \<in> set ?drops"
    obtain k q where kq: "x = (k, q)" by (cases x)
    with x typed have "category_key q = k" by blast
    with aggregator_ok [of q mc] kq
    show "\<exists>y. (case x of (key, dqs) \<Rightarrow>
                     case map_of DROP_TYPES key of
                       None \<Rightarrow> Inl (KeyError key)
                     | Some aggregator \<Rightarrow>
                         rbind (aggregator mc dqs (qs_count dqs)) (\<lambda>r. Inr (key, r))) = Inr y"
      by auto
  qed
  then obtain entries where "rmap (\<lambda>(key, dqs).
                     case map_of DROP_TYPES key of
                       None \<Rightarrow> Inl (KeyError key)
                     | Some aggregator \<Rightarrow>
                         rbind (aggregator mc dqs (qs_count dqs)) (\<lambda>r. Inr (key, r)))
               ?drops = Inr entries" ..
  with s show ?thesis by (simp add: level_drop_report_def Let_def jdict_def)
qed

lemma resolved_items_cases:
  assumes "wf_model model"
  obtains "map_of (get_drop_querysets model qs) ''items'' = None"
  | rows where "map_of (get_drop_querysets model qs) ''items'' = Some (ItemQS rows)"
proof (cases "map_of (get_drop_querysets model qs) ''items''")
  case None
  then show ?thesis by (rule that(1))
next
  case (Some q)
  then have "(''items'', q) \<in> set (get_drop_querysets model qs)" by (rule map_of_SomeD)
  with assms have "category_key q = ''items''" by (rule get_drop_querysets_typed)
  then obtain rows where "q = ItemQS rows" by (cases q) (simp_all add: related_names)
  with Some show ?thesis by (intro that(2)) simp
qed

lemma resolved_monsters_cases:
  assumes "wf_model model"
  obtains "map_of (get_drop_querysets model qs) ''monsters'' = None"
  | rows where "map_of (get_drop_querysets model qs) ''monsters'' = Some (MonsterQS rows)"
proof (cases "map_of (get_drop_querysets model qs) ''monsters''")
  case None
  then show ?thesis by (rule that(1))
next
  case (Some q)
  then have "(''monsters'', q) \<in> set (get_drop_querysets model qs)" by (rule map_of_SomeD)
  with assms have "category_key q = ''monsters''" by (rule get_drop_querysets_typed)
  then obtain rows where "q = MonsterQS rows" by (cases q) (simp_all add: related_names)
  with Some show ?thesis by (intro that(2)) simp
qed

lemma all_items_of_eq:
  assumes "wf_model model"
  shows "all_items_of items (get_drop_querysets model qs) =
           Inr (seen_items items (get_drop_querysets model qs))"
  using assms
  by (rule resolved_items_cases [where qs = qs])
    (simp_all add: all_items_of_def seen_items_def item_drops_of_def)

lemma all_monsters_of_eq:
  assumes "wf_model model"
  shows "all_monsters_of monsters (get_drop_querysets model qs) =
           Inr (seen_monsters monsters (get_drop_querysets model qs))"
  using assms
  by (rule resolved_monsters_cases [where qs = qs])
    (simp_all add: all_monsters_of_def seen_monsters_def monster_drops_of_def)

lemma grade_item_entry_eq:
  assumes wf: "wf_model model" and ne: "qs \<noteq> []"
    and i: "i \<in> set (seen_items items (get_drop_querysets model qs))"
  shows "grade_item_entry (get_drop_querysets model qs) qs (in_grade g qs) i =
           Inr (grade_item_row (get_drop_querysets model qs) qs g i)"
  using wf
proof (rule resolved_items_cases [where qs = qs])
  assume "map_of (get_drop_querysets model qs) ''items'' = None"
  with i show ?thesis by (simp add: seen_items_def item_drops_of_def)
next
  fix rows assume "map_of (get_drop_querysets model qs) ''items'' = Some (ItemQS rows)"
  with ne show ?thesis
    by (simp add: grade_item_entry_def grade_item_drops_def grade_item_row_def
        grade_item_matching_def item_drops_of_def item_stats_pos)
qed

lemma grade_monster_entry_eq:
  assumes wf: "wf_model model" and ne: "qs \<noteq> []"
    and m: "m \<in> set (seen_monsters monsters (get_drop_querysets model qs))"
  shows "grade_monster_entry (get_drop_querysets model qs) qs (in_grade g qs) m =
           Inr (grade_monster_row (get_drop_querysets model qs) qs g m)"
  using wf
proof (rule resolved_monsters_cases [where qs = qs])
  assume "map_of (get_drop_querysets model qs) ''monsters'' = None"
  with m show ?thesis by (simp add: seen_monsters_def monster_drops_of_def)
next
  fix rows assume "map_of (get_drop_querysets model qs) ''monsters'' = Some (MonsterQS rows)"
  with ne show ?thesis
    by (simp add: grade_monster_entry_def grade_monster_drops_def grade_monster_row_def
        grade_monster_matching_def monster_drops_of_def drop_chance_of_pos)
qed

lemma grade_summary_report_eq:
  assumes wf: "wf_model model" and ne: "qs \<noteq> []"
  shows "grade_summary_report model items monsters qs choices =
           Inr (map (grade_report_row (get_drop_querysets model qs) qs
                       (seen_items items (get_drop_querysets model qs))
                       (seen_monsters monsters (get_drop_querysets model qs))) choices)"
proof -
  let ?drops = "get_drop_querysets model qs"
  let ?is = "seen_items items ?drops"
  let ?ms = "seen_monsters monsters ?drops"
  have "grade_report_of ?drops qs ?is ?ms choice = Inr (grade_report_row ?drops qs ?is ?ms choice)"
    for choice
  proof -
    obtain g name where c: "choice = (g, name)" by (cases choice)
    have "rmap (grade_item_entry ?drops qs (in_grade g qs)) ?is =
            Inr (map (grade_item_row ?drops qs g) ?is)"
      by (rule rmap_Inr) (rule grade_item_entry_eq [OF wf ne])
    moreover have "rmap (grade_monster_entry ?drops qs (in_grade g qs)) ?ms =
            Inr (map (grade_monster_row ?drops qs g) ?ms)"
      by (rule rmap_Inr) (rule grade_monster_entry_eq [OF wf ne])
    ultimately show ?thesis
      by (simp add: c grade_report_of_def grade_report_row_def in_grade_def)
  qed
  then have "rmap (grade_report_of ?drops qs ?is ?ms) choices =
               Inr (map (grade_report_row ?drops qs ?is ?ms) choices)"
    by (intro rmap_Inr)
  then show ?thesis
    by (simp add: grade_summary_report_def Let_def all_items_of_eq [OF wf]
        all_monsters_of_eq [OF wf])
qed

lemma jdict_eq_iff [simp]: "jdict a = jdict b \<longleftrightarrow> a = b"
proof -
  have "inj (\<lambda>(k, v). (JStr k, v :: jval))"
    by (auto simp: inj_on_def)
  then show ?thesis
    by (auto simp: jdict_def dest: inj_mapD [THEN injD])
qed

lemma jget_grade_item_row:
  "jget ''name'' (grade_item_row drops qs g i) = Some (JStr (item_name i))"
  "jget ''count'' (grade_item_row drops qs g i) =
     Some (JInt (int (length (grade_item_matching drops (in_grade g qs) i))))"
  "jget ''drop_chance'' (grade_item_row drops qs g i) =
     Some (JReal (real (length (grade_item_matching drops (in_grade g qs) i)) /
                  real (length qs) * 100))"
  "jget ''avg_per_run'' (grade_item_row drops qs g i) =
     Some (case agg_sum (map idrop_quantity (grade_item_matching drops (in_grade g qs) i)) of
             None \<Rightarrow> JNone | Some s \<Rightarrow> JReal (real_of_int s / real (length qs)))"
  by (simp_all add: grade_item_row_def item_stats_of_def drop_chance_value_def)

lemma jget_grade_monster_row:
  "jget ''name'' (grade_monster_row drops qs g m) = Some (JStr (monster_name m))"
  "jget ''count'' (grade_monster_row drops qs g m) =
     Some (JInt (int (length (grade_monster_matching drops (in_grade g qs) m))))"
  "jget ''drop_chance'' (grade_monster_row drops qs g m) =
     Some (JReal (real (length (grade_monster_matching drops (in_grade g qs) m)) /
                  real (length qs) * 100))"
  by (simp_all add: grade_monster_row_def drop_chance_value_def)

text \<open>
  C10. The cross-grade summary of a queryset with rows, over a well-formed model, has one
  report for each grade choice; in each, every item entry and every monster entry has as
  \<^verbatim>\<open>count\<close> the number of its drops in that grade, as \<^verbatim>\<open>drop_chance\<close> that count
  divided by the number of records of all grades together (times 100), and as
  \<^verbatim>\<open>avg_per_run\<close> the summed quantity divided by the same number.
\<close>

theorem grade_summary_denominators:
  assumes "wf_model model" "qs \<noteq> []"
  shows "\<exists>reports. grade_summary_report model items monsters qs choices = Inr reports \<and>
     length reports = length choices \<and>
     (\<forall>j<length choices. \<exists>item_entries monster_entries.
         reports ! j = jdict [(''grade'', JStr (snd (choices ! j))),
                              (''drops'', JList (item_entries @ monster_entries))] \<and>
         (\<forall>e\<in>set item_entries. \<exists>i\<in>set items.
            jget ''name'' e = Some (JStr (item_name i)) \<and>
            jget ''count'' e =
              Some (JInt (int (length (grade_item_matching (get_drop_querysets model qs)
                                         (in_grade (fst (choices ! j)) qs) i)))) \<and>
            jget ''drop_chance'' e =
              Some (JReal (real (length (grade_item_matching (get_drop_querysets model qs)
                                           (in_grade (fst (choices ! j)) qs) i)) /
                           real (length qs) * 100)) \<and>
            jget ''avg_per_run'' e =
              Some (case agg_sum (map idrop_quantity
                                    (grade_item_matching (get_drop_querysets model qs)
                                       (in_grade (fst (choices ! j)) qs) i)) of
                      None \<Rightarrow> JNone
                    | Some s \<Rightarrow> JReal (real_of_int s / real (length qs)))) \<and>
         (\<forall>e\<in>set monster_entries. \<exists>m\<in>set monsters.
            jget ''name'' e = Some (JStr (monster_name m)) \<and>
            jget ''count'' e =
              Some (JInt (int (length (grade_monster_matching (get_drop_querysets model qs)
                                         (in_grade (fst (choices ! j)) qs) m)))) \<and>
            jget ''drop_chance'' e =
              Some (JReal (real (length (grade_monster_matching (get_drop_querysets model qs)
                                           (in_grade (fst (choices ! j)) qs) m)) /
                           real (length qs) * 100))))"
proof -
  let ?drops = "get_drop_querysets model qs"
  let ?is = "seen_items items ?drops"
  let ?ms = "seen_monsters monsters ?drops"
  let ?reports = "map (grade_report_row ?drops qs ?is ?ms) choices"
  have eq: "grade_summary_report model items monsters qs choices = Inr ?reports"
    by (rule grade_summary_report_eq [OF assms])
  have "\<exists>item_entries monster_entries.
         ?reports ! j = jdict [(''grade'', JStr (snd (choices ! j))),
                              (''drops'', JList (item_entries @ monster_entries))] \<and>
         (\<forall>e\<in>set item_entries. \<exists>i\<in>set items.
            jget ''name'' e = Some (JStr (item_name i)) \<and>
            jget ''count'' e =
              Some (JInt (int (length (grade_item_matching ?drops
                                         (in_grade (fst (choices ! j)) qs) i)))) \<and>
            jget ''drop_chance'' e =
              Some (JReal (real (length (grade_item_matching ?drops
                                           (in_grade (fst (choices ! j)) qs) i)) /
                           real (length qs) * 100)) \<and>
            jget ''avg_per_run'' e =
              Some (case agg_sum (map idrop_quantity
                                    (grade_item_matching ?drops
                                       (in_grade (fst (choices ! j)) qs) i)) of
                      None \<Rightarrow> JNone
                    | Some s \<Rightarrow> JReal (real_of_int s / real (length qs)))) \<and>
         (\<forall>e\<in>set monster_entries. \<exists>m\<in>set monsters.
            jget ''name'' e = Some (JStr (monster_name m)) \<and>
            jget ''count'' e =
              Some (JInt (int (length (grade_monster_matching ?drops
                                         (in_grade (fst (choices ! j)) qs) m)))) \<and>
            jget ''drop_chance'' e =
              Some (JReal (real (length (grade_monster_matching ?drops
                                           (in_grade (fst (choices ! j)) qs) m)) /
                           real (length qs) * 100)))"
    if j: "j < length choices" for j
  proof (intro exI conjI ballI)
    show "?reports ! j = jdict [(''grade'', JStr (snd (choices ! j))),
            (''drops'', JList (map (grade_item_row ?drops qs (fst (choices ! j))) ?is @
                               map (grade_monster_row ?drops qs (fst (choices ! j))) ?ms))]"
      using j by (simp add: grade_report_row_def)
  next
    fix e assume "e \<in> set (map (grade_item_row ?drops qs (fst (choices ! j))) ?is)"
    then obtain i where "i \<in> set items" "e = grade_item_row ?drops qs (fst (choices ! j)) i"
      by (auto simp: seen_items_def)
    then show "\<exists>i\<in>set items.
            jget ''name'' e = Some (JStr (item_name i)) \<and>
            jget ''count'' e =
              Some (JInt (int (length (grade_item_matching ?drops
                                         (in_grade (fst (choices ! j)) qs) i)))) \<and>
            jget ''drop_chance'' e =
              Some (JReal (real (length (grade_item_matching ?drops
                                           (in_grade (fst (choices ! j)) qs) i)) /
                           real (length qs) * 100)) \<and>
            jget ''avg_per_run'' e =
              Some (case agg_sum (map idrop_quantity
                                    (grade_item_matching ?drops
                                       (in_grade (fst (choices ! j)) qs) i)) of
                      None \<Rightarrow> JNone
                    | Some s \<Rightarrow> JReal (real_of_int s / real (length qs)))"
      by (intro bexI [where x = i]) (simp_all only: jget_grade_item_row simp_thms)
  next
    fix e assume "e \<in> set (map (grade_monster_row ?drops qs (fst (choices ! j))) ?ms)"
    then obtain m where "m \<in> set monsters" "e = grade_monster_row ?drops qs (fst (choices ! j)) m"
      by (auto simp: seen_monsters_def)
    then show "\<exists>m\<in>set monsters.
            jget ''name'' e = Some (JStr (monster_name m)) \<and>
            jget ''count'' e =
              Some (JInt (int (length (grade_monster_matching ?drops
                                         (in_grade (fst (choices ! j)) qs) m)))) \<and>
            jget ''drop_chance'' e =
              Some (JReal (real (length (grade_monster_matching ?drops
                                           (in_grade (fst (choices ! j)) qs) m)) /
                           real (length qs) * 100))"
      by (intro bexI [where x = m]) (simp_all only: jget_grade_monster_row simp_thms)
  qed
  with eq show ?thesis by (intro exI [where x = ?reports]) simp
qed

theorem grade_summary_denominators_witness:
  "wf_model sample_model \<and>
   (\<exists>e1 e2. grade_summary_report sample_model [sample_item] [] sample_rift_logs
              [(1, ''A''), (2, ''B'')] =
             Inr [jdict [(''grade'', JStr ''A''), (''drops'', JList [e1])],
                  jdict [(''grade'', JStr ''B''), (''drops'', JList [e2])]] \<and>
      jget ''count'' e1 = Some (JInt 1) \<and> jget ''drop_chance'' e1 = Some (JReal 25) \<and>
      jget ''avg_per_run'' e1 = Some (JReal (1 / 4)) \<and>
      jget ''count'' e2 = Some (JInt 0) \<and> jget ''drop_chance'' e2 = Some (JReal 0) \<and>
      jget ''avg_per_run'' e2 = Some JNone)"
  using grade_summary_denominators
    [of sample_model sample_rift_logs "[sample_item]" "[]" "[(1, ''A''), (2, ''B'')]"]
  by (simp add: wf_model_def sample_model_def sample_rift_logs_def sample_log_def sample_defs
      grade_summary_report_def get_drop_querysets_def DROP_TYPES_def related_names
      all_items_of_def all_monsters_of_def grade_report_of_def grade_item_entry_def
      grade_item_drops_def item_stats_def drop_chance_of_def avg_per_run_of_def db_div_def
      agg_sum_def agg_min_def agg_max_def agg_avg_def)

section \<open>Properties of the report orchestrator\<close>

lemma records_to_report_filter:
  obtains P where "records_to_report now qs T M = filter P qs"
proof (cases "\<exists>P. records_to_report now qs T M = filter P qs")
  case True
  then show ?thesis using that by blast
next
  case False
  moreover have "qs = filter (\<lambda>r. True) qs" by simp
  ultimately show ?thesis
    unfolding records_to_report_def Let_def
    by (metis (no_types, lifting))
qed

lemma dungeon_records_filter:
  obtains P where "dungeon_records now db lvl = filter P (DungeonLog_objects db)"
proof -
  obtain P where "dungeon_records now db lvl =
      filter P (filter (\<lambda>r. level r = lvl \<and> success r) (DungeonLog_objects db))"
    unfolding dungeon_records_def by (rule records_to_report_filter)
  then show ?thesis by (intro that [of "\<lambda>r. (level r = lvl \<and> success r) \<and> P r"]) simp
qed

lemma rift_records_filter:
  "\<exists>P. rift_records now db lvl g = filter P (RiftDungeonLog_objects db) \<and>
       (\<forall>r. P r \<longrightarrow> grade r = g)"
proof -
  obtain P where "rift_records now db lvl g =
      filter P (filter (\<lambda>r. level r = lvl \<and> grade r = g) (RiftDungeonLog_objects db))"
    unfolding rift_records_def by (rule records_to_report_filter)
  then show ?thesis
    by (intro exI [where x = "\<lambda>r. (level r = lvl \<and> grade r = g) \<and> P r"]) simp
qed

lemma most_recent_first_filter:
  "most_recent_first qs \<Longrightarrow> most_recent_first (filter P qs)"
  by (simp add: most_recent_first_def sorted_wrt_filter)

lemma most_recent_first_ends:
  assumes "most_recent_first qs" "qs \<noteq> []"
  shows "timestamp (qs ! (length qs - 1)) \<le> timestamp (qs ! 0)"
proof (cases "length qs = 1")
  case True
  then show ?thesis by simp
next
  case False
  with assms(2) have "0 < length qs - 1" "length qs - 1 < length qs"
    by (cases qs; simp)+
  with assms(1) show ?thesis
    unfolding most_recent_first_def sorted_wrt_iff_nth_less by blast
qed

lemma run_levels_reports:
  "run_levels body lvls reports = (reports', err) \<Longrightarrow>
     \<exists>new. reports' = reports @ new \<and> (\<forall>r\<in>set new. \<exists>lvl\<in>set lvls. body lvl = Inr (Some r))"
proof (induction lvls arbitrary: reports)
  case Nil
  then show ?case by simp
next
  case (Cons lvl lvls)
  show ?case
  proof (cases "body lvl")
    case (Inl e)
    with Cons.prems show ?thesis by simp
  next
    case (Inr created)
    show ?thesis
    proof (cases created)
      case None
      with Inr Cons.prems have "run_levels body lvls reports = (reports', err)" by simp
      from Cons.IH [OF this] show ?thesis by auto
    next
      case (Some r)
      with Inr Cons.prems have "run_levels body lvls (reports @ [r]) = (reports', err)" by simp
      from Cons.IH [OF this] obtain new where
        "reports' = (reports @ [r]) @ new" "\<forall>r\<in>set new. \<exists>lvl\<in>set lvls. body lvl = Inr (Some r)"
        by blast
      with Inr Some show ?thesis
        by (intro exI [where x = "r # new"]) auto
    qed
  qed
qed

lemma run_levels_no_error:
  "(\<And>lvl. lvl \<in> set lvls \<Longrightarrow> \<exists>created. body lvl = Inr created) \<Longrightarrow>
     snd (run_levels body lvls reports) = None"
proof (induction lvls arbitrary: reports)
  case Nil
  then show ?case by simp
next
  case (Cons lvl lvls)
  then obtain created where "body lvl = Inr created" by fastforce
  with Cons show ?case by (cases created) simp_all
qed

lemma dungeon_level_body_skipped:
  "dungeon_records now db lvl = [] \<Longrightarrow> dungeon_level_body now mc db lvl = Inr None"
  by (simp add: dungeon_level_body_def)

lemma dungeon_level_body_Some:
  assumes "dungeon_level_body now mc db lvl = Inr (Some r)"
  shows "dungeon_records now db lvl \<noteq> [] \<and>
         (\<exists>data. level_drop_report mc (DungeonLog_model db) (dungeon_records now db lvl) = Inr data \<and>
                 r = new_report lvl ''dungeonlog'' (dungeon_records now db lvl) data)"
  using assms
  by (auto simp: dungeon_level_body_def Let_def rbind_eq_Inr split: if_splits)

lemma dungeon_level_body_created:
  assumes "wf_model (DungeonLog_model db)" "dungeon_records now db lvl \<noteq> []"
  shows "\<exists>data. dungeon_level_body now mc db lvl =
           Inr (Some (new_report lvl ''dungeonlog'' (dungeon_records now db lvl) data))"
proof -
  from level_drop_report_ok [OF assms] obtain data where
    "level_drop_report mc (DungeonLog_model db) (dungeon_records now db lvl) = Inr data"
    by blast
  with assms(2) show ?thesis
    by (intro exI [where x = data]) (simp add: dungeon_level_body_def)
qed

lemma dungeon_level_body_ok:
  assumes "wf_model (DungeonLog_model db)"
  shows "\<exists>created. dungeon_level_body now mc db lvl = Inr created"
  using dungeon_level_body_skipped [of now db lvl mc] dungeon_level_body_created [OF assms, of now lvl mc]
  by (cases "dungeon_records now db lvl = []") auto

lemma qs_or_filter:
  "qs_or objects (filter (\<lambda>r. r \<in> A) objects) records =
     filter (\<lambda>r. r \<in> A \<union> set records) objects"
  unfolding qs_or_def by (rule filter_cong) auto

lemma rift_grades_result:
  assumes "rift_grades now mc db lvl choices all_records report_data = Inr (all', data')"
    and "all_records = filter (\<lambda>r. r \<in> A) (RiftDungeonLog_objects db)"
  shows "all' = filter (\<lambda>r. r \<in> A \<or> (\<exists>(g, grade_desc)\<in>set choices.
                                          r \<in> set (rift_records now db lvl g)))
                  (RiftDungeonLog_objects db) \<and>
         (\<exists>entries. data' = report_data @ entries \<and> length entries = length choices \<and>
            (\<forall>j<length choices. \<exists>grade_report.
               entries ! j = jdict [(''grade'', JStr (snd (choices ! j))),
                                    (''report'', grade_report)] \<and>
               (if rift_records now db lvl (fst (choices ! j)) = [] then grade_report = JNone
                else level_drop_report mc (RiftDungeonLog_model db)
                       (rift_records now db lvl (fst (choices ! j))) = Inr grade_report)))"
  using assms
proof (induction choices arbitrary: all_records report_data A)
  case Nil
  then show ?case by simp
next
  case (Cons choice choices)
  obtain g grade_desc where c: "choice = (g, grade_desc)" by (cases choice)
  let ?records = "rift_records now db lvl g"
  let ?objects = "RiftDungeonLog_objects db"
  from Cons.prems(1) c obtain grade_report where
    gr: "(if length ?records > 0 then level_drop_report mc (RiftDungeonLog_model db) ?records
          else Inr JNone) = Inr grade_report"
    and rest: "rift_grades now mc db lvl choices (qs_or ?objects all_records ?records)
          (report_data @ [jdict [(''grade'', JStr grade_desc), (''report'', grade_report)]])
          = Inr (all', data')"
    by (auto simp: Let_def rbind_eq_Inr)
  have acc: "qs_or ?objects all_records ?records = filter (\<lambda>r. r \<in> A \<union> set ?records) ?objects"
    unfolding Cons.prems(2) by (rule qs_or_filter)
  from Cons.IH [OF rest acc] obtain entries where
    all': "all' = filter (\<lambda>r. r \<in> A \<union> set ?records \<or>
                              (\<exists>(g, grade_desc)\<in>set choices. r \<in> set (rift_records now db lvl g)))
                   ?objects"
    and data': "data' = (report_data @ [jdict [(''grade'', JStr grade_desc),
                                               (''report'', grade_report)]]) @ entries"
    and len: "length entries = length choices"
    and each: "\<forall>j<length choices. \<exists>grade_report.
               entries ! j = jdict [(''grade'', JStr (snd (choices ! j))),
                                    (''report'', grade_report)] \<and>
               (if rift_records now db lvl (fst (choices ! j)) = [] then grade_report = JNone
                else level_drop_report mc (RiftDungeonLog_model db)
                       (rift_records now db lvl (fst (choices ! j))) = Inr grade_report)"
    by blast
  let ?entries = "jdict [(''grade'', JStr grade_desc), (''report'', grade_report)] # entries"
  have "all' = filter (\<lambda>r. r \<in> A \<or> (\<exists>(g, grade_desc)\<in>set (choice # choices).
                                          r \<in> set (rift_records now db lvl g))) ?objects"
    unfolding all' c by (rule filter_cong) auto
  moreover have "data' = report_data @ ?entries" using data' by simp
  moreover have "length ?entries = length (choice # choices)" using len by simp
  moreover have "\<exists>grade_report.
               ?entries ! j = jdict [(''grade'', JStr (snd ((choice # choices) ! j))),
                                    (''report'', grade_report)] \<and>
               (if rift_records now db lvl (fst ((choice # choices) ! j)) = []
                then grade_report = JNone
                else level_drop_report mc (RiftDungeonLog_model db)
                       (rift_records now db lvl (fst ((choice # choices) ! j))) = Inr grade_report)"
    if "j < length (choice # choices)" for j
  proof (cases j)
    case 0
    with gr c show ?thesis by (auto split: if_splits)
  next
    case (Suc j')
    with that have "j' < length choices" by simp
    with each have "\<exists>grade_report.
               entries ! j' = jdict [(''grade'', JStr (snd (choices ! j'))),
                                    (''report'', grade_report)] \<and>
               (if rift_records now db lvl (fst (choices ! j')) = [] then grade_report = JNone
                else level_drop_report mc (RiftDungeonLog_model db)
                       (rift_records now db lvl (fst (choices ! j'))) = Inr grade_report)"
      by blast
    then show ?thesis unfolding Suc nth_Cons_Suc .
  qed
  ultimately show ?case by blast
qed

lemma rift_grades_ok:
  assumes "wf_model (RiftDungeonLog_model db)"
  shows "\<exists>all' data'. rift_grades now mc db lvl choices all_records report_data = Inr (all', data')"
proof (induction choices arbitrary: all_records report_data)
  case Nil
  then show ?case by simp
next
  case (Cons choice choices)
  obtain g grade_desc where c: "choice = (g, grade_desc)" by (cases choice)
  have "\<exists>grade_report.
          (if length (rift_records now db lvl g) > 0
           then level_drop_report mc (RiftDungeonLog_model db) (rift_records now db lvl g)
           else Inr JNone) = Inr grade_report"
    using level_drop_report_ok [OF assms, of "rift_records now db lvl g" mc] by auto
  then obtain grade_report where
    "(if length (rift_records now db lvl g) > 0
           then level_drop_report mc (RiftDungeonLog_model db) (rift_records now db lvl g)
           else Inr JNone) = Inr grade_report" ..
  with Cons.IH c show ?case by (simp add: Let_def)
qed

lemma rift_grades_all_empty:
  assumes "\<forall>(g, grade_desc)\<in>set choices. rift_records now db lvl g = []"
  shows "\<exists>data'. rift_grades now mc db lvl choices [] report_data = Inr ([], data')"
  using assms
proof (induction choices arbitrary: report_data)
  case Nil
  then show ?case by simp
next
  case (Cons choice choices)
  obtain g grade_desc where c: "choice = (g, grade_desc)" by (cases choice)
  with Cons.prems have "rift_records now db lvl g = []"
    "\<forall>(g, grade_desc)\<in>set choices. rift_records now db lvl g = []" by auto
  with Cons.IH c show ?case by (simp add: Let_def qs_or_def)
qed

lemma rift_all_records_Nil_iff:
  "rift_all_records now db lvl choices = [] \<longleftrightarrow>
     (\<forall>(g, grade_desc)\<in>set choices. rift_records now db lvl g = [])"
proof
  assume nil: "rift_all_records now db lvl choices = []"
  show "\<forall>(g, grade_desc)\<in>set choices. rift_records now db lvl g = []"
  proof (clarify, rule ccontr)
    fix g grade_desc assume mem: "(g, grade_desc) \<in> set choices"
      and "rift_records now db lvl g \<noteq> []"
    then obtain r where r: "r \<in> set (rift_records now db lvl g)" by (cases "rift_records now db lvl g") auto
    obtain P where "rift_records now db lvl g = filter P (RiftDungeonLog_objects db)"
      using rift_records_filter [of now db lvl g] by blast
    with r have "r \<in> set (RiftDungeonLog_objects db)" by simp
    with r mem have "r \<in> set (rift_all_records now db lvl choices)"
      by (auto simp: rift_all_records_def)
    with nil show False by simp
  qed
next
  assume "\<forall>(g, grade_desc)\<in>set choices. rift_records now db lvl g = []"
  then show "rift_all_records now db lvl choices = []"
    by (auto simp: rift_all_records_def filter_empty_conv)
qed

lemma rift_level_body_skipped:
  assumes "\<forall>(g, grade_desc)\<in>set (GRADE_CHOICES mc). rift_records now db lvl g = []"
  shows "rift_level_body now mc db lvl = Inr None"
proof -
  from rift_grades_all_empty [OF assms] obtain data' where
    "rift_grades now mc db lvl (GRADE_CHOICES mc) [] [] = Inr ([], data')" by blast
  then show ?thesis by (simp add: rift_level_body_def)
qed

lemma rift_grades_start:
  assumes "rift_grades now mc db lvl choices [] [] = Inr (all', data')"
  shows "all' = rift_all_records now db lvl choices \<and> length data' = length choices \<and>
         (\<forall>j<length choices. \<exists>grade_report.
               data' ! j = jdict [(''grade'', JStr (snd (choices ! j))),
                                  (''report'', grade_report)] \<and>
               (if rift_records now db lvl (fst (choices ! j)) = [] then grade_report = JNone
                else level_drop_report mc (RiftDungeonLog_model db)
                       (rift_records now db lvl (fst (choices ! j))) = Inr grade_report))"
proof -
  have "[] = filter (\<lambda>r. r \<in> {}) (RiftDungeonLog_objects db)" by simp
  from rift_grades_result [OF assms this] show ?thesis
    by (auto simp: rift_all_records_def)
qed

lemma rift_level_body_Some:
  assumes "rift_level_body now mc db lvl = Inr (Some r)"
  shows "rift_all_records now db lvl (GRADE_CHOICES mc) \<noteq> [] \<and>
         (\<exists>data. r = new_report lvl ''riftdungeonlog''
                       (rift_all_records now db lvl (GRADE_CHOICES mc)) data)"
proof -
  from assms obtain all' data' where
    g: "rift_grades now mc db lvl (GRADE_CHOICES mc) [] [] = Inr (all', data')"
    and b: "(if length all' > 0 then
         rbind (grade_summary_report (RiftDungeonLog_model db) (GameItem_objects db)
                  (Monster_objects db) all' (GRADE_CHOICES mc)) (\<lambda>summary.
           Inr (Some (new_report lvl ''riftdungeonlog'' all'
                  (JList (data' @
                     [jdict [(''grade'', JStr ''summary''), (''report'', JList summary)]])))))
       else Inr None) = Inr (Some r)"
    by (auto simp: rift_level_body_def rbind_eq_Inr)
  from rift_grades_start [OF g] have "all' = rift_all_records now db lvl (GRADE_CHOICES mc)"
    by blast
  with b show ?thesis by (auto simp: rbind_eq_Inr split: if_splits)
qed

lemma rift_level_body_created:
  assumes wf: "wf_model (RiftDungeonLog_model db)"
    and ne: "rift_all_records now db lvl (GRADE_CHOICES mc) \<noteq> []"
  shows "\<exists>entries.
     rift_level_body now mc db lvl =
       Inr (Some (new_report lvl ''riftdungeonlog'' (rift_all_records now db lvl (GRADE_CHOICES mc))
         (JList (entries @
            [jdict [(''grade'', JStr ''summary''),
                    (''report'', JList
                       (map (grade_report_row
                               (get_drop_querysets (RiftDungeonLog_model db)
                                  (rift_all_records now db lvl (GRADE_CHOICES mc)))
                               (rift_all_records now db lvl (GRADE_CHOICES mc))
                               (seen_items (GameItem_objects db)
                                  (get_drop_querysets (RiftDungeonLog_model db)
                                     (rift_all_records now db lvl (GRADE_CHOICES mc))))
                               (seen_monsters (Monster_objects db)
                                  (get_drop_querysets (RiftDungeonLog_model db)
                                     (rift_all_records now db lvl (GRADE_CHOICES mc)))))
                          (GRADE_CHOICES mc)))]])))) \<and>
     length entries = length (GRADE_CHOICES mc) \<and>
     (\<forall>j<length (GRADE_CHOICES mc). \<exists>grade_report.
        entries ! j = jdict [(''grade'', JStr (snd (GRADE_CHOICES mc ! j))),
                             (''report'', grade_report)] \<and>
        (grade_report = JNone \<longleftrightarrow> rift_records now db lvl (fst (GRADE_CHOICES mc ! j)) = []))"
proof -
  let ?all = "rift_all_records now db lvl (GRADE_CHOICES mc)"
  from rift_grades_ok [OF wf] obtain all' data' where
    g: "rift_grades now mc db lvl (GRADE_CHOICES mc) [] [] = Inr (all', data')" by blast
  from rift_grades_start [OF g] have all': "all' = ?all"
    and len: "length data' = length (GRADE_CHOICES mc)"
    and each: "\<forall>j<length (GRADE_CHOICES mc). \<exists>grade_report.
               data' ! j = jdict [(''grade'', JStr (snd (GRADE_CHOICES mc ! j))),
                                  (''report'', grade_report)] \<and>
               (if rift_records now db lvl (fst (GRADE_CHOICES mc ! j)) = []
                then grade_report = JNone
                else level_drop_report mc (RiftDungeonLog_model db)
                       (rift_records now db lvl (fst (GRADE_CHOICES mc ! j))) = Inr grade_report)"
    by blast+
  have "\<exists>grade_report.
        data' ! j = jdict [(''grade'', JStr (snd (GRADE_CHOICES mc ! j))),
                           (''report'', grade_report)] \<and>
        (grade_report = JNone \<longleftrightarrow> rift_records now db lvl (fst (GRADE_CHOICES mc ! j)) = [])"
    if j: "j < length (GRADE_CHOICES mc)" for j
  proof -
    from each j obtain grade_report where
      e: "data' ! j = jdict [(''grade'', JStr (snd (GRADE_CHOICES mc ! j))),
                             (''report'', grade_report)]"
      and r: "if rift_records now db lvl (fst (GRADE_CHOICES mc ! j)) = []
              then grade_report = JNone
              else level_drop_report mc (RiftDungeonLog_model db)
                     (rift_records now db lvl (fst (GRADE_CHOICES mc ! j))) = Inr grade_report"
      by blast
    have "grade_report = JNone \<longleftrightarrow> rift_records now db lvl (fst (GRADE_CHOICES mc ! j)) = []"
    proof (cases "rift_records now db lvl (fst (GRADE_CHOICES mc ! j)) = []")
      case True
      with r show ?thesis by simp
    next
      case False
      with r level_drop_report_ok [OF wf False, of mc] show ?thesis by auto
    qed
    with e show ?thesis by blast
  qed
  moreover have "rift_level_body now mc db lvl =
       Inr (Some (new_report lvl ''riftdungeonlog'' ?all
         (JList (data' @
            [jdict [(''grade'', JStr ''summary''),
                    (''report'', JList
                       (map (grade_report_row (get_drop_querysets (RiftDungeonLog_model db) ?all) ?all
                               (seen_items (GameItem_objects db)
                                  (get_drop_querysets (RiftDungeonLog_model db) ?all))
                               (seen_monsters (Monster_objects db)
                                  (get_drop_querysets (RiftDungeonLog_model db) ?all)))
                          (GRADE_CHOICES mc)))]]))))"
    using g ne by (simp add: rift_level_body_def all' grade_summary_report_eq [OF wf ne])
  ultimately show ?thesis using len by blast
qed

lemma rift_level_body_ok:
  assumes "wf_model (RiftDungeonLog_model db)"
  shows "\<exists>created. rift_level_body now mc db lvl = Inr created"
proof (cases "rift_all_records now db lvl (GRADE_CHOICES mc) = []")
  case True
  then show ?thesis
    using rift_level_body_skipped [of mc now db lvl] by (simp add: rift_all_records_Nil_iff)
next
  case False
  from rift_level_body_created [OF assms False] show ?thesis by blast
qed

lemma sum_list_indicator:
  "distinct (map f xs) \<Longrightarrow> a \<in> f ` set xs \<Longrightarrow>
     (\<Sum>x\<leftarrow>xs. if f x = a then 1 else 0) = (1::nat)"
proof (induction xs)
  case Nil
  then show ?case by simp
next
  case (Cons x xs)
  show ?case
  proof (cases "f x = a")
    case True
    from Cons.prems(1) have "f x \<notin> f ` set xs" by simp
    with True have "\<forall>y\<in>set xs. f y \<noteq> a" by (metis imageI)
    then have "(\<Sum>x\<leftarrow>xs. if f x = a then 1 else 0) = (0::nat)"
      by (induction xs) auto
    with True show ?thesis by simp
  next
    case False
    with Cons show ?thesis by auto
  qed
qed

lemma pk_in_grade:
  assumes "distinct (map log_pk qs)" "r \<in> set qs"
  shows "log_pk r \<in> set (map log_pk (in_grade g qs)) \<longleftrightarrow> grade r = g"
proof
  assume "log_pk r \<in> set (map log_pk (in_grade g qs))"
  then obtain r' where r': "r' \<in> set qs" "grade r' = g" "log_pk r' = log_pk r"
    by (auto simp: in_grade_def)
  with assms have "r' = r" by (meson distinct_map inj_onD)
  with r' show "grade r = g" by simp
next
  assume "grade r = g"
  with assms(2) show "log_pk r \<in> set (map log_pk (in_grade g qs))"
    by (auto simp: in_grade_def)
qed

lemma grade_counts_sum:
  assumes pk: "distinct (map log_pk qs)" and gd: "distinct (map fst choices)"
    and gr: "\<forall>r\<in>set qs. grade r \<in> fst ` set choices"
    and logs: "\<forall>d\<in>set rows. idrop_log d \<in> set (map log_pk qs)"
  shows "(\<Sum>(g, name)\<leftarrow>choices.
            length (filter (\<lambda>d. idrop_log d \<in> set (map log_pk (in_grade g qs)) \<and>
                                 item_pk (idrop_item d) = item_pk i) rows)) =
         length (filter (\<lambda>d. item_pk (idrop_item d) = item_pk i) rows)"
  using logs
proof (induction rows)
  case Nil
  then show ?case by (simp add: case_prod_unfold)
next
  case (Cons d rows)
  let ?in = "\<lambda>c d. idrop_log d \<in> set (map log_pk (in_grade (fst c) qs)) \<and>
                    item_pk (idrop_item d) = item_pk i"
  from Cons.prems obtain r where r: "r \<in> set qs" "log_pk r = idrop_log d" by auto
  have one: "(\<Sum>c\<leftarrow>choices. if ?in c d then 1 else 0) =
               (if item_pk (idrop_item d) = item_pk i then 1 else (0::nat))"
  proof (cases "item_pk (idrop_item d) = item_pk i")
    case True
    have "(\<Sum>c\<leftarrow>choices. if ?in c d then 1 else 0) =
            (\<Sum>c\<leftarrow>choices. if fst c = grade r then 1 else (0::nat))"
      using True pk_in_grade [OF pk r(1)] r(2)
      by (intro arg_cong [where f = sum_list] map_cong) auto
    also have "\<dots> = 1"
      using gd gr r(1) by (intro sum_list_indicator) auto
    finally show ?thesis using True by simp
  next
    case False
    then show ?thesis by simp
  qed
  have "(\<Sum>c\<leftarrow>choices. length (filter (?in c) (d # rows))) =
          (\<Sum>c\<leftarrow>choices. (if ?in c d then 1 else 0) + length (filter (?in c) rows))"
    by (intro arg_cong [where f = sum_list] map_cong) auto
  also have "\<dots> = (\<Sum>c\<leftarrow>choices. if ?in c d then 1 else 0) +
                    (\<Sum>c\<leftarrow>choices. length (filter (?in c) rows))"
    by (simp add: sum_list_addf)
  also have "(\<Sum>c\<leftarrow>choices. length (filter (?in c) rows)) =
               length (filter (\<lambda>d. item_pk (idrop_item d) = item_pk i) rows)"
    using Cons by (simp add: case_prod_unfold)
  finally show ?case using one by (simp add: case_prod_unfold)
qed

lemma item_drops_of_resolved:
  "d \<in> set (item_drops_of (get_drop_querysets model qs)) \<Longrightarrow>
     idrop_log d \<in> set (map log_pk qs)"
proof -
  assume d: "d \<in> set (item_drops_of (get_drop_querysets model qs))"
  have resolved: "map_of (get_drop_querysets model qs) ''items'' =
      map_option (filter_log_in (map log_pk qs)) (map_of model ''items'')"
    by (simp add: map_of_get_drop_querysets recognized_keys_def related_names)
  show ?thesis
  proof (cases "map_of model ''items''")
    case None
    with d resolved show ?thesis
      by (simp add: item_drops_of_def)
  next
    case (Some tbl)
    with d resolved show ?thesis
      by (cases tbl) (auto simp: item_drops_of_def)
  qed
qed

lemma rift_all_records_grade:
  "r \<in> set (rift_all_records now db lvl choices) \<Longrightarrow> grade r \<in> fst ` set choices"
proof -
  assume "r \<in> set (rift_all_records now db lvl choices)"
  then obtain g grade_desc where c: "(g, grade_desc) \<in> set choices"
    and r: "r \<in> set (rift_records now db lvl g)"
    by (auto simp: rift_all_records_def)
  obtain P where "rift_records now db lvl g = filter P (RiftDungeonLog_objects db)"
    "\<forall>r. P r \<longrightarrow> grade r = g"
    using rift_records_filter [of now db lvl g] by blast
  with r have "grade r = g" by simp
  with c show ?thesis by force
qed

lemma rift_grade_counts_sum:
  assumes pk: "distinct (map log_pk (RiftDungeonLog_objects db))"
    and gd: "distinct (map fst choices)"
  shows "(\<Sum>(g, name)\<leftarrow>choices.
            length (grade_item_matching
                      (get_drop_querysets model (rift_all_records now db lvl choices))
                      (in_grade g (rift_all_records now db lvl choices)) i)) =
         length (filter (\<lambda>d. item_pk (idrop_item d) = item_pk i)
                   (item_drops_of (get_drop_querysets model (rift_all_records now db lvl choices))))"
  unfolding grade_item_matching_def
proof (rule grade_counts_sum [OF _ gd])
  show "distinct (map log_pk (rift_all_records now db lvl choices))"
    unfolding rift_all_records_def using pk by (rule distinct_map_filter)
  show "\<forall>r\<in>set (rift_all_records now db lvl choices). grade r \<in> fst ` set choices"
    by (blast dest: rift_all_records_grade)
  show "\<forall>d\<in>set (item_drops_of (get_drop_querysets model (rift_all_records now db lvl choices))).
          idrop_log d \<in> set (map log_pk (rift_all_records now db lvl choices))"
    by (blast dest: item_drops_of_resolved)
qed

lemma new_report_simps [simp]:
  "report_level (new_report lvl ctype records data) = lvl"
  "start_timestamp (new_report lvl ctype records data) = timestamp (records ! (length records - 1))"
  "end_timestamp (new_report lvl ctype records data) = timestamp (records ! 0)"
  "log_count (new_report lvl ctype records data) = length records"
  "report (new_report lvl ctype records data) = data"
  by (simp_all add: new_report_def)

lemma generate_dungeon_reports_created:
  assumes "generate_dungeon_log_reports now mc db = (db', err)"
  shows "\<exists>new. db' = db\<lparr>LevelReport_objects := LevelReport_objects db @ new\<rparr> \<and>
           (\<forall>r\<in>set new. dungeon_level_body now mc db (report_level r) = Inr (Some r))"
proof -
  let ?lvls = "filter (\<lambda>lvl. lvl \<in> set (map level (DungeonLog_objects db))) (Level_objects db)"
  obtain reports e where run:
    "run_levels (dungeon_level_body now mc db) ?lvls (LevelReport_objects db) = (reports, e)"
    by (cases "run_levels (dungeon_level_body now mc db) ?lvls (LevelReport_objects db)")
  with assms have db': "db' = db\<lparr>LevelReport_objects := reports\<rparr>"
    by (simp add: generate_dungeon_log_reports_def Let_def)
  from run_levels_reports [OF run] obtain new where
    new: "reports = LevelReport_objects db @ new"
    "\<forall>r\<in>set new. \<exists>lvl\<in>set ?lvls. dungeon_level_body now mc db lvl = Inr (Some r)"
    by blast
  have "dungeon_level_body now mc db (report_level r) = Inr (Some r)" if "r \<in> set new" for r
  proof -
    from new(2) that obtain lvl where b: "dungeon_level_body now mc db lvl = Inr (Some r)"
      by blast
    from dungeon_level_body_Some [OF b] have "report_level r = lvl" by auto
    with b show ?thesis by simp
  qed
  with db' new(1) show ?thesis by blast
qed

lemma generate_rift_reports_created:
  assumes "generate_rift_dungeon_reports now mc db = (db', err)"
  shows "\<exists>new. db' = db\<lparr>LevelReport_objects := LevelReport_objects db @ new\<rparr> \<and>
           (\<forall>r\<in>set new. rift_level_body now mc db (report_level r) = Inr (Some r))"
proof -
  let ?lvls = "filter (\<lambda>lvl. lvl \<in> set (map level (RiftDungeonLog_objects db))) (Level_objects db)"
  obtain reports e where run:
    "run_levels (rift_level_body now mc db) ?lvls (LevelReport_objects db) = (reports, e)"
    by (cases "run_levels (rift_level_body now mc db) ?lvls (LevelReport_objects db)")
  with assms have db': "db' = db\<lparr>LevelReport_objects := reports\<rparr>"
    by (simp add: generate_rift_dungeon_reports_def Let_def)
  from run_levels_reports [OF run] obtain new where
    new: "reports = LevelReport_objects db @ new"
    "\<forall>r\<in>set new. \<exists>lvl\<in>set ?lvls. rift_level_body now mc db lvl = Inr (Some r)"
    by blast
  have "rift_level_body now mc db (report_level r) = Inr (Some r)" if "r \<in> set new" for r
  proof -
    from new(2) that obtain lvl where b: "rift_level_body now mc db lvl = Inr (Some r)"
      by blast
    from rift_level_body_Some [OF b] have "report_level r = lvl" by auto
    with b show ?thesis by simp
  qed
  with db' new(1) show ?thesis by blast
qed

text \<open>
  C3. A level whose window of successful dungeon records is empty, and a rift level none
  of whose grades has a record in its window, gets no report and no exception: the loop
  body returns without creating anything. A report is created only for a level with a
  window that has rows, and every report a run adds to the store belongs to such a level.
\<close>

theorem empty_window_no_report:
  "(dungeon_records now db lvl = [] \<longrightarrow> dungeon_level_body now mc db lvl = Inr None) \<and>
   ((\<forall>(g, grade_desc)\<in>set (GRADE_CHOICES mc). rift_records now db lvl g = []) \<longrightarrow>
      rift_level_body now mc db lvl = Inr None) \<and>
   (dungeon_level_body now mc db lvl = Inr (Some r) \<longrightarrow> dungeon_records now db lvl \<noteq> []) \<and>
   (rift_level_body now mc db lvl = Inr (Some r) \<longrightarrow>
      (\<exists>(g, grade_desc)\<in>set (GRADE_CHOICES mc). rift_records now db lvl g \<noteq> [])) \<and>
   (generate_dungeon_log_reports now mc db = (db', err) \<longrightarrow>
      (\<exists>new. db' = db\<lparr>LevelReport_objects := LevelReport_objects db @ new\<rparr> \<and>
         (\<forall>r\<in>set new. dungeon_records now db (report_level r) \<noteq> []))) \<and>
   (generate_rift_dungeon_reports now mc db = (db', err) \<longrightarrow>
      (\<exists>new. db' = db\<lparr>LevelReport_objects := LevelReport_objects db @ new\<rparr> \<and>
         (\<forall>r\<in>set new. \<exists>(g, grade_desc)\<in>set (GRADE_CHOICES mc).
                          rift_records now db (report_level r) g \<noteq> [])))"
proof -
  have rift_some: "\<exists>(g, grade_desc)\<in>set (GRADE_CHOICES mc). rift_records now db l g \<noteq> []"
    if "rift_level_body now mc db l = Inr (Some x)" for l x
  proof -
    from rift_level_body_Some [OF that]
    have "rift_all_records now db l (GRADE_CHOICES mc) \<noteq> []" by blast
    then show ?thesis by (auto simp: rift_all_records_Nil_iff)
  qed
  have dungeon_run: "\<exists>new. db' = db\<lparr>LevelReport_objects := LevelReport_objects db @ new\<rparr> \<and>
         (\<forall>r\<in>set new. dungeon_records now db (report_level r) \<noteq> [])"
    if "generate_dungeon_log_reports now mc db = (db', err)"
    using generate_dungeon_reports_created [OF that] dungeon_level_body_Some by blast
  have rift_run: "\<exists>new. db' = db\<lparr>LevelReport_objects := LevelReport_objects db @ new\<rparr> \<and>
         (\<forall>r\<in>set new. \<exists>(g, grade_desc)\<in>set (GRADE_CHOICES mc).
                          rift_records now db (report_level r) g \<noteq> [])"
    if "generate_rift_dungeon_reports now mc db = (db', err)"
    using generate_rift_reports_created [OF that] rift_some by blast
  from dungeon_level_body_skipped [of now db lvl mc] rift_level_body_skipped [of mc now db lvl]
    dungeon_level_body_Some [of now mc db lvl r] rift_some [of lvl r] dungeon_run rift_run
  show ?thesis by blast
qed

lemma sample_dungeon_windows:
  "dungeon_records 100 sample_dungeon_db 1 = []"
  "dungeon_records 100 sample_dungeon_db 2 = [sample_log 2 2 0 50]"
  by (simp_all add: dungeon_records_def records_to_report_def sample_dungeon_db_def
      sample_log_def default_timespan_def default_minimum_count_def)

lemma wf_sample_model: "wf_model sample_model"
  by (simp add: wf_model_def sample_model_def)

theorem empty_window_no_report_witness:
  "dungeon_records 100 sample_dungeon_db 1 = [] \<and>
   dungeon_level_body 100 sample_constants sample_dungeon_db 1 = Inr None \<and>
   rift_level_body 100 sample_constants sample_dungeon_db 1 = Inr None \<and>
   (\<exists>r. generate_dungeon_log_reports 100 sample_constants sample_dungeon_db =
           (sample_dungeon_db\<lparr>LevelReport_objects := [r]\<rparr>, None) \<and>
         report_level r = 2 \<and> log_count r = 1)"
proof -
  have "wf_model (DungeonLog_model sample_dungeon_db)"
    by (simp add: sample_dungeon_db_def wf_sample_model)
  from dungeon_level_body_created [OF this, of 100 2 sample_constants] obtain data where
    created: "dungeon_level_body 100 sample_constants sample_dungeon_db 2 =
       Inr (Some (new_report 2 ''dungeonlog'' [sample_log 2 2 0 50] data))"
    by (auto simp: sample_dungeon_windows)
  have no_rift:
    "\<forall>(g, grade_desc)\<in>set (GRADE_CHOICES sample_constants).
       rift_records 100 sample_dungeon_db 1 g = []"
    by (simp add: rift_records_def records_to_report_def sample_dungeon_db_def)
  have skipped: "dungeon_level_body 100 sample_constants sample_dungeon_db 1 = Inr None"
    "rift_level_body 100 sample_constants sample_dungeon_db 1 = Inr None"
    using empty_window_no_report [of 100 sample_dungeon_db 1 sample_constants]
      sample_dungeon_windows(1) no_rift
    by blast+
  have tables: "Level_objects sample_dungeon_db = [1, 2]"
    "map level (DungeonLog_objects sample_dungeon_db) = [2, 1]"
    "LevelReport_objects sample_dungeon_db = []"
    by (simp_all add: sample_dungeon_db_def sample_log_def)
  have "generate_dungeon_log_reports 100 sample_constants sample_dungeon_db =
          (sample_dungeon_db\<lparr>LevelReport_objects :=
             [new_report 2 ''dungeonlog'' [sample_log 2 2 0 50] data]\<rparr>, None)"
    using created skipped by (simp add: generate_dungeon_log_reports_def tables)
  then have "\<exists>r. generate_dungeon_log_reports 100 sample_constants sample_dungeon_db =
           (sample_dungeon_db\<lparr>LevelReport_objects := [r]\<rparr>, None) \<and>
         report_level r = 2 \<and> log_count r = 1"
    by (intro exI [where x = "new_report 2 ''dungeonlog'' [sample_log 2 2 0 50] data"]) simp
  with sample_dungeon_windows(1) skipped show ?thesis by blast
qed

lemma most_recent_first_bounds:
  assumes "most_recent_first qs" "x \<in> set qs"
  shows "timestamp (qs ! (length qs - 1)) \<le> timestamp x \<and> timestamp x \<le> timestamp (qs ! 0)"
proof -
  from assms(2) obtain i where i: "i < length qs" "x = qs ! i"
    by (auto simp: in_set_conv_nth)
  have le: "timestamp (qs ! b) \<le> timestamp (qs ! a)" if "a \<le> b" "b < length qs" for a b
    using that assms(1) unfolding most_recent_first_def sorted_wrt_iff_nth_less
    by (cases "a = b") auto
  from i le [of i "length qs - 1"] le [of 0 i] show ?thesis by simp
qed

lemma new_report_covers:
  assumes "most_recent_first records" "records \<noteq> []"
  shows "report_covers (new_report lvl ctype records data) records"
proof -
  from assms(2) have "records ! 0 \<in> set records" "records ! (length records - 1) \<in> set records"
    by simp_all
  with most_recent_first_bounds [OF assms(1)] most_recent_first_ends [OF assms]
  show ?thesis by (auto simp: report_covers_def)
qed

lemma new_report_not_future:
  assumes "records \<noteq> []" "\<forall>x\<in>set records. timestamp x \<le> now"
  shows "end_timestamp (new_report lvl ctype records data) \<le> now"
proof -
  from assms(1) have "records ! 0 \<in> set records" by simp
  with assms(2) show ?thesis by simp
qed

lemma most_recent_first_dungeon_records:
  "most_recent_first (DungeonLog_objects db) \<Longrightarrow> most_recent_first (dungeon_records now db lvl)"
  by (rule dungeon_records_filter [of now db lvl]) (simp add: most_recent_first_filter)

lemma dungeon_records_subset:
  "set (dungeon_records now db lvl) \<subseteq> set (DungeonLog_objects db)"
  by (rule dungeon_records_filter [of now db lvl]) simp

lemma most_recent_first_rift_all_records:
  "most_recent_first (RiftDungeonLog_objects db) \<Longrightarrow>
     most_recent_first (rift_all_records now db lvl choices)"
  unfolding rift_all_records_def by (rule most_recent_first_filter)

lemma rift_all_records_subset:
  "set (rift_all_records now db lvl choices) \<subseteq> set (RiftDungeonLog_objects db)"
  by (simp add: rift_all_records_def)

lemma dungeon_report_range:
  assumes srt: "most_recent_first (DungeonLog_objects db)"
    and body: "dungeon_level_body now mc db lvl = Inr (Some r)"
  shows "report_covers r (dungeon_records now db lvl) \<and>
         ((\<forall>x\<in>set (DungeonLog_objects db). timestamp x \<le> now) \<longrightarrow> end_timestamp r \<le> now)"
proof -
  from dungeon_level_body_Some [OF body] obtain data where
    ne: "dungeon_records now db lvl \<noteq> []"
    and r: "r = new_report lvl ''dungeonlog'' (dungeon_records now db lvl) data" by blast
  from new_report_covers [OF most_recent_first_dungeon_records [OF srt] ne]
    new_report_not_future [OF ne] dungeon_records_subset [of now db lvl] r
  show ?thesis by blast
qed

lemma rift_report_range:
  assumes srt: "most_recent_first (RiftDungeonLog_objects db)"
    and body: "rift_level_body now mc db lvl = Inr (Some r)"
  shows "report_covers r (rift_all_records now db lvl (GRADE_CHOICES mc)) \<and>
         ((\<forall>x\<in>set (RiftDungeonLog_objects db). timestamp x \<le> now) \<longrightarrow> end_timestamp r \<le> now)"
proof -
  from rift_level_body_Some [OF body] obtain data where
    ne: "rift_all_records now db lvl (GRADE_CHOICES mc) \<noteq> []"
    and r: "r = new_report lvl ''riftdungeonlog''
                  (rift_all_records now db lvl (GRADE_CHOICES mc)) data" by blast
  from new_report_covers [OF most_recent_first_rift_all_records [OF srt] ne]
    new_report_not_future [OF ne] rift_all_records_subset [of now db lvl "GRADE_CHOICES mc"] r
  show ?thesis by blast
qed

text \<open>
  C9 (as the code has it). With the log records ordered most recent first, every report
  the orchestrator creates has \<open>start_timestamp \<le> end_timestamp\<close>, these being the oldest
  and the newest timestamp of the window, and a \<^verbatim>\<open>log_count\<close> equal to the number of
  records of the window that was aggregated (for a rift level: the records of all grade
  windows together). \<open>end_timestamp \<le> now\<close> holds when no log record is stamped later
  than \<open>now\<close>.
\<close>

theorem report_time_range:
  "(most_recent_first (DungeonLog_objects db) \<and>
    dungeon_level_body now mc db lvl = Inr (Some r) \<longrightarrow>
      report_covers r (dungeon_records now db lvl) \<and>
      ((\<forall>x\<in>set (DungeonLog_objects db). timestamp x \<le> now) \<longrightarrow> end_timestamp r \<le> now)) \<and>
   (most_recent_first (RiftDungeonLog_objects db) \<and>
    rift_level_body now mc db lvl = Inr (Some r) \<longrightarrow>
      report_covers r (rift_all_records now db lvl (GRADE_CHOICES mc)) \<and>
      ((\<forall>x\<in>set (RiftDungeonLog_objects db). timestamp x \<le> now) \<longrightarrow> end_timestamp r \<le> now)) \<and>
   (most_recent_first (DungeonLog_objects db) \<and>
    generate_dungeon_log_reports now mc db = (db', err) \<longrightarrow>
      (\<exists>new. db' = db\<lparr>LevelReport_objects := LevelReport_objects db @ new\<rparr> \<and>
         (\<forall>x\<in>set new.
            report_covers x (dungeon_records now db (report_level x)) \<and>
            ((\<forall>y\<in>set (DungeonLog_objects db). timestamp y \<le> now) \<longrightarrow>
               end_timestamp x \<le> now)))) \<and>
   (most_recent_first (RiftDungeonLog_objects db) \<and>
    generate_rift_dungeon_reports now mc db = (db', err) \<longrightarrow>
      (\<exists>new. db' = db\<lparr>LevelReport_objects := LevelReport_objects db @ new\<rparr> \<and>
         (\<forall>x\<in>set new.
            report_covers x (rift_all_records now db (report_level x) (GRADE_CHOICES mc)) \<and>
            ((\<forall>y\<in>set (RiftDungeonLog_objects db). timestamp y \<le> now) \<longrightarrow>
               end_timestamp x \<le> now))))"
proof -
  have dungeon_run: "\<exists>new. db' = db\<lparr>LevelReport_objects := LevelReport_objects db @ new\<rparr> \<and>
         (\<forall>x\<in>set new.
            report_covers x (dungeon_records now db (report_level x)) \<and>
            ((\<forall>y\<in>set (DungeonLog_objects db). timestamp y \<le> now) \<longrightarrow>
               end_timestamp x \<le> now))"
    if srt: "most_recent_first (DungeonLog_objects db)"
      and run: "generate_dungeon_log_reports now mc db = (db', err)"
  proof -
    from generate_dungeon_reports_created [OF run] obtain new where
      new: "db' = db\<lparr>LevelReport_objects := LevelReport_objects db @ new\<rparr>"
      "\<forall>r\<in>set new. dungeon_level_body now mc db (report_level r) = Inr (Some r)" by blast
    from new(2) dungeon_report_range [OF srt]
    have "\<forall>x\<in>set new.
            report_covers x (dungeon_records now db (report_level x)) \<and>
            ((\<forall>y\<in>set (DungeonLog_objects db). timestamp y \<le> now) \<longrightarrow>
               end_timestamp x \<le> now)" by blast
    with new(1) show ?thesis by blast
  qed
  have rift_run: "\<exists>new. db' = db\<lparr>LevelReport_objects := LevelReport_objects db @ new\<rparr> \<and>
         (\<forall>x\<in>set new.
            report_covers x (rift_all_records now db (report_level x) (GRADE_CHOICES mc)) \<and>
            ((\<forall>y\<in>set (RiftDungeonLog_objects db). timestamp y \<le> now) \<longrightarrow>
               end_timestamp x \<le> now))"
    if srt: "most_recent_first (RiftDungeonLog_objects db)"
      and run: "generate_rift_dungeon_reports now mc db = (db', err)"
  proof -
    from generate_rift_reports_created [OF run] obtain new where
      new: "db' = db\<lparr>LevelReport_objects := LevelReport_objects db @ new\<rparr>"
      "\<forall>r\<in>set new. rift_level_body now mc db (report_level r) = Inr (Some r)" by blast
    from new(2) rift_report_range [OF srt]
    have "\<forall>x\<in>set new.
            report_covers x (rift_all_records now db (report_level x) (GRADE_CHOICES mc)) \<and>
            ((\<forall>y\<in>set (RiftDungeonLog_objects db). timestamp y \<le> now) \<longrightarrow>
               end_timestamp x \<le> now)" by blast
    with new(1) show ?thesis by blast
  qed
  from dungeon_report_range [of db now mc lvl r] rift_report_range [of db now mc lvl r]
    dungeon_run rift_run
  show ?thesis by blast
qed

lemma sample_rift_windows:
  "rift_records now sample_rift_db 1 1 = [sample_log 1 1 1 10]"
  "rift_records now sample_rift_db 1 2 = [sample_log 4 1 2 40, sample_log 3 1 2 30, sample_log 2 1 2 20]"
  "rift_records now sample_rift_db 1 3 = []"
  by (simp_all add: rift_records_def records_to_report_def sample_rift_db_def
      sample_rift_logs_def sample_log_def default_minimum_count_def Let_def)

lemma sample_rift_all_records:
  "rift_all_records now sample_rift_db 1 (GRADE_CHOICES sample_constants) = sample_rift_logs"
  "rift_all_records now sample_rift_db 1 (GRADE_CHOICES two_grade_constants) = sample_rift_logs"
  unfolding rift_all_records_def
  by (simp_all add: sample_rift_windows sample_constants_def two_grade_constants_def
      del: One_nat_def)
    (simp_all add: sample_rift_db_def sample_rift_logs_def sample_log_def)

theorem report_time_range_witness:
  "most_recent_first (RiftDungeonLog_objects sample_rift_db) \<and>
   (\<exists>r. rift_level_body 100 sample_constants sample_rift_db 1 = Inr (Some r) \<and>
        report_covers r sample_rift_logs \<and>
        start_timestamp r = 10 \<and> end_timestamp r = 40 \<and> log_count r = 4 \<and>
        end_timestamp r \<le> 100)"
proof -
  have srt: "most_recent_first (RiftDungeonLog_objects sample_rift_db)"
    by (simp add: most_recent_first_def sample_rift_db_def sample_rift_logs_def sample_log_def)
  have past: "\<forall>x\<in>set (RiftDungeonLog_objects sample_rift_db). timestamp x \<le> 100"
    by (simp add: sample_rift_db_def sample_rift_logs_def sample_log_def)
  have wf: "wf_model (RiftDungeonLog_model sample_rift_db)"
    by (simp add: sample_rift_db_def wf_sample_model)
  have ne: "rift_all_records 100 sample_rift_db 1 (GRADE_CHOICES sample_constants) \<noteq> []"
    unfolding sample_rift_all_records by (simp add: sample_rift_logs_def)
  from rift_level_body_created [OF wf ne, unfolded sample_rift_all_records] obtain data where
    body: "rift_level_body 100 sample_constants sample_rift_db 1 =
             Inr (Some (new_report 1 ''riftdungeonlog'' sample_rift_logs data))"
    by blast
  let ?r = "new_report 1 ''riftdungeonlog'' sample_rift_logs data"
  from report_time_range [of sample_rift_db 100 sample_constants 1 ?r,
      unfolded sample_rift_all_records] srt past body
  have "report_covers ?r sample_rift_logs \<and> end_timestamp ?r \<le> 100"
    by blast
  moreover have "start_timestamp ?r = 10" "end_timestamp ?r = 40" "log_count ?r = 4"
    by (simp_all add: sample_rift_logs_def sample_log_def)
  ultimately show ?thesis using srt body by blast
qed

lemma sample_dungeon_windows_45:
  "dungeon_records 45 sample_dungeon_db 1 = []"
  "dungeon_records 45 sample_dungeon_db 2 = [sample_log 2 2 0 50]"
  by (simp_all add: dungeon_records_def records_to_report_def sample_dungeon_db_def
      sample_log_def default_timespan_def default_minimum_count_def)

text \<open>
  C9 as stated fails for a log record stamped later than the time of the run: the window
  has no upper bound, so at time 45 the record of time 50 is reported with
  \<open>end_timestamp = 50\<close>.
\<close>

theorem report_end_after_now_counterexample:
  "most_recent_first (DungeonLog_objects sample_dungeon_db) \<and>
   (\<exists>r. generate_dungeon_log_reports 45 sample_constants sample_dungeon_db =
           (sample_dungeon_db\<lparr>LevelReport_objects := [r]\<rparr>, None) \<and>
         end_timestamp r = 50 \<and> \<not> end_timestamp r \<le> 45)"
proof -
  have srt: "most_recent_first (DungeonLog_objects sample_dungeon_db)"
    by (simp add: most_recent_first_def sample_dungeon_db_def sample_log_def)
  have "wf_model (DungeonLog_model sample_dungeon_db)"
    by (simp add: sample_dungeon_db_def wf_sample_model)
  from dungeon_level_body_created [OF this, of 45 2 sample_constants] obtain data where
    created: "dungeon_level_body 45 sample_constants sample_dungeon_db 2 =
       Inr (Some (new_report 2 ''dungeonlog'' [sample_log 2 2 0 50] data))"
    by (auto simp: sample_dungeon_windows_45)
  have skipped: "dungeon_level_body 45 sample_constants sample_dungeon_db 1 = Inr None"
    by (rule dungeon_level_body_skipped) (rule sample_dungeon_windows_45)
  have tables: "Level_objects sample_dungeon_db = [1, 2]"
    "map level (DungeonLog_objects sample_dungeon_db) = [2, 1]"
    "LevelReport_objects sample_dungeon_db = []"
    by (simp_all add: sample_dungeon_db_def sample_log_def)
  have "generate_dungeon_log_reports 45 sample_constants sample_dungeon_db =
          (sample_dungeon_db\<lparr>LevelReport_objects :=
             [new_report 2 ''dungeonlog'' [sample_log 2 2 0 50] data]\<rparr>, None)"
    using created skipped by (simp add: generate_dungeon_log_reports_def tables)
  then have "\<exists>r. generate_dungeon_log_reports 45 sample_constants sample_dungeon_db =
           (sample_dungeon_db\<lparr>LevelReport_objects := [r]\<rparr>, None) \<and>
         end_timestamp r = 50 \<and> \<not> end_timestamp r \<le> 45"
    by (intro exI [where x = "new_report 2 ''dungeonlog'' [sample_log 2 2 0 50] data"])
      (simp add: sample_log_def)
  with srt show ?thesis by blast
qed

text \<open>
  C7 (as the code has it). For a rift level with a record in the window of some grade and
  a well-formed model, the report's payload has one entry for each grade choice, in the
  order of the choices and with \<^verbatim>\<open>report\<close> \<^verbatim>\<open>None\<close> exactly for the grades without
  records, followed by the entry of grade \<^verbatim>\<open>'summary'\<close> holding the cross-grade summary
  of all windowed records. With unique primary keys and distinct grade codes, the counts
  of an item over the grades of the summary add up to the number of that item's drops on
  the windowed records.
\<close>

theorem rift_report_payload:
  assumes wf: "wf_model (RiftDungeonLog_model db)"
    and ne: "\<exists>(g, grade_desc)\<in>set (GRADE_CHOICES mc). rift_records now db lvl g \<noteq> []"
  shows "\<exists>rep entries summary.
     rift_level_body now mc db lvl = Inr (Some rep) \<and>
     report rep = JList (entries @ [jdict [(''grade'', JStr ''summary''),
                                           (''report'', JList summary)]]) \<and>
     length entries = length (GRADE_CHOICES mc) \<and>
     (\<forall>j<length (GRADE_CHOICES mc). \<exists>grade_report.
        entries ! j = jdict [(''grade'', JStr (snd (GRADE_CHOICES mc ! j))),
                             (''report'', grade_report)] \<and>
        (grade_report = JNone \<longleftrightarrow> rift_records now db lvl (fst (GRADE_CHOICES mc ! j)) = [])) \<and>
     grade_summary_report (RiftDungeonLog_model db) (GameItem_objects db) (Monster_objects db)
       (rift_all_records now db lvl (GRADE_CHOICES mc)) (GRADE_CHOICES mc) = Inr summary \<and>
     summary =
       map (grade_report_row
              (get_drop_querysets (RiftDungeonLog_model db)
                 (rift_all_records now db lvl (GRADE_CHOICES mc)))
              (rift_all_records now db lvl (GRADE_CHOICES mc))
              (seen_items (GameItem_objects db)
                 (get_drop_querysets (RiftDungeonLog_model db)
                    (rift_all_records now db lvl (GRADE_CHOICES mc))))
              (seen_monsters (Monster_objects db)
                 (get_drop_querysets (RiftDungeonLog_model db)
                    (rift_all_records now db lvl (GRADE_CHOICES mc)))))
         (GRADE_CHOICES mc) \<and>
     (\<forall>g i. jget ''count''
              (grade_item_row
                 (get_drop_querysets (RiftDungeonLog_model db)
                    (rift_all_records now db lvl (GRADE_CHOICES mc)))
                 (rift_all_records now db lvl (GRADE_CHOICES mc)) g i) =
            Some (JInt (int (length
              (grade_item_matching
                 (get_drop_querysets (RiftDungeonLog_model db)
                    (rift_all_records now db lvl (GRADE_CHOICES mc)))
                 (in_grade g (rift_all_records now db lvl (GRADE_CHOICES mc))) i))))) \<and>
     (distinct (map log_pk (RiftDungeonLog_objects db)) \<and> distinct (map fst (GRADE_CHOICES mc)) \<longrightarrow>
        (\<forall>i. (\<Sum>(g, name)\<leftarrow>GRADE_CHOICES mc.
                 length (grade_item_matching
                           (get_drop_querysets (RiftDungeonLog_model db)
                              (rift_all_records now db lvl (GRADE_CHOICES mc)))
                           (in_grade g (rift_all_records now db lvl (GRADE_CHOICES mc))) i)) =
              length (filter (\<lambda>d. item_pk (idrop_item d) = item_pk i)
                        (item_drops_of
                           (get_drop_querysets (RiftDungeonLog_model db)
                              (rift_all_records now db lvl (GRADE_CHOICES mc)))))))"
proof -
  let ?all = "rift_all_records now db lvl (GRADE_CHOICES mc)"
  let ?drops = "get_drop_querysets (RiftDungeonLog_model db) ?all"
  let ?summary = "map (grade_report_row ?drops ?all (seen_items (GameItem_objects db) ?drops)
                         (seen_monsters (Monster_objects db) ?drops)) (GRADE_CHOICES mc)"
  from ne have all_ne: "?all \<noteq> []" by (auto simp: rift_all_records_Nil_iff)
  from rift_level_body_created [OF wf all_ne] obtain entries where
    body: "rift_level_body now mc db lvl =
       Inr (Some (new_report lvl ''riftdungeonlog'' ?all
         (JList (entries @
            [jdict [(''grade'', JStr ''summary''), (''report'', JList ?summary)]]))))"
    and len: "length entries = length (GRADE_CHOICES mc)"
    and each: "\<forall>j<length (GRADE_CHOICES mc). \<exists>grade_report.
        entries ! j = jdict [(''grade'', JStr (snd (GRADE_CHOICES mc ! j))),
                             (''report'', grade_report)] \<and>
        (grade_report = JNone \<longleftrightarrow> rift_records now db lvl (fst (GRADE_CHOICES mc ! j)) = [])"
    by blast
  let ?rep = "new_report lvl ''riftdungeonlog'' ?all
         (JList (entries @
            [jdict [(''grade'', JStr ''summary''), (''report'', JList ?summary)]]))"
  have payload: "report ?rep = JList (entries @ [jdict [(''grade'', JStr ''summary''),
                                           (''report'', JList ?summary)]])"
    by simp
  have summary: "grade_summary_report (RiftDungeonLog_model db) (GameItem_objects db)
       (Monster_objects db) ?all (GRADE_CHOICES mc) = Inr ?summary"
    by (rule grade_summary_report_eq [OF wf all_ne])
  have counts: "\<forall>g i. jget ''count'' (grade_item_row ?drops ?all g i) =
            Some (JInt (int (length (grade_item_matching ?drops (in_grade g ?all) i))))"
    by (simp add: jget_grade_item_row)
  have sums: "\<forall>i. (\<Sum>(g, name)\<leftarrow>GRADE_CHOICES mc.
                 length (grade_item_matching ?drops (in_grade g ?all) i)) =
              length (filter (\<lambda>d. item_pk (idrop_item d) = item_pk i) (item_drops_of ?drops))"
    if "distinct (map log_pk (RiftDungeonLog_objects db))" "distinct (map fst (GRADE_CHOICES mc))"
    using rift_grade_counts_sum [OF that] by blast
  from body payload len each summary counts sums show ?thesis by blast
qed

lemma sample_item_drops:
  "item_drops_of (get_drop_querysets sample_model sample_rift_logs) = [sample_item_drop 1 1]"
  by (simp add: item_drops_of_def map_of_get_drop_querysets recognized_keys_def related_names
      sample_model_def sample_rift_logs_def sample_log_def sample_item_drop_def)

theorem rift_report_payload_witness:
  "\<exists>rep payload.
     rift_level_body 100 two_grade_constants sample_rift_db 1 = Inr (Some rep) \<and>
     report rep = JList payload \<and> length payload = 3 \<and>
     jget ''grade'' (payload ! 0) = Some (JStr ''A'') \<and>
     jget ''grade'' (payload ! 1) = Some (JStr ''B'') \<and>
     jget ''grade'' (payload ! 2) = Some (JStr ''summary'') \<and>
     (\<Sum>(g, name)\<leftarrow>[(1, ''A''), (2, ''B'')].
        length (grade_item_matching (get_drop_querysets sample_model sample_rift_logs)
                  (in_grade g sample_rift_logs) sample_item)) = 1"
proof -
  have choices: "GRADE_CHOICES two_grade_constants = [(1, ''A''), (2, ''B'')]"
    by (simp add: two_grade_constants_def)
  have model: "RiftDungeonLog_model sample_rift_db = sample_model"
    "RiftDungeonLog_objects sample_rift_db = sample_rift_logs"
    by (simp_all add: sample_rift_db_def)
  have wf: "wf_model (RiftDungeonLog_model sample_rift_db)"
    by (simp add: model wf_sample_model)
  have ne: "\<exists>(g, grade_desc)\<in>set (GRADE_CHOICES two_grade_constants).
              rift_records 100 sample_rift_db 1 g \<noteq> []"
    unfolding choices by (simp add: sample_rift_windows del: One_nat_def)
  have dist: "distinct (map log_pk (RiftDungeonLog_objects sample_rift_db))"
    "distinct (map fst (GRADE_CHOICES two_grade_constants))"
    by (simp_all add: model choices sample_rift_logs_def sample_log_def)
  from rift_report_payload [OF wf ne, unfolded sample_rift_all_records model]
  obtain rep entries summary where
    body: "rift_level_body 100 two_grade_constants sample_rift_db 1 = Inr (Some rep)"
    and payload: "report rep = JList (entries @ [jdict [(''grade'', JStr ''summary''),
                                           (''report'', JList summary)]])"
    and len: "length entries = length (GRADE_CHOICES two_grade_constants)"
    and each: "\<forall>j<length (GRADE_CHOICES two_grade_constants). \<exists>grade_report.
        entries ! j = jdict [(''grade'', JStr (snd (GRADE_CHOICES two_grade_constants ! j))),
                             (''report'', grade_report)] \<and>
        (grade_report = JNone \<longleftrightarrow>
           rift_records 100 sample_rift_db 1 (fst (GRADE_CHOICES two_grade_constants ! j)) = [])"
    and sums: "distinct (map log_pk sample_rift_logs) \<and>
               distinct (map fst (GRADE_CHOICES two_grade_constants)) \<longrightarrow>
        (\<forall>i. (\<Sum>(g, name)\<leftarrow>GRADE_CHOICES two_grade_constants.
                 length (grade_item_matching (get_drop_querysets sample_model sample_rift_logs)
                           (in_grade g sample_rift_logs) i)) =
              length (filter (\<lambda>d. item_pk (idrop_item d) = item_pk i)
                        (item_drops_of (get_drop_querysets sample_model sample_rift_logs))))"
    by blast
  let ?payload = "entries @ [jdict [(''grade'', JStr ''summary''), (''report'', JList summary)]]"
  from len have len2: "length entries = 2" by (simp add: choices)
  then have "length ?payload = 3" by simp
  moreover from each len2 have "jget ''grade'' (?payload ! 0) = Some (JStr ''A'')"
    "jget ''grade'' (?payload ! 1) = Some (JStr ''B'')"
    by (auto simp: choices nth_append)
  moreover from len2 have "jget ''grade'' (?payload ! 2) = Some (JStr ''summary'')"
    by (simp add: nth_append)
  moreover from sums dist have
    "(\<Sum>(g, name)\<leftarrow>[(1, ''A''), (2, ''B'')].
        length (grade_item_matching (get_drop_querysets sample_model sample_rift_logs)
                  (in_grade g sample_rift_logs) sample_item)) = 1"
    unfolding choices model sample_item_drops by (simp add: sample_item_drop_def)
  ultimately show ?thesis using body payload by blast
qed

text \<open>
  C7 as stated fails when the grade choices hold a grade without records: with the
  choices A, B and C and records of the grades A and B only, the payload has four
  entries, the third being the entry of grade C with no report.
\<close>

theorem rift_report_payload_counterexample:
  "rift_records 100 sample_rift_db 1 1 \<noteq> [] \<and>
   rift_records 100 sample_rift_db 1 2 \<noteq> [] \<and>
   rift_records 100 sample_rift_db 1 3 = [] \<and>
   (\<exists>rep payload.
      rift_level_body 100 sample_constants sample_rift_db 1 = Inr (Some rep) \<and>
      report rep = JList payload \<and> length payload = 4 \<and>
      payload ! 2 = jdict [(''grade'', JStr ''C''), (''report'', JNone)] \<and>
      length payload \<noteq> 3)"
proof -
  have choices: "GRADE_CHOICES sample_constants = [(1, ''A''), (2, ''B''), (3, ''C'')]"
    by (simp add: sample_constants_def)
  have wf: "wf_model (RiftDungeonLog_model sample_rift_db)"
    by (simp add: sample_rift_db_def wf_sample_model)
  have ne: "rift_all_records 100 sample_rift_db 1 (GRADE_CHOICES sample_constants) \<noteq> []"
    unfolding sample_rift_all_records by (simp add: sample_rift_logs_def)
  from rift_level_body_created [OF wf ne] obtain entries data where
    body: "rift_level_body 100 sample_constants sample_rift_db 1 =
       Inr (Some (new_report 1 ''riftdungeonlog''
          (rift_all_records 100 sample_rift_db 1 (GRADE_CHOICES sample_constants))
          (JList (entries @ [data]))))"
    and len: "length entries = length (GRADE_CHOICES sample_constants)"
    and each: "\<forall>j<length (GRADE_CHOICES sample_constants). \<exists>grade_report.
        entries ! j = jdict [(''grade'', JStr (snd (GRADE_CHOICES sample_constants ! j))),
                             (''report'', grade_report)] \<and>
        (grade_report = JNone \<longleftrightarrow>
           rift_records 100 sample_rift_db 1 (fst (GRADE_CHOICES sample_constants ! j)) = [])"
    by blast
  let ?rep = "new_report 1 ''riftdungeonlog''
          (rift_all_records 100 sample_rift_db 1 (GRADE_CHOICES sample_constants))
          (JList (entries @ [data]))"
  from len have len3: "length entries = 3" by (simp add: choices)
  have "2 < length (GRADE_CHOICES sample_constants)" by (simp add: choices)
  with each have "\<exists>grade_report.
        entries ! 2 = jdict [(''grade'', JStr (snd (GRADE_CHOICES sample_constants ! 2))),
                             (''report'', grade_report)] \<and>
        (grade_report = JNone \<longleftrightarrow>
           rift_records 100 sample_rift_db 1 (fst (GRADE_CHOICES sample_constants ! 2)) = [])"
    by blast
  then have third: "entries ! 2 = jdict [(''grade'', JStr ''C''), (''report'', JNone)]"
    by (simp add: choices sample_rift_windows del: One_nat_def)
  have "report ?rep = JList (entries @ [data])" by simp
  moreover have "length (entries @ [data]) = 4" "length (entries @ [data]) \<noteq> 3"
    using len3 by simp_all
  moreover have "(entries @ [data]) ! 2 = jdict [(''grade'', JStr ''C''), (''report'', JNone)]"
    using len3 third by (simp add: nth_append)
  ultimately have "\<exists>rep payload.
      rift_level_body 100 sample_constants sample_rift_db 1 = Inr (Some rep) \<and>
      report rep = JList payload \<and> length payload = 4 \<and>
      payload ! 2 = jdict [(''grade'', JStr ''C''), (''report'', JNone)] \<and>
      length payload \<noteq> 3"
    using body by blast
  then show ?thesis by (simp add: sample_rift_windows del: One_nat_def)
qed

end
